theory Spec2Isabelle
  imports Complex_Main
begin

section \<open>Values shared by the embeddings\<close>

text \<open>
  A JavaScript exception (an \<open>Error\<close> object, or a rejected promise's reason) is the
  value \<open>Error msg\<close>. A function of the source that can throw returns \<open>error + 'a\<close>,
  with \<open>Inl\<close> for the throw.
\<close>

datatype error = Error string

text \<open>
  JavaScript numbers, as far as the sources compute with them: \<open>NaN\<close>, the two
  infinities and the finite values (rounding is not modelled, a finite value is a
  rational). \<open>undefined\<close> is \<open>None\<close> of an option type.
\<close>

datatype jsnum = JNaN | JPosInf | JNegInf | JFin rat

text \<open>Truthiness of a possibly undefined number: \<open>undefined\<close>, \<open>0\<close> and \<open>NaN\<close> are falsy.\<close>

fun truthy_num :: "jsnum option \<Rightarrow> bool" where
  "truthy_num None = False"
| "truthy_num (Some JNaN) = False"
| "truthy_num (Some (JFin q)) = (q \<noteq> 0)"
| "truthy_num (Some _) = True"

text \<open>
  The operator \<open>/\<close> of JavaScript. Division by zero does not throw: it yields an
  infinity, or \<open>NaN\<close> for \<open>0 / 0\<close> (signed zeros are not modelled).
\<close>

fun js_div :: "jsnum \<Rightarrow> jsnum \<Rightarrow> jsnum" where
  "js_div JNaN _ = JNaN"
| "js_div _ JNaN = JNaN"
| "js_div (JFin a) (JFin b) =
     (if b = 0 then (if a = 0 then JNaN else if a > 0 then JPosInf else JNegInf)
      else JFin (a / b))"
| "js_div (JFin a) _ = JFin 0"
| "js_div JPosInf (JFin b) = (if b < 0 then JNegInf else JPosInf)"
| "js_div JNegInf (JFin b) = (if b < 0 then JPosInf else JNegInf)"
| "js_div _ _ = JNaN"

text \<open>\<open>a || b\<close> on a possibly undefined string: the empty string is falsy.\<close>

fun str_or :: "string option \<Rightarrow> string \<Rightarrow> string" where
  "str_or None d = d"
| "str_or (Some s) d = (if s = [] then d else s)"

text \<open>\<open>s.startsWith(p)\<close> and \<open>s.includes(p)\<close>.\<close>

definition startsWith :: "string \<Rightarrow> string \<Rightarrow> bool" where
  "startsWith s p = (take (length p) s = p)"

fun str_includes :: "string \<Rightarrow> string \<Rightarrow> bool" where
  "str_includes [] p = (p = [])"
| "str_includes (c # cs) p = (startsWith (c # cs) p \<or> str_includes cs p)"

text \<open>
  \<open>s.split(sep)\<close> for a one-character separator: the pieces between the
  separators, at least one piece (\<open>''''.split('/')\<close> is \<open>['''']\<close>).
\<close>

fun split_acc :: "char \<Rightarrow> string \<Rightarrow> string \<Rightarrow> string list" where
  "split_acc sep cur [] = [rev cur]"
| "split_acc sep cur (c # cs) =
     (if c = sep then rev cur # split_acc sep [] cs else split_acc sep (c # cur) cs)"

definition js_split :: "char \<Rightarrow> string \<Rightarrow> string list" where
  "js_split sep s = split_acc sep [] s"

text \<open>\<open>xs[i]\<close> of JavaScript: \<open>undefined\<close> out of range.\<close>

fun nth_opt :: "'a list \<Rightarrow> nat \<Rightarrow> 'a option" where
  "nth_opt [] i = None"
| "nth_opt (x # xs) 0 = Some x"
| "nth_opt (x # xs) (Suc i) = nth_opt xs i"

text \<open>A small number as a template literal prints it (\<open>`${index + 1}`\<close>).\<close>

definition digit_char :: "nat \<Rightarrow> char" where
  "digit_char d = (''0123456789'' ! (d mod 10))"

fun show_nat :: "nat \<Rightarrow> string" where
  "show_nat n = (if n < 10 then [digit_char n] else show_nat (n div 10) @ [digit_char n])"

declare show_nat.simps [simp del]

section \<open>utils/ffmpeg.ts\<close>

subsection \<open>getVideoParams\<close>

text \<open>
  One stream of the \<open>ffprobe\<close> metadata, with the fields \<open>getVideoParams\<close> reads.
  Every field is optional in the library's typing.
\<close>

record ffprobe_stream =
  codec_type :: "string option"
  width :: "int option"
  height :: "int option"
  r_frame_rate :: "string option"
  avg_frame_rate :: "string option"
  bit_rate :: "string option"
  max_bit_rate :: "string option"

record VideoParams =
  vp_width :: int
  vp_height :: int
  vp_bitrate :: string
  vp_maxbitrate :: string
  vp_fps :: jsnum

text \<open>
  \<open>const [numerator, denominator] = rFrameRate.split('/').map(Number)\<close>. The global
  \<open>Number\<close> (string to number) is a parameter.
\<close>

definition rate_parts :: "(string \<Rightarrow> jsnum) \<Rightarrow> string \<Rightarrow> jsnum option \<times> jsnum option" where
  "rate_parts Number r =
     (let ns = map Number (js_split CHR ''/'' r) in (nth_opt ns 0, nth_opt ns 1))"

text \<open>
  \<open>fps = (denominator && denominator !== 0) ? numerator / denominator : 0\<close>, for a
  truthy \<open>rFrameRate\<close>; \<open>fps\<close> stays \<open>0\<close> for a falsy one.
\<close>

definition fps_of :: "(string \<Rightarrow> jsnum) \<Rightarrow> string \<Rightarrow> jsnum" where
  "fps_of Number rFrameRate =
     (if rFrameRate = [] then JFin 0
      else case rate_parts Number rFrameRate of
        (numerator, denominator) \<Rightarrow>
          (if truthy_num denominator \<and> denominator \<noteq> Some (JFin 0)
           then js_div (case numerator of Some n \<Rightarrow> n | None \<Rightarrow> JNaN) (the denominator)
           else JFin 0))"

definition is_video :: "ffprobe_stream \<Rightarrow> bool" where
  "is_video st = (codec_type st = Some ''video'')"

definition truthy_int :: "int option \<Rightarrow> bool" where
  "truthy_int v = (case v of None \<Rightarrow> False | Some n \<Rightarrow> n \<noteq> 0)"

text \<open>
  \<open>getVideoParams(videoPath)\<close>. The callback of \<open>ffmpeg.ffprobe\<close> receives an error or
  the metadata's streams: \<open>probe\<close>. The promise resolves (\<open>Inr\<close>) or rejects (\<open>Inl\<close>).
\<close>

definition getVideoParams ::
  "(string \<Rightarrow> jsnum) \<Rightarrow> string \<Rightarrow> error + ffprobe_stream list \<Rightarrow> error + VideoParams" where
  "getVideoParams Number videoPath probe =
     (case probe of
        Inl err \<Rightarrow> Inl err
      | Inr streams \<Rightarrow>
          (case find is_video streams of
             Some videoStream \<Rightarrow>
               (if truthy_int (width videoStream) \<and> truthy_int (height videoStream) then
                  let rFrameRate = str_or (r_frame_rate videoStream)
                                     (str_or (avg_frame_rate videoStream) [])
                  in Inr \<lparr> vp_width = the (width videoStream),
                           vp_height = the (height videoStream),
                           vp_bitrate = str_or (bit_rate videoStream) ''N/A'',
                           vp_maxbitrate = str_or (max_bit_rate videoStream) ''N/A'',
                           vp_fps = fps_of Number rFrameRate \<rparr>
                else Inl (Error (''Unable to get video parameters for '' @ videoPath)))
           | None \<Rightarrow> Inl (Error (''Unable to get video parameters for '' @ videoPath))))"

subsection \<open>ffmpegScreenshot\<close>

text \<open>
  \<open>const ffmpegRunning: Record<string, boolean>\<close>: the lock table, a map from video
  paths to flags. A missing key reads \<open>undefined\<close>, which is falsy.
\<close>

type_synonym lock_table = "string \<rightharpoonup> bool"

definition running :: "lock_table \<Rightarrow> string \<Rightarrow> bool" where
  "running L videoPath = (L videoPath = Some True)"

text \<open>
  What \<open>ffmpegScreenshot\<close> takes from outside: \<open>path.parse(p).name\<close>, \<open>path.join\<close>,
  \<open>config.previewCacheDir\<close>, and the run of one ffmpeg screenshot command, which ends
  (\<open>None\<close>) or emits an error (\<open>Some err\<close>).
\<close>

record shot_env =
  parse_name :: "string \<Rightarrow> string"
  path_join :: "string \<Rightarrow> string \<Rightarrow> string"
  previewCacheDir :: string
  screenshot :: "string \<Rightarrow> string \<Rightarrow> string \<Rightarrow> error option"

definition timestamps :: "string list" where
  "timestamps = [''10%'', ''30%'', ''50%'', ''70%'', ''90%'']"

text \<open>
  The \<open>for\<close> loop over \<open>timestamps.entries()\<close>: one screenshot after the other, the
  file path pushed on \<open>images\<close> at each end event; the first error rejects the awaited
  promise and leaves the loop.
\<close>

fun take_shots ::
  "shot_env \<Rightarrow> string \<Rightarrow> string \<Rightarrow> (nat \<times> string) list \<Rightarrow> string list \<Rightarrow> error + string list" where
  "take_shots E videoPath videoName [] images = Inr images"
| "take_shots E videoPath videoName ((index, timestamp) # rest) images =
     (let filename = videoName @ ''-'' @ show_nat (index + 1) @ ''.jpg'' in
      case screenshot E videoPath filename timestamp of
        Some err \<Rightarrow> Inl err
      | None \<Rightarrow>
          take_shots E videoPath videoName rest
            (images @ [path_join E (previewCacheDir E) filename]))"

text \<open>
  \<open>while (ffmpegRunning[videoPath]) await sleep(200)\<close>. Between two polls the other
  tasks of the process run: \<open>others k\<close> is what they do to the table during the
  \<open>k\<close>-th sleep. The loop may poll forever, so it runs on fuel: \<open>None\<close> is a call
  still waiting after \<open>fuel\<close> polls.
\<close>

fun wait_free ::
  "(nat \<Rightarrow> lock_table \<Rightarrow> lock_table) \<Rightarrow> string \<Rightarrow> nat \<Rightarrow> nat \<Rightarrow> lock_table \<Rightarrow> lock_table option" where
  "wait_free others videoPath 0 k L = (if running L videoPath then None else Some L)"
| "wait_free others videoPath (Suc fuel) k L =
     (if running L videoPath then wait_free others videoPath fuel (Suc k) (others k L)
      else Some L)"

text \<open>
  \<open>ffmpegScreenshot(videoPath)\<close>: wait for the lock, take it, run the screenshots in
  the \<open>try\<close>, release the lock in the \<open>finally\<close>. The result is the settled promise
  (resolved with the images, or rejected) and the lock table after the call.
\<close>

definition ffmpegScreenshot ::
  "shot_env \<Rightarrow> (nat \<Rightarrow> lock_table \<Rightarrow> lock_table) \<Rightarrow> nat \<Rightarrow> string \<Rightarrow> lock_table
     \<Rightarrow> ((error + string list) \<times> lock_table) option" where
  "ffmpegScreenshot E others fuel videoPath L =
     (case wait_free others videoPath fuel 0 L of
        None \<Rightarrow> None
      | Some L1 \<Rightarrow>
          let L2 = L1(videoPath \<mapsto> True);
              videoName = parse_name E videoPath;
              result = take_shots E videoPath videoName (enumerate 0 timestamps) []
          in Some (result, L2(videoPath \<mapsto> False)))"

subsection \<open>Concrete inputs for the ffmpeg utilities\<close>

definition Number0 :: "string \<Rightarrow> jsnum" where
  "Number0 s = (if s = ''30000'' then JFin 30000 else if s = ''0'' then JFin 0 else JNaN)"

definition probe0 :: "ffprobe_stream list" where
  "probe0 =
     [\<lparr>codec_type = Some ''audio'', width = None, height = None, r_frame_rate = None,
        avg_frame_rate = None, bit_rate = None, max_bit_rate = None\<rparr>,
      \<lparr>codec_type = Some ''video'', width = Some 1920, height = Some 1080,
        r_frame_rate = Some ''30000/0'', avg_frame_rate = None, bit_rate = None,
        max_bit_rate = None\<rparr>]"

definition params0 :: VideoParams where
  "params0 = \<lparr>vp_width = 1920, vp_height = 1080, vp_bitrate = ''N/A'',
               vp_maxbitrate = ''N/A'', vp_fps = JFin 0\<rparr>"

definition shots_fail :: shot_env where
  "shots_fail = \<lparr> parse_name = (\<lambda>p. ''clip''), path_join = (\<lambda>d f. d @ ''/'' @ f),
                  previewCacheDir = ''cache'',
                  screenshot = (\<lambda>p f t. if t = ''50%'' then Some (Error ''ffmpeg exited with code 1'') else None) \<rparr>"

definition shots_ok :: shot_env where
  "shots_ok = shots_fail \<lparr> screenshot := (\<lambda>p f t. None) \<rparr>"

section \<open>utils/shared.ts (GeneralUtils), utils/youtube.ts, services/media.ts\<close>

subsection \<open>Exceptions\<close>

text \<open>
  \<open>await\<close> of a call that may reject, followed by more code, is \<open>bindE\<close>; a
  \<open>try { body } catch (e) { handler }\<close> is \<open>try_catch body handler\<close>.
\<close>

definition bindE :: "error + 'a \<Rightarrow> ('a \<Rightarrow> error + 'b) \<Rightarrow> error + 'b" where
  "bindE m f = (case m of Inl err \<Rightarrow> Inl err | Inr v \<Rightarrow> f v)"

definition try_catch :: "error + 'a \<Rightarrow> (error \<Rightarrow> error + 'a) \<Rightarrow> error + 'a" where
  "try_catch body handler = (case body of Inl err \<Rightarrow> handler err | Inr v \<Rightarrow> Inr v)"

subsection \<open>Data\<close>

text \<open>The \<open>type\<close> of a media source: \<open>'youtube' | 'twitch' | 'local' | 'url'\<close>.\<close>

datatype media_type = Tyoutube | Ttwitch | Tlocal | Turl

text \<open>
  \<open>MediaSource\<close>: \<open>{url, title, type, isLive?, headers?}\<close>. A \<open>Record<string, string>\<close>
  is an association list in insertion order.
\<close>

type_synonym header_map = "(string \<times> string) list"

record MediaSource =
  url :: string
  title :: string
  mtype :: media_type
  isLive :: "bool option"
  headers :: "header_map option"

text \<open>Assigning a property of an object: an existing key keeps its place.\<close>

fun set_header :: "string \<Rightarrow> string \<Rightarrow> header_map \<Rightarrow> header_map" where
  "set_header k v [] = [(k, v)]"
| "set_header k v ((k', v') # hs) =
     (if k = k' then (k, v) # hs else (k', v') # set_header k v hs)"

text \<open>The object spread \<open>{...a, ...b}\<close>.\<close>

definition spread :: "header_map \<Rightarrow> header_map \<Rightarrow> header_map" where
  "spread a b = fold (\<lambda>(k, v) hs. set_header k v hs) b a"

text \<open>What yt-dlp prints for a video, as \<open>Youtube.getVideoInfo\<close> reads it.\<close>

record video_data =
  vd_id :: "string option"
  vd_title :: "string option"
  is_live :: "bool option"
  live_status :: "string option"

record YouTubeVideo =
  yv_id :: string
  yv_title :: string
  isLiveContent :: bool

text \<open>One entry of \<open>formats\<close> and the \<open>YTResponse\<close> metadata of \<open>ytdl(url, {dumpJson ...})\<close>.\<close>

record yt_format =
  f_url :: "string option"
  f_ext :: "string option"
  vcodec :: "string option"
  acodec :: "string option"
  f_height :: "int option"

record YTResponse =
  r_url :: "string option"
  r_title :: "string option"
  http_headers :: "header_map option"
  formats :: "yt_format list option"

text \<open>One result of the play-dl search.\<close>

record search_hit =
  hit_url :: "string option"
  hit_title :: "string option"

text \<open>
  How the headless-browser extraction of \<open>_resolveEmbedSource\<close> ends: the launch or the
  navigation throws, the 15 s timer rejects, or a response with a media URL is
  intercepted.
\<close>

datatype embed_outcome = LaunchFailed error | Timeout | Intercepted string

text \<open>
  The collaborators of the resolver, each a function of its argument: the two yt-dlp
  invocations of \<open>utils/youtube.ts\<close>, the metadata dump of \<open>services/media.ts\<close>
  (\<open>None\<close> is a falsy result), the browser extraction, the play-dl search, the file
  system tests of \<open>isLocalFile\<close>, \<open>new URL(url).pathname\<close>, \<open>decodeURIComponent\<close> and
  \<open>path.basename(url, path.extname(url))\<close>.
\<close>

record resolver_env =
  ytdlp_video_info :: "string \<Rightarrow> error + video_data"
  ytdlp_get_url :: "string \<Rightarrow> error + string option"
  ytdl_metadata :: "string \<Rightarrow> error + YTResponse option"
  extract_embed :: "string \<Rightarrow> embed_outcome"
  yts_search :: "string \<Rightarrow> error + search_hit list"
  fs_existsSync :: "string \<Rightarrow> bool"
  fs_lstat_isFile :: "string \<Rightarrow> error + bool"
  url_pathname :: "string \<Rightarrow> error + string"
  decodeURIComponent :: "string \<Rightarrow> error + string"
  path_basename_noext :: "string \<Rightarrow> string"

subsection \<open>GeneralUtils\<close>

text \<open>
  \<open>isValidUrl(input)\<close>: the empty string is falsy; otherwise one of the listed host
  names occurs in the input, or it starts with \<open>http://\<close> or \<open>https://\<close>.
\<close>

definition isValidUrl :: "string \<Rightarrow> bool" where
  "isValidUrl input =
     (if input = [] then False
      else str_includes input ''youtube.com/'' \<or>
           str_includes input ''youtu.be/'' \<or>
           str_includes input ''twitch.tv/'' \<or>
           str_includes input ''cinemaos.tech/'' \<or>
           str_includes input ''vidking.net/'' \<or>
           startsWith input ''http://'' \<or>
           startsWith input ''https://'')"

text \<open>\<open>isLocalFile(filePath)\<close>: \<open>existsSync && lstatSync(...).isFile()\<close>, \<open>false\<close> on a throw.\<close>

definition isLocalFile :: "resolver_env \<Rightarrow> string \<Rightarrow> bool" where
  "isLocalFile E filePath =
     (case try_catch
             (if fs_existsSync E filePath then fs_lstat_isFile E filePath else Inr False)
             (\<lambda>error. Inr False) of
        Inr b \<Rightarrow> b
      | Inl _ \<Rightarrow> False)"

subsection \<open>Youtube (utils/youtube.ts)\<close>

definition isValidVideoData :: "video_data \<Rightarrow> bool" where
  "isValidVideoData d = (vd_id d \<noteq> None \<and> vd_title d \<noteq> None)"

definition getVideoInfo :: "resolver_env \<Rightarrow> string \<Rightarrow> error + YouTubeVideo option" where
  "getVideoInfo E u =
     try_catch
       (bindE (ytdlp_video_info E u) (\<lambda>videoData.
          if isValidVideoData videoData then
            Inr (Some \<lparr> yv_id = the (vd_id videoData), yv_title = the (vd_title videoData),
                        isLiveContent = (is_live videoData = Some True \<or>
                                         live_status videoData = Some ''is_live'') \<rparr>)
          else Inr None))
       (\<lambda>error. Inr None)"

text \<open>\<open>s.trim()\<close>, for the white space yt-dlp prints around a URL.\<close>

definition is_space :: "char \<Rightarrow> bool" where
  "is_space c = (c \<in> set [CHR '' '', CHR 0x09, CHR 0x0A, CHR 0x0B, CHR 0x0C, CHR 0x0D])"

definition trim :: "string \<Rightarrow> string" where
  "trim s = rev (dropWhile is_space (rev (dropWhile is_space s)))"

definition getLiveStreamUrl :: "resolver_env \<Rightarrow> string \<Rightarrow> error + string option" where
  "getLiveStreamUrl E youtubePageUrl =
     try_catch
       (bindE (ytdlp_get_url E youtubePageUrl) (\<lambda>streamUrl.
          case streamUrl of
            Some s \<Rightarrow> (if trim s \<noteq> [] then Inr (Some (trim s)) else Inr None)
          | None \<Rightarrow> Inr None))
       (\<lambda>error. Inr None)"

definition searchAndGetPageUrl ::
  "resolver_env \<Rightarrow> string \<Rightarrow> error + (string option \<times> string option)" where
  "searchAndGetPageUrl E t =
     try_catch
       (bindE (yts_search E t) (\<lambda>results.
          case results of
            [] \<Rightarrow> Inr (None, None)
          | hit # _ \<Rightarrow>
              (if str_or (hit_url hit) [] = [] then Inr (None, None)
               else Inr (hit_url hit,
                         if str_or (hit_title hit) [] = [] then None else hit_title hit))))
       (\<lambda>error. Inr (None, None))"

subsection \<open>MediaService: the strategies\<close>

definition resolveYouTubeSource :: "resolver_env \<Rightarrow> string \<Rightarrow> error + MediaSource option" where
  "resolveYouTubeSource E u =
     bindE (getVideoInfo E u) (\<lambda>videoDetails.
       case videoDetails of
         None \<Rightarrow> Inr None
       | Some details \<Rightarrow>
           let live = isLiveContent details in
           bindE (if live then getLiveStreamUrl E u else Inr (Some u)) (\<lambda>streamUrl.
             if str_or streamUrl [] \<noteq> [] then
               Inr (Some \<lparr> url = the streamUrl, title = yv_title details, mtype = Tyoutube,
                           isLive = Some live, headers = None \<rparr>)
             else Inr None))"

text \<open>\<open>url.split('/').pop()\<close>: the last piece.\<close>

definition last_segment :: "string \<Rightarrow> string" where
  "last_segment u = last (js_split CHR ''/'' u)"

definition resolveTwitchSource :: "resolver_env \<Rightarrow> string \<Rightarrow> error + MediaSource option" where
  "resolveTwitchSource E u =
     try_catch
       (bindE (ytdl_metadata E u) (\<lambda>metadata.
          case metadata of
            None \<Rightarrow> Inr None
          | Some m \<Rightarrow>
              (if str_or (r_url m) [] \<noteq> [] then
                 Inr (Some \<lparr> url = the (r_url m),
                             title = str_or (r_title m) (''twitch.tv/'' @ last_segment u),
                             mtype = Ttwitch, isLive = Some True,
                             headers = Some (set_header ''Referer'' ''https://www.twitch.tv/''
                                               (case http_headers m of None \<Rightarrow> [] | Some hs \<Rightarrow> hs)) \<rparr>)
               else Inr None)))
       (\<lambda>error. Inr None)"

definition chrome120 :: string where
  "chrome120 = ''Mozilla/5.0 (Windows NT 10.0; Win64; x64) AppleWebKit/537.36 (KHTML, like Gecko) Chrome/120.0.0.0 Safari/537.36''"

definition resolveEmbedSource :: "resolver_env \<Rightarrow> string \<Rightarrow> error + MediaSource option" where
  "resolveEmbedSource E u =
     try_catch
       (case extract_embed E u of
          LaunchFailed err \<Rightarrow> Inl err
        | Timeout \<Rightarrow>
            try_catch (Inl (Error ''Timeout waiting for stream URL'')) (\<lambda>err. Inr None)
        | Intercepted streamUrl \<Rightarrow>
            Inr (Some \<lparr> url = streamUrl, title = ''Extracted Stream'', mtype = Turl,
                        isLive = None,
                        headers = Some [(''Referer'', u), (''User-Agent'', chrome120)] \<rparr>))
       (\<lambda>error. Inr None)"

definition resolveLocalSource :: "resolver_env \<Rightarrow> string \<Rightarrow> MediaSource" where
  "resolveLocalSource E u =
     \<lparr> url = u, title = path_basename_noext E u, mtype = Tlocal, isLive = None, headers = None \<rparr>"

text \<open>
  The score of a format in the comparator of \<open>_resolveDirectUrlSource\<close>, and the head
  of the filtered formats sorted by descending score (the sort is stable).
\<close>

definition codec_present :: "string option \<Rightarrow> bool" where
  "codec_present c = (str_or c [] \<noteq> [] \<and> c \<noteq> Some ''none'')"

definition format_score :: "yt_format \<Rightarrow> rat" where
  "format_score f =
     (if codec_present (vcodec f) then 1 else 0) + (if codec_present (acodec f) then 1 else 0) +
     of_int (case f_height f of None \<Rightarrow> 0 | Some h \<Rightarrow> h) / 1000"

definition bestFormat :: "yt_format list \<Rightarrow> yt_format option" where
  "bestFormat fs =
     (case sort_key (\<lambda>f. - format_score f)
             (filter (\<lambda>f. str_or (f_url f) [] \<noteq> [] \<and> f_ext f \<noteq> Some ''m3u8'') fs) of
        [] \<Rightarrow> None
      | b # _ \<Rightarrow> Some b)"

text \<open>
  \<open>filename.replace(/\.[^/.]+$/, "")\<close>: a last dot followed by at least one character
  (none of them a slash) is cut off with what follows it.
\<close>

definition strip_ext :: "string \<Rightarrow> string" where
  "strip_ext f =
     (let suffix = rev (takeWhile (\<lambda>c. c \<noteq> CHR ''.'') (rev f)) in
      if CHR ''.'' \<in> set f \<and> suffix \<noteq> [] \<and> CHR ''/'' \<notin> set suffix
      then take (length f - length suffix - 1) f else f)"

text \<open>The second \<open>try\<close> of \<open>_resolveDirectUrlSource\<close>: the title from the URL's path.\<close>

definition fallback_title :: "resolver_env \<Rightarrow> string \<Rightarrow> string" where
  "fallback_title E u =
     (case try_catch
             (bindE (url_pathname E u) (\<lambda>pathname.
                let filename = last_segment pathname in
                if filename \<noteq> [] \<and> str_includes filename ''.'' then
                  decodeURIComponent E (strip_ext filename)
                else if pathname \<noteq> ''/'' \<and> length pathname > 1 then
                  (let pathSegment = last_segment pathname in
                   if pathSegment \<noteq> [] then decodeURIComponent E pathSegment
                   else Inr ''Direct URL'')
                else Inr ''Direct URL''))
             (\<lambda>e. Inr ''Direct URL'') of
        Inr t \<Rightarrow> t
      | Inl _ \<Rightarrow> ''Direct URL'')"

text \<open>
  \<open>_resolveDirectUrlSource(url)\<close>. The first \<open>try\<close> returns from inside when the
  metadata has a title (\<open>Some\<close>); otherwise, and on a throw, control reaches the
  fallback.
\<close>

definition probe_metadata :: "resolver_env \<Rightarrow> string \<Rightarrow> error + MediaSource option" where
  "probe_metadata E u =
     try_catch
       (bindE (ytdl_metadata E u) (\<lambda>metadata.
          case metadata of
            None \<Rightarrow> Inr None
          | Some m \<Rightarrow>
              (if str_or (r_title m) [] \<noteq> [] then
                 let streamUrl =
                       (case formats m of
                          None \<Rightarrow> u
                        | Some fs \<Rightarrow>
                            (if length fs > 0 then
                               (case bestFormat fs of
                                  Some b \<Rightarrow> (if str_or (f_url b) [] \<noteq> [] then the (f_url b) else u)
                                | None \<Rightarrow> u)
                             else u))
                 in Inr (Some \<lparr> url = streamUrl, title = the (r_title m), mtype = Turl,
                                isLive = None, headers = None \<rparr>)
               else Inr None)))
       (\<lambda>error. Inr None)"

definition resolveDirectUrlSource :: "resolver_env \<Rightarrow> string \<Rightarrow> error + MediaSource" where
  "resolveDirectUrlSource E u =
     bindE (probe_metadata E u) (\<lambda>probed.
       case probed of
         Some source \<Rightarrow> Inr source
       | None \<Rightarrow>
           Inr \<lparr> url = u, title = fallback_title E u, mtype = Turl, isLive = None,
                 headers = None \<rparr>)"

definition searchAndPlayYouTube :: "resolver_env \<Rightarrow> string \<Rightarrow> error + MediaSource option" where
  "searchAndPlayYouTube E query =
     try_catch
       (bindE (searchAndGetPageUrl E query) (\<lambda>(pageUrl, t).
          if str_or pageUrl [] \<noteq> [] \<and> str_or t [] \<noteq> [] then
            Inr (Some \<lparr> url = the pageUrl, title = the t, mtype = Tyoutube, isLive = None,
                        headers = None \<rparr>)
          else Inr None))
       (\<lambda>error. Inr None)"

subsection \<open>MediaService.resolveMediaSource\<close>

text \<open>
  The body is one \<open>try\<close> whose \<open>catch\<close> returns \<open>null\<close>. The first three branches
  \<open>return await\<close> their strategy, so a rejection is caught here. The direct-URL and the
  search branch return the strategy's promise without awaiting it: a rejection of
  theirs would pass the \<open>catch\<close> by and reach the caller.
\<close>

definition resolveMediaSource :: "resolver_env \<Rightarrow> string \<Rightarrow> error + MediaSource option" where
  "resolveMediaSource E u =
     (if str_includes u ''youtube.com/'' \<or> str_includes u ''youtu.be/'' then
        try_catch (resolveYouTubeSource E u) (\<lambda>error. Inr None)
      else if str_includes u ''twitch.tv/'' then
        try_catch (resolveTwitchSource E u) (\<lambda>error. Inr None)
      else if str_includes u ''vidsrc.cc'' \<or> str_includes u ''vidlink.pro'' then
        try_catch (resolveEmbedSource E u) (\<lambda>error. Inr None)
      else if isLocalFile E u then
        Inr (Some (resolveLocalSource E u))
      else if isValidUrl u then
        bindE (resolveDirectUrlSource E u) (\<lambda>source. Inr (Some source))
      else
        searchAndPlayYouTube E u)"

subsection \<open>The dispatch order, as the specification words it\<close>

text \<open>
  The six strategies, and the table of section 4.2 of the specification: the
  strategies in priority order, each with the test of the source that selects it;
  free-text search is the default. \<open>first_match\<close> is the first strategy of the table
  whose test accepts the input.
\<close>

datatype strategy = YouTubeS | TwitchS | EmbedS | LocalS | DirectS | SearchS

definition strategy_table :: "((resolver_env \<Rightarrow> string \<Rightarrow> bool) \<times> strategy) list" where
  "strategy_table =
     [(\<lambda>E u. str_includes u ''youtube.com/'' \<or> str_includes u ''youtu.be/'', YouTubeS),
      (\<lambda>E u. str_includes u ''twitch.tv/'', TwitchS),
      (\<lambda>E u. str_includes u ''vidsrc.cc'' \<or> str_includes u ''vidlink.pro'', EmbedS),
      (\<lambda>E u. isLocalFile E u, LocalS),
      (\<lambda>E u. isValidUrl u, DirectS)]"

definition first_match :: "resolver_env \<Rightarrow> string \<Rightarrow> strategy" where
  "first_match E u =
     (case find (\<lambda>(test, s). test E u) strategy_table of
        Some (test, s) \<Rightarrow> s
      | None \<Rightarrow> SearchS)"

text \<open>What the resolver returns when it runs one strategy alone.\<close>

fun run_strategy :: "resolver_env \<Rightarrow> strategy \<Rightarrow> string \<Rightarrow> error + MediaSource option" where
  "run_strategy E YouTubeS u = try_catch (resolveYouTubeSource E u) (\<lambda>error. Inr None)"
| "run_strategy E TwitchS u = try_catch (resolveTwitchSource E u) (\<lambda>error. Inr None)"
| "run_strategy E EmbedS u = try_catch (resolveEmbedSource E u) (\<lambda>error. Inr None)"
| "run_strategy E LocalS u = Inr (Some (resolveLocalSource E u))"
| "run_strategy E DirectS u = bindE (resolveDirectUrlSource E u) (\<lambda>source. Inr (Some source))"
| "run_strategy E SearchS u = searchAndPlayYouTube E u"

text \<open>
  "Parseable as an absolute URL", the fifth test in the specification's words: the
  input starts with a scheme (a letter, then letters, digits, \<open>+\<close>, \<open>-\<close> or \<open>.\<close>) and a
  colon.
\<close>

definition is_alpha :: "char \<Rightarrow> bool" where
  "is_alpha c = (c \<in> set ''abcdefghijklmnopqrstuvwxyzABCDEFGHIJKLMNOPQRSTUVWXYZ'')"

definition is_scheme_char :: "char \<Rightarrow> bool" where
  "is_scheme_char c = (is_alpha c \<or> c \<in> set ''0123456789+-.'')"

definition spec_parseable_absolute_url :: "string \<Rightarrow> bool" where
  "spec_parseable_absolute_url s =
     (case s of
        [] \<Rightarrow> False
      | c # cs \<Rightarrow> is_alpha c \<and>
          (case dropWhile is_scheme_char cs of [] \<Rightarrow> False | d # _ \<Rightarrow> d = CHR '':''))"

subsection \<open>Concrete inputs for the resolver\<close>

text \<open>
  A resolver environment in which every collaborator fails: the yt-dlp calls and the
  search reject, the browser extraction throws, no file exists. The URL parser and
  the decoder work on the paths of the example URLs.
\<close>

definition env_down :: resolver_env where
  "env_down =
     \<lparr> ytdlp_video_info = (\<lambda>u. Inl (Error ''yt-dlp failed'')),
       ytdlp_get_url = (\<lambda>u. Inl (Error ''yt-dlp failed'')),
       ytdl_metadata = (\<lambda>u. Inl (Error ''yt-dlp failed'')),
       extract_embed = (\<lambda>u. LaunchFailed (Error ''no browser'')),
       yts_search = (\<lambda>q. Inl (Error ''search failed'')),
       fs_existsSync = (\<lambda>p. False),
       fs_lstat_isFile = (\<lambda>p. Inl (Error ''ENOENT'')),
       url_pathname = (\<lambda>u. if u = ''https://example.com/videos/clip.mp4''
                             then Inr ''/videos/clip.mp4'' else Inl (Error ''Invalid URL'')),
       decodeURIComponent = (\<lambda>s. Inr s),
       path_basename_noext = (\<lambda>p. p) \<rparr>"

text \<open>The same environment with a search backend that finds one video.\<close>

definition env_search :: resolver_env where
  "env_search =
     env_down \<lparr> yts_search := (\<lambda>q. Inr [\<lparr> hit_url = Some ''https://www.youtube.com/watch?v=abc'',
                                            hit_title = Some ''A video'' \<rparr>]) \<rparr>"

section \<open>The playback queue\<close>

subsection \<open>Queue items\<close>

text \<open>
  A \<open>QueueItem\<close> has the fields of a media source and, as the streaming service reads
  and writes them, \<open>id\<close>, \<open>requestedBy\<close>, \<open>originalInput\<close>, \<open>downloadPath\<close> and
  \<open>downloadPromise\<close>. The promise of a background download is identified with the
  value it settles with: rejected (\<open>Inl\<close>), or resolved with a path or \<open>null\<close>.
  An id is identified with the value of the counter that issued it.
\<close>

record QueueItem = MediaSource +
  item_id :: nat
  requestedBy :: string
  originalInput :: "string option"
  downloadPath :: "string option"
  downloadPromise :: "(error + string option) option"

text \<open>
  The state of the queue service, as \<open>getQueueStatus()\<close> shows it to \<open>saveState\<close>
  (\<open>items\<close>, \<open>currentIndex\<close>), with the playing flag and the counter of the item ids.
\<close>

record queue_state =
  items :: "QueueItem list"
  currentIndex :: int
  isPlaying :: bool
  nextId :: nat

definition empty_queue :: queue_state where
  "empty_queue = \<lparr> items = [], currentIndex = - 1, isPlaying = False, nextId = 1 \<rparr>"

text \<open>
  Modelled from the spec: \<open>QueueService\<close> (\<open>services/queue.ts\<close>) is not among the
  sources. Section 3 and section 4.1 of the specification give the cursor (the index
  of the current item, \<open>-1\<close> when absent), \<open>length\<close>, \<open>isEmpty\<close>, \<open>setPlaying\<close>, the reset
  of the cursor, \<open>clear\<close> (empties the sequence and resets the cursor) and \<open>enqueue\<close>
  (appends, always succeeds, assigns a fresh id from a counter that is never reused).
\<close>

definition getCurrent :: "queue_state \<Rightarrow> QueueItem option" where
  "getCurrent q = (if currentIndex q < 0 then None else nth_opt (items q) (nat (currentIndex q)))"

definition getLength :: "queue_state \<Rightarrow> nat" where
  "getLength q = length (items q)"

definition isEmpty :: "queue_state \<Rightarrow> bool" where
  "isEmpty q = (items q = [])"

definition setPlaying :: "bool \<Rightarrow> queue_state \<Rightarrow> queue_state" where
  "setPlaying b q = q \<lparr> isPlaying := b \<rparr>"

definition resetCurrentIndex :: "queue_state \<Rightarrow> queue_state" where
  "resetCurrentIndex q = q \<lparr> currentIndex := - 1 \<rparr>"

definition clearQueue :: "queue_state \<Rightarrow> queue_state" where
  "clearQueue q = q \<lparr> items := [], currentIndex := - 1 \<rparr>"

definition queue_add ::
  "string \<Rightarrow> string \<Rightarrow> string \<Rightarrow> media_type \<Rightarrow> bool option \<Rightarrow> string \<Rightarrow> header_map option
     \<Rightarrow> queue_state \<Rightarrow> QueueItem \<times> queue_state" where
  "queue_add u t username ty live input hs q =
     (let queueItem = \<lparr> url = u, title = t, mtype = ty, isLive = live, headers = hs,
                         item_id = nextId q, requestedBy = username,
                         originalInput = Some input, downloadPath = None,
                         downloadPromise = None \<rparr>
      in (queueItem, q \<lparr> items := items q @ [queueItem], nextId := nextId q + 1 \<rparr>))"

definition queue_addToQueue ::
  "MediaSource \<Rightarrow> string \<Rightarrow> string \<Rightarrow> queue_state \<Rightarrow> QueueItem \<times> queue_state" where
  "queue_addToQueue mediaSource username input q =
     queue_add (url mediaSource) (title mediaSource) username (mtype mediaSource)
       (isLive mediaSource) input (headers mediaSource) q"

text \<open>
  The three operations that move the cursor, \<open>getNext\<close>, \<open>skip\<close> and
  \<open>removeFromQueue\<close>, are parameters of the service: the specification does not fix
  how they act together, and what is proved of the service holds for every
  implementation of them.
\<close>

record queue_ops =
  getNext :: "queue_state \<Rightarrow> QueueItem option \<times> queue_state"
  skip :: "queue_state \<Rightarrow> QueueItem option \<times> queue_state"
  removeFromQueue :: "nat \<Rightarrow> queue_state \<Rightarrow> queue_state"

text \<open>
  Writing a field of an item object changes the item wherever the queue holds it: the
  item is found by its id.
\<close>

definition update_item :: "nat \<Rightarrow> (QueueItem \<Rightarrow> QueueItem) \<Rightarrow> queue_state \<Rightarrow> queue_state" where
  "update_item i f q = q \<lparr> items := map (\<lambda>it. if item_id it = i then f it else it) (items q) \<rparr>"

subsection \<open>A first-in first-out instance of the cursor operations\<close>

text \<open>
  Modelled from the spec: an implementation of the three parameters, by the
  invariant of section 3 (removing the current item lets the next item shift into its
  slot, and the cursor becomes absent when no item is left there) and the lifecycle of
  the queue (an item is removed when the queue advances past it). \<open>getNext\<close> yields the
  item in the cursor's slot and claims slot \<open>0\<close> for an absent cursor; \<open>skip\<close> removes
  the current item and yields the item that follows. It instantiates the
  service at concrete inputs.
\<close>

definition index_of :: "nat \<Rightarrow> QueueItem list \<Rightarrow> nat option" where
  "index_of i xs = find (\<lambda>k. item_id (xs ! k) = i) [0 ..< length xs]"

definition fifo_removeFromQueue :: "nat \<Rightarrow> queue_state \<Rightarrow> queue_state" where
  "fifo_removeFromQueue i q =
     (case index_of i (items q) of
        None \<Rightarrow> q
      | Some k \<Rightarrow>
          let rest = take k (items q) @ drop (Suc k) (items q);
              c = currentIndex q;
              c' = (if int k < c then c - 1
                    else if int k = c \<and> \<not> c < int (length rest) then - 1
                    else c)
          in q \<lparr> items := rest, currentIndex := c' \<rparr>)"

definition fifo_getNext :: "queue_state \<Rightarrow> QueueItem option \<times> queue_state" where
  "fifo_getNext q =
     (if items q = [] then (None, q)
      else let c = (if currentIndex q < 0 \<or> \<not> currentIndex q < int (length (items q))
                    then 0 else currentIndex q)
           in (nth_opt (items q) (nat c), q \<lparr> currentIndex := c \<rparr>))"

definition fifo_skip :: "queue_state \<Rightarrow> QueueItem option \<times> queue_state" where
  "fifo_skip q =
     fifo_getNext (case getCurrent q of
                     Some current \<Rightarrow> fifo_removeFromQueue (item_id current) q
                   | None \<Rightarrow> q)"

definition fifo_ops :: queue_ops where
  "fifo_ops = \<lparr> getNext = fifo_getNext, skip = fifo_skip, removeFromQueue = fifo_removeFromQueue \<rparr>"

section \<open>The streaming service\<close>

text \<open>
  \<open>StreamingService\<close>, in the version that saves and resumes the playback state,
  prefetches downloads and disconnects on an idle timer. An \<open>async\<close> method is a
  function from the state of the service to its state when the method has settled;
  what the collaborators answer during the call is an argument. Sending a message to
  the channel appends it to \<open>sent\<close>. The notices of the commands are taken as
  delivered; the sends that a playback attempt awaits with no handler, the finish
  message and the error report, may be rejected.
\<close>

subsection \<open>State\<close>

datatype notification =
    SendError string
  | SendSuccess string
  | SendInfo string string
  | SendFinishMessage
  | Reply string
  | EditReply string
  | DeleteReply

datatype activity = StatusIdle | StatusWatch string

text \<open>The input handed to ffmpeg: a path or URL, or the output of the yt-dlp process.\<close>

datatype ffmpeg_input = InString string | InStream

record video_params =
  p_width :: int
  p_height :: int
  p_fps :: jsnum

record stream_opts =
  so_width :: int
  so_height :: int
  frameRate :: jsnum
  bitrateVideo :: int
  bitrateVideoMax :: int
  bitrateAudio :: int
  customHeaders :: "header_map option"
  seekTime :: "int option"

text \<open>One start of the transcode pipeline, as \<open>executeStream\<close> prepares it.\<close>

record stream_start =
  st_input :: ffmpeg_input
  st_source :: string
  st_title :: string
  st_opts :: stream_opts
  st_inputOptions :: "string list"

text \<open>The record \<open>saveState\<close> writes to \<open>./playback_state.json\<close>.\<close>

record PlaybackState =
  currentQueueIndex :: int
  ps_queue :: "QueueItem list"
  lastActive :: int
  voiceChannelId :: string
  textChannelId :: string
  ps_isPlaying :: bool
  videoSource :: string
  timestamp :: int

text \<open>
  The fields of the service and of the shared \<open>StreamStatus\<close>, the state file, and
  what the service has done to the outside: the messages sent, the armed one-second
  timers that will play a next item (\<open>autoplay\<close>), the pipeline starts, the items
  for which a background download was spawned, and the temp files deleted.
  \<open>controller\<close> is \<open>None\<close> for \<open>null\<close> and otherwise holds \<open>signal.aborted\<close>.
\<close>

record svc =
  queue :: queue_state
  controller :: "bool option"
  playing :: bool
  joined :: bool
  joinsucc :: bool
  manualStop :: bool
  channelInfo :: "string \<times> string \<times> string"
  voiceConnection :: bool
  failedVideos :: "string set"
  isSkipping :: bool
  leaveTimeout :: bool
  ytDlpProcess :: bool
  startTime :: int
  stateFile :: "PlaybackState option"
  activity :: activity
  sent :: "notification list"
  autoplay :: "QueueItem list"
  started :: "stream_start list"
  background :: "nat list"
  unlinked :: "string list"

record config =
  guildId :: string
  videoChannelId :: string
  cmdChannelId :: string
  respect_video_params :: bool
  cfg_width :: int
  cfg_height :: int
  cfg_fps :: jsnum
  bitrateKbps :: int
  maxBitrateKbps :: int

text \<open>
  What the collaborators answer during one playback attempt: the resolver's
  backends, \<open>joinVoice\<close> and the voice connection after it, \<open>downloadToTempFile\<close>,
  whether the yt-dlp process has an output, how the pipeline ends, \<open>Date.now()\<close> at
  the start of the stream, \<open>ffprobe\<close> with the conversion \<open>Number\<close>, and how the
  three sends of an attempt that are awaited with no handler settle: the finish
  message after a stream that ended by itself, the error report, and the finish
  message of the error handler (\<open>None\<close> when the message is delivered, or the error
  with which the channel rejects it).
\<close>

datatype join_outcome = JoinRejects error | JoinWithoutConnection | JoinConnects

datatype stream_outcome = Finished | FfmpegError error | PlayStreamError error

record play_env =
  resolver :: resolver_env
  join :: join_outcome
  downloadToTempFile :: "string \<Rightarrow> error + string option"
  ytdlp_stdout :: bool
  stream_end :: stream_outcome
  now :: int
  ffprobe :: "string \<Rightarrow> error + ffprobe_stream list"
  env_Number :: "string \<Rightarrow> jsnum"
  finish_send :: "error option"
  report_send :: "error option"
  advance_send :: "error option"

subsection \<open>Small steps\<close>

definition notify :: "notification \<Rightarrow> svc \<Rightarrow> svc" where
  "notify n s = s \<lparr> sent := sent s @ [n] \<rparr>"

text \<open>
  An awaited send with no handler, given how it settles: a rejection is thrown on and
  nothing is sent.
\<close>

definition send :: "error option \<Rightarrow> notification \<Rightarrow> svc \<Rightarrow> (error + unit) \<times> svc" where
  "send rejection n s =
     (case rejection of None \<Rightarrow> (Inr (), notify n s) | Some e \<Rightarrow> (Inl e, s))"

text \<open>
  \<open>ErrorUtils.handleError(error, context, message)\<close>, with a message to reply to:
  the report is sent by \<open>DiscordUtils.sendError\<close>, and its rejection is thrown on.
\<close>

definition error_report :: "error \<Rightarrow> notification" where
  "error_report err =
     (case err of Error msg \<Rightarrow>
        SendError (''An error occurred: '' @ (if msg = [] then ''Unknown error'' else msg)))"

definition handleError :: "error option \<Rightarrow> error \<Rightarrow> svc \<Rightarrow> (error + unit) \<times> svc" where
  "handleError rejection err s = send rejection (error_report err) s"

definition markVideoAsFailed :: "string \<Rightarrow> svc \<Rightarrow> svc" where
  "markVideoAsFailed source s = s \<lparr> failedVideos := insert source (failedVideos s) \<rparr>"

definition abort :: "bool option \<Rightarrow> bool option" where
  "abort c = map_option (\<lambda>aborted. True) c"

definition show_int :: "int \<Rightarrow> string" where
  "show_int i = (if i < 0 then ''-'' @ show_nat (nat (- i)) else show_nat (nat i))"

text \<open>\<open>MediaService.downloadYouTubeVideo\<close>: a failed download is \<open>null\<close>.\<close>

definition downloadYouTubeVideo :: "play_env \<Rightarrow> string \<Rightarrow> error + string option" where
  "downloadYouTubeVideo E u = try_catch (downloadToTempFile E u) (\<lambda>error. Inr None)"

subsection \<open>Enqueueing and the background download\<close>

text \<open>
  \<open>startBackgroundDownload(queueItem)\<close>: the download is started and its promise
  stored on the item. The \<open>then\<close> and \<open>catch\<close> handlers pass the settlement on.
\<close>

definition startBackgroundDownload :: "play_env \<Rightarrow> QueueItem \<Rightarrow> svc \<Rightarrow> svc" where
  "startBackgroundDownload E queueItem s =
     (let promise = downloadYouTubeVideo E (url queueItem) in
      s \<lparr> queue := update_item (item_id queueItem)
                      (\<lambda>it. it \<lparr> downloadPromise := Some promise \<rparr>) (queue s),
          background := background s @ [item_id queueItem] \<rparr>)"

text \<open>
  The \<open>then\<close> handler of the background download, run when the download has
  resolved: \<open>queueItem.downloadPath = path\<close>.
\<close>

definition download_settles :: "nat \<Rightarrow> svc \<Rightarrow> svc" where
  "download_settles i s =
     s \<lparr> queue := update_item i
                     (\<lambda>it. case downloadPromise it of
                              Some (Inr path) \<Rightarrow> it \<lparr> downloadPath := path \<rparr>
                            | _ \<Rightarrow> it) (queue s) \<rparr>"

text \<open>
  \<open>addToQueue\<close>. An error thrown in its \<open>try\<close> is reported and the call answers
  \<open>false\<close>; when the report is rejected the call is rejected in the state shown.
\<close>

definition addToQueue ::
  "play_env \<Rightarrow> string \<Rightarrow> string \<Rightarrow> string option \<Rightarrow> svc \<Rightarrow> bool \<times> svc" where
  "addToQueue E username source t s =
     (case resolveMediaSource (resolver E) source of
        Inl err \<Rightarrow> (False, snd (handleError (report_send E) err s))
      | Inr (Some mediaSource) \<Rightarrow>
          (case queue_addToQueue mediaSource username source (queue s) of
             (queueItem, q) \<Rightarrow>
               let s1 = notify (SendSuccess (''Added to queue: `'' @ title queueItem @ ''`''))
                          (s \<lparr> queue := q \<rparr>)
               in (True,
                   if mtype queueItem = Tyoutube \<and> isLive queueItem \<noteq> Some True
                   then startBackgroundDownload E queueItem s1 else s1))
      | Inr None \<Rightarrow>
          (case queue_add source (str_or t source) username Turl (Some False) source None
                  (queue s) of
             (queueItem, q) \<Rightarrow>
               (True, notify (SendSuccess (''Added to queue: `'' @ title queueItem @ ''`''))
                        (s \<lparr> queue := q \<rparr>))))"

subsection \<open>Leaving the playing state\<close>

text \<open>
  \<open>cleanupStreamStatus()\<close>: abort, stop the stream, kill the yt-dlp process, reset
  the flags, and arm the ten-minute leave timer when the queue is empty.
\<close>

definition cleanupStreamStatus :: "svc \<Rightarrow> svc" where
  "cleanupStreamStatus s =
     s \<lparr> controller := abort (controller s),
         ytDlpProcess := False,
         activity := StatusIdle,
         playing := False,
         manualStop := False,
         leaveTimeout := (if isEmpty (queue s) then True else leaveTimeout s) \<rparr>"

text \<open>The callback of the leave timer.\<close>

definition leaveTimeout_fires :: "svc \<Rightarrow> svc" where
  "leaveTimeout_fires s =
     s \<lparr> joined := False, joinsucc := False, voiceConnection := False,
         channelInfo := ([], [], []), leaveTimeout := False \<rparr>"

definition stopAndClearQueue :: "svc \<Rightarrow> svc" where
  "stopAndClearQueue s = cleanupStreamStatus (s \<lparr> queue := clearQueue (queue s) \<rparr>)"

text \<open>
  \<open>handleQueueAdvancement(message)\<close>: the finish message, whose rejection ends the
  call; then the current item removed (\<open>remove_finished\<close>) and the next item asked of
  the queue; a next item is played by a one-second timer, without one the service
  cleans up.
\<close>

definition remove_finished :: "queue_ops \<Rightarrow> queue_state \<Rightarrow> queue_state" where
  "remove_finished ops q =
     (case getCurrent q of
        Some finishedItem \<Rightarrow> removeFromQueue ops (item_id finishedItem) q
      | None \<Rightarrow> q)"

definition handleQueueAdvancement ::
  "queue_ops \<Rightarrow> error option \<Rightarrow> svc \<Rightarrow> (error + unit) \<times> svc" where
  "handleQueueAdvancement ops rejection s =
     (case send rejection SendFinishMessage s of
        (Inl e, s1) \<Rightarrow> (Inl e, s1)
      | (Inr u, s1) \<Rightarrow>
          (case getNext ops (remove_finished ops (queue s1)) of
             (Some nextItem, q2) \<Rightarrow>
               (Inr (), s1 \<lparr> queue := q2, autoplay := autoplay s1 @ [nextItem] \<rparr>)
           | (None, q2) \<Rightarrow>
               (Inr (), cleanupStreamStatus (s1 \<lparr> queue := setPlaying False q2 \<rparr>))))"

subsection \<open>Preparing the source\<close>

record prepared =
  inputForFfmpeg :: ffmpeg_input
  tempFilePath :: "string option"
  resolvedHeaders :: "header_map option"

text \<open>\<open>handleDownload\<close>: the synchronous download, announced and reported on the channel.\<close>

definition handleDownload :: "play_env \<Rightarrow> string \<Rightarrow> string option \<Rightarrow> svc \<Rightarrow> string option \<times> svc" where
  "handleDownload E source t s =
     (let s1 = notify (Reply (''Downloading `'' @ str_or t ''YouTube video'' @ ''`...'')) s in
      case try_catch
             (bindE (downloadYouTubeVideo E source) (\<lambda>tempFile.
                if str_or tempFile [] \<noteq> [] then Inr tempFile
                else Inl (Error ''Download failed, no temp file path returned.'')))
             (\<lambda>error. Inr None) of
        Inr (Some path) \<Rightarrow> (Some path, notify DeleteReply s1)
      | _ \<Rightarrow> (None, notify (EditReply (''Failed to download `'' @ str_or t ''YouTube video'' @ ''`.'')) s1))"

text \<open>
  The part of \<open>prepareVideoSource\<close> after the look at the item: resolve the source
  again; download a hosted video that is not live; pipe a Twitch stream through
  yt-dlp; hand any other source to ffmpeg by its URL.
\<close>

definition prepare_resolved ::
  "play_env \<Rightarrow> string \<Rightarrow> string option \<Rightarrow> header_map option \<Rightarrow> svc \<Rightarrow> (error + prepared) \<times> svc" where
  "prepare_resolved E source t hs s =
     (case resolveMediaSource (resolver E) source of
        Inl err \<Rightarrow> (Inl err, s)
      | Inr mediaSource \<Rightarrow>
          (if map_option mtype mediaSource = Some Tyoutube \<and>
              (case mediaSource of Some m \<Rightarrow> isLive m | None \<Rightarrow> None) \<noteq> Some True then
             (case handleDownload E source t s of
                (Some path, s1) \<Rightarrow>
                  (Inr \<lparr> inputForFfmpeg = InString path, tempFilePath = Some path,
                         resolvedHeaders = None \<rparr>, s1)
              | (None, s1) \<Rightarrow>
                  (Inl (Error ''Failed to prepare video source due to download failure.''), s1))
           else if map_option mtype mediaSource = Some Ttwitch then
             (if ytdlp_stdout E then
                (Inr \<lparr> inputForFfmpeg = InStream, tempFilePath = None, resolvedHeaders = None \<rparr>,
                 s \<lparr> ytDlpProcess := True \<rparr>)
              else (Inl (Error ''Failed to create stream from yt-dlp''), s \<lparr> ytDlpProcess := True \<rparr>))
           else
             (Inr \<lparr> inputForFfmpeg =
                      InString (case mediaSource of Some m \<Rightarrow> url m | None \<Rightarrow> source),
                    tempFilePath = None,
                    resolvedHeaders =
                      (case (case mediaSource of Some m \<Rightarrow> headers m | None \<Rightarrow> None) of
                         Some mh \<Rightarrow> Some mh
                       | None \<Rightarrow> hs) \<rparr>, s)))"

text \<open>A stored path that is set, not empty, and names a file that exists.\<close>

definition usable_path :: "play_env \<Rightarrow> string option \<Rightarrow> bool" where
  "usable_path E p = (case p of None \<Rightarrow> False | Some path \<Rightarrow> path \<noteq> [] \<and> fs_existsSync (resolver E) path)"

text \<open>
  \<open>prepareVideoSource\<close>. With a queue item: its \<open>downloadPath\<close> if the file exists;
  otherwise its \<open>downloadPromise\<close> is awaited, and the path it resolves with is used
  if the file exists, while a rejection is caught and logged; in every other case the
  source is prepared as without an item.
\<close>

definition from_download :: "string \<Rightarrow> prepared" where
  "from_download path =
     \<lparr> inputForFfmpeg = InString path, tempFilePath = Some path, resolvedHeaders = None \<rparr>"

definition prepareVideoSource ::
  "play_env \<Rightarrow> string \<Rightarrow> string option \<Rightarrow> header_map option \<Rightarrow> QueueItem option \<Rightarrow> svc
     \<Rightarrow> (error + prepared) \<times> svc" where
  "prepareVideoSource E source t hs queueItem s =
     (case queueItem of
        None \<Rightarrow> prepare_resolved E source t hs s
      | Some item \<Rightarrow>
          (if usable_path E (downloadPath item) then
             (Inr (from_download (the (downloadPath item))), s)
           else
             (case downloadPromise item of
                None \<Rightarrow> prepare_resolved E source t hs s
              | Some promise \<Rightarrow>
                  (case try_catch
                          (bindE promise (\<lambda>path.
                             if usable_path E path then Inr (Some (the path)) else Inr None))
                          (\<lambda>e. Inr None) of
                     Inr (Some path) \<Rightarrow> (Inr (from_download path), download_settles (item_id item) s)
                   | _ \<Rightarrow> prepare_resolved E source t hs (download_settles (item_id item) s)))))"

subsection \<open>Joining the voice channel\<close>

text \<open>
  \<open>ensureVoiceConnection\<close>: the pending leave timer is cancelled; the channel is
  joined unless the service is joined and connected; \<open>playing\<close> and the channel
  identifiers are set; after the two-second wait a missing voice connection throws.
\<close>

definition ensureVoiceConnection :: "config \<Rightarrow> play_env \<Rightarrow> svc \<Rightarrow> (error + unit) \<times> svc" where
  "ensureVoiceConnection cfg E s =
     (let s1 = s \<lparr> leaveTimeout := False \<rparr>;
          joining = (\<not> joined s1 \<or> \<not> voiceConnection s1)
      in case (if joining then join E else JoinConnects) of
           JoinRejects err \<Rightarrow> (Inl err, s1)
         | outcome \<Rightarrow>
             let s2 = (if joining
                       then s1 \<lparr> joined := True, voiceConnection := (outcome = JoinConnects) \<rparr>
                       else s1);
                 s3 = s2 \<lparr> playing := True,
                           channelInfo := (guildId cfg, videoChannelId cfg, cmdChannelId cfg) \<rparr>
             in if voiceConnection s3 then (Inr (), s3)
                else (Inl (Error ''Voice connection is not established''), s3))"

subsection \<open>Running the pipeline\<close>

definition setupStreamConfiguration :: "config \<Rightarrow> video_params option \<Rightarrow> stream_opts" where
  "setupStreamConfiguration cfg videoParams =
     \<lparr> so_width = (case videoParams of Some p \<Rightarrow> (if p_width p \<noteq> 0 then p_width p else cfg_width cfg)
                                      | None \<Rightarrow> cfg_width cfg),
       so_height = (case videoParams of Some p \<Rightarrow> (if p_height p \<noteq> 0 then p_height p else cfg_height cfg)
                                       | None \<Rightarrow> cfg_height cfg),
       frameRate = (case videoParams of Some p \<Rightarrow> (if truthy_num (Some (p_fps p)) then p_fps p else cfg_fps cfg)
                                       | None \<Rightarrow> cfg_fps cfg),
       bitrateVideo = min (bitrateKbps cfg) 1000,
       bitrateVideoMax = min (maxBitrateKbps cfg) 1000,
       bitrateAudio = 64,
       customHeaders = None,
       seekTime = None \<rparr>"

definition lookup_header :: "string \<Rightarrow> header_map \<Rightarrow> string" where
  "lookup_header k hs = (case map_of hs k of None \<Rightarrow> [] | Some v \<Rightarrow> v)"

text \<open>The custom headers of \<open>executeStream\<close>, with the forced user agent.\<close>

definition merged_headers :: "header_map option \<Rightarrow> header_map option \<Rightarrow> header_map" where
  "merged_headers custom hs =
     (let c0 = (case custom of Some c \<Rightarrow> c | None \<Rightarrow> []);
          c1 = (case hs of Some h \<Rightarrow> spread c0 h | None \<Rightarrow> c0);
          hasCustomUserAgent = (case hs of Some h \<Rightarrow> lookup_header ''User-Agent'' h \<noteq> [] | None \<Rightarrow> False)
      in if \<not> hasCustomUserAgent \<and>
            (lookup_header ''User-Agent'' c1 = [] \<or> str_includes (lookup_header ''User-Agent'' c1) ''Chrome/107'')
         then set_header ''User-Agent'' chrome120 c1 else c1)"

text \<open>The input options of the ffmpeg command; a truthy seek time comes first as \<open>-ss\<close>.\<close>

definition inputOptions :: "int option \<Rightarrow> ffmpeg_input \<Rightarrow> string list" where
  "inputOptions seek input =
     (case seek of Some t \<Rightarrow> (if t \<noteq> 0 then [''-ss'', show_int t] else []) | None \<Rightarrow> []) @
     [''-analyzeduration'', ''0'', ''-probesize'', ''32'', ''-fflags +igndts'', ''-threads'', ''4''] @
     (case input of
        InStream \<Rightarrow> []
      | InString i \<Rightarrow>
          (if startsWith i ''http'' \<and> \<not> str_includes i ''.m3u8''
           then [''-reconnect'', ''1'', ''-reconnect_streamed'', ''1'', ''-reconnect_delay_max'', ''5'']
           else []) @
          [''-protocol_whitelist'', ''file,http,https,tcp,tls,crypto''] @
          (if str_includes i ''.m3u8'' then [''-f'', ''hls''] else []))"

text \<open>
  \<open>executeStream\<close>: the pipeline is started and runs to its end. An ffmpeg error is
  kept, and the controller aborted, unless the stop was manual or the controller was
  aborted already; it is thrown after \<open>playStream\<close> has settled. A rejection of
  \<open>playStream\<close> is thrown on unless the controller is aborted.
\<close>

definition executeStream ::
  "play_env \<Rightarrow> ffmpeg_input \<Rightarrow> stream_opts \<Rightarrow> string \<Rightarrow> string \<Rightarrow> header_map option \<Rightarrow> svc
     \<Rightarrow> (error + unit) \<times> svc" where
  "executeStream E input opts t source hs s =
     (let opts1 = opts \<lparr> customHeaders := Some (merged_headers (customHeaders opts) hs) \<rparr>;
          s1 = s \<lparr> started := started s @
                     [\<lparr> st_input = input, st_source = source, st_title = t, st_opts = opts1,
                        st_inputOptions = inputOptions (seekTime opts1) input \<rparr>] \<rparr>
      in case stream_end E of
           Finished \<Rightarrow> (Inr (), s1)
         | FfmpegError err \<Rightarrow>
             (if \<not> manualStop s1 \<and> controller s1 = Some False
              then (Inl err, s1 \<lparr> controller := Some True \<rparr>)
              else (Inr (), s1))
         | PlayStreamError err \<Rightarrow>
             (if controller s1 = Some False then (Inl err, s1) else (Inr (), s1)))"

definition executeStreamWorkflow ::
  "play_env \<Rightarrow> ffmpeg_input \<Rightarrow> stream_opts \<Rightarrow> string \<Rightarrow> string \<Rightarrow> header_map option \<Rightarrow> svc
     \<Rightarrow> (error + unit) \<times> svc" where
  "executeStreamWorkflow E input opts t source hs s =
     executeStream E input opts t source hs (s \<lparr> controller := Some False \<rparr>)"

text \<open>
  \<open>finalizeStream\<close>: the queue advances after a stream that ended by itself;
  after a manual stop or an abort the service resets the cursor and cleans up. Then
  the temp file is deleted. An error thrown by the advance, when its finish message
  is rejected, is thrown on before that.
\<close>

definition finalizeStream ::
  "queue_ops \<Rightarrow> error option \<Rightarrow> string option \<Rightarrow> svc \<Rightarrow> (error + unit) \<times> svc" where
  "finalizeStream ops rejection tempFile s =
     (case (if \<not> manualStop s \<and> controller s = Some False
            then handleQueueAdvancement ops rejection s
            else (Inr (), cleanupStreamStatus
                            (s \<lparr> queue := resetCurrentIndex (setPlaying False (queue s)) \<rparr>))) of
        (Inl e, s1) \<Rightarrow> (Inl e, s1)
      | (Inr u, s1) \<Rightarrow>
          (Inr (), case tempFile of
                     Some f \<Rightarrow> (if f \<noteq> [] then s1 \<lparr> unlinked := unlinked s1 @ [f] \<rparr> else s1)
                   | None \<Rightarrow> s1))"

subsection \<open>playVideo\<close>

text \<open>
  The \<open>catch\<close> block of \<open>playVideo\<close>, from the state in which the error is caught:
  the error is reported, the source marked as failed, and the queue advances unless
  the stop was manual. The report and the advance are awaited: an error either of
  them throws leaves \<open>playVideo\<close> rejected at that point. The callers of \<open>playVideo\<close>
  do nothing on its rejection, so the result of the block is the state it leaves.
\<close>

definition playVideo_catch :: "queue_ops \<Rightarrow> play_env \<Rightarrow> error \<Rightarrow> string \<Rightarrow> svc \<Rightarrow> svc" where
  "playVideo_catch ops E err source s =
     (case handleError (report_send E) err s of
        (Inl e, s1) \<Rightarrow> s1
      | (Inr u, s1) \<Rightarrow>
          let s2 = markVideoAsFailed source s1
          in if \<not> manualStop s2 then snd (handleQueueAdvancement ops (advance_send E) s2)
             else s2)"

text \<open>The \<open>try\<close> block of \<open>playVideo\<close>: the state with the error thrown in it, or the final state.\<close>

definition playVideo_try ::
  "queue_ops \<Rightarrow> config \<Rightarrow> play_env \<Rightarrow> string \<Rightarrow> string option \<Rightarrow> video_params option
     \<Rightarrow> header_map option \<Rightarrow> QueueItem option \<Rightarrow> int option \<Rightarrow> svc \<Rightarrow> (error \<times> svc) + svc" where
  "playVideo_try ops cfg E source t videoParams hs queueItem seek s =
     (let s1 = s \<lparr> leaveTimeout := False \<rparr> in
      case ensureVoiceConnection cfg E s1 of
        (Inl err, s2) \<Rightarrow> Inl (err, s2)
      | (Inr _, s2) \<Rightarrow>
          (case prepareVideoSource E source t hs queueItem s2 of
             (Inl err, s3) \<Rightarrow> Inl (err, s3)
           | (Inr p, s3) \<Rightarrow>
               let seeking = (case seek of Some k \<Rightarrow> k \<noteq> 0 | None \<Rightarrow> False);
                   opts0 = (setupStreamConfiguration cfg videoParams)
                             \<lparr> customHeaders := resolvedHeaders p \<rparr>;
                   opts = (if seeking then opts0 \<lparr> seekTime := seek \<rparr> else opts0);
                   statusTitle = str_or t ''Video'';
                   s4 = s3 \<lparr> playing := True,
                             startTime := (if seeking then now E - the seek * 1000 else now E),
                             activity := StatusWatch statusTitle \<rparr>
               in case executeStreamWorkflow E (inputForFfmpeg p) opts statusTitle source
                         (resolvedHeaders p) s4 of
                    (Inl err, s5) \<Rightarrow> Inl (err, s5)
                  | (Inr _, s5) \<Rightarrow>
                      (case finalizeStream ops (finish_send E) (tempFilePath p) s5 of
                         (Inl err, s6) \<Rightarrow> Inl (err, s6)
                       | (Inr _, s6) \<Rightarrow> Inr s6)))"

text \<open>The statements of \<open>playVideo\<close> before its \<open>try\<close>.\<close>

definition playVideo_start :: "string option \<Rightarrow> svc \<Rightarrow> svc" where
  "playVideo_start t s =
     (let s0 = s \<lparr> manualStop := False \<rparr>
      in if str_or t [] \<noteq> [] \<and> map_option title (getCurrent (queue s0)) = t
         then s0 \<lparr> queue := setPlaying True (queue s0) \<rparr> else s0)"

definition playVideo ::
  "queue_ops \<Rightarrow> config \<Rightarrow> play_env \<Rightarrow> string \<Rightarrow> string option \<Rightarrow> video_params option
     \<Rightarrow> header_map option \<Rightarrow> QueueItem option \<Rightarrow> int option \<Rightarrow> svc \<Rightarrow> svc" where
  "playVideo ops cfg E source t videoParams hs queueItem seek s =
     (case playVideo_try ops cfg E source t videoParams hs queueItem seek (playVideo_start t s) of
        Inl (err, s2) \<Rightarrow> playVideo_catch ops E err source s2
      | Inr s2 \<Rightarrow> s2)"

text \<open>\<open>getVideoParameters\<close>: a failing probe is reported to the log only.\<close>

definition getVideoParameters :: "play_env \<Rightarrow> string \<Rightarrow> video_params option" where
  "getVideoParameters E videoUrl =
     (case getVideoParams (env_Number E) videoUrl (ffprobe E videoUrl) of
        Inr resolution \<Rightarrow>
          Some \<lparr> p_width = vp_width resolution, p_height = vp_height resolution,
                 p_fps = vp_fps resolution \<rparr>
      | Inl error \<Rightarrow> None)"

text \<open>
  The source \<open>playVideoFromQueueItem\<close> plays for an item: its original input, or
  the resolved URL for the two embed hosts.
\<close>

definition sourceToPlay :: "QueueItem \<Rightarrow> string" where
  "sourceToPlay queueItem =
     (let input = str_or (originalInput queueItem) []
      in if input \<noteq> [] \<and> (str_includes input ''vidsrc.cc'' \<or> str_includes input ''vidlink.pro'')
         then url queueItem
         else str_or (originalInput queueItem) (url queueItem))"

definition playVideoFromQueueItem :: "queue_ops \<Rightarrow> config \<Rightarrow> play_env \<Rightarrow> QueueItem \<Rightarrow> svc \<Rightarrow> svc" where
  "playVideoFromQueueItem ops cfg E queueItem s =
     (let s1 = s \<lparr> queue := setPlaying True (queue s) \<rparr>;
          videoParams = (if respect_video_params cfg then getVideoParameters E (url queueItem)
                         else None)
      in playVideo ops cfg E (sourceToPlay queueItem) (Some (title queueItem)) videoParams
           (headers queueItem) (Some queueItem) None s1)"

definition playFromQueue :: "queue_ops \<Rightarrow> config \<Rightarrow> play_env \<Rightarrow> svc \<Rightarrow> svc" where
  "playFromQueue ops cfg E s =
     (if playing s then
        notify (SendError ''Already playing a video. Use skip command to skip current video.'') s
      else case getNext ops (queue s) of
             (None, q) \<Rightarrow> notify (SendError ''Queue is empty.'') (s \<lparr> queue := q \<rparr>)
           | (Some nextItem, q) \<Rightarrow>
               playVideoFromQueueItem ops cfg E nextItem (s \<lparr> queue := setPlaying True q \<rparr>))"

text \<open>The callback of the timer armed by \<open>handleQueueAdvancement\<close>, for the oldest armed item.\<close>

definition autoplay_fires :: "queue_ops \<Rightarrow> config \<Rightarrow> play_env \<Rightarrow> svc \<Rightarrow> svc" where
  "autoplay_fires ops cfg E s =
     (case autoplay s of
        [] \<Rightarrow> s
      | nextItem # rest \<Rightarrow> playVideoFromQueueItem ops cfg E nextItem (s \<lparr> autoplay := rest \<rparr>))"

subsection \<open>skipCurrent\<close>

text \<open>
  \<open>skipCurrent\<close> runs without interruption up to its first \<open>await\<close>, the sending of
  a notice; other calls run while it waits there. \<open>skip_enter\<close> is the call up to
  that point, and says where the call stands: it has returned (rejected), or it waits
  with the notice that the queue is empty, or with the notice of the next item.
  \<open>skip_resume\<close> is the rest of the call, with the \<open>finally\<close> that clears
  \<open>isSkipping\<close>.
\<close>

datatype skip_point = Rejected | AtEmptyNotice | AtSkipNotice QueueItem

definition skip_enter :: "queue_ops \<Rightarrow> svc \<Rightarrow> skip_point \<times> svc" where
  "skip_enter ops s =
     (if \<not> playing s then (Rejected, notify (SendError ''No video is currently playing.'') s)
      else
        let queueLength = getLength (queue s);
            isLastItem = (queueLength \<le> 1)
        in if isSkipping s \<and> \<not> isLastItem then
             (Rejected, notify (SendError ''Skip already in progress.'') s)
           else
             let s1 = s \<lparr> isSkipping := True, manualStop := True,
                           controller := abort (controller s) \<rparr>;
                 currentItem = getCurrent (queue s1)
             in case skip ops (queue s1) of
                  (None, q) \<Rightarrow>
                    (AtEmptyNotice,
                     notify (SendInfo ''Queue'' ''No more videos in queue.'') (s1 \<lparr> queue := q \<rparr>))
                | (Some nextItem, q) \<Rightarrow>
                    (AtSkipNotice nextItem,
                     notify (SendInfo ''Skipping''
                               (''Skipping `'' @
                                (case currentItem of Some c \<Rightarrow> title c | None \<Rightarrow> ''current video'') @
                                ''`. Playing next: `'' @ title nextItem @ ''`''))
                       (s1 \<lparr> queue := q \<rparr>)))"

definition skip_resume :: "queue_ops \<Rightarrow> config \<Rightarrow> play_env \<Rightarrow> skip_point \<Rightarrow> svc \<Rightarrow> svc" where
  "skip_resume ops cfg E point s =
     (case point of
        Rejected \<Rightarrow> s
      | AtEmptyNotice \<Rightarrow>
          (cleanupStreamStatus (s \<lparr> queue := setPlaying False (queue s) \<rparr>)) \<lparr> isSkipping := False \<rparr>
      | AtSkipNotice nextItem \<Rightarrow>
          (playVideoFromQueueItem ops cfg E nextItem (s \<lparr> manualStop := False \<rparr>))
            \<lparr> isSkipping := False \<rparr>)"

definition skipCurrent :: "queue_ops \<Rightarrow> config \<Rightarrow> play_env \<Rightarrow> svc \<Rightarrow> svc" where
  "skipCurrent ops cfg E s = (case skip_enter ops s of (point, s1) \<Rightarrow> skip_resume ops cfg E point s1)"

subsection \<open>The playback snapshot\<close>

text \<open>\<open>saveState()\<close> at the time \<open>t\<close>: nothing is written without a current item.\<close>

definition saveState :: "config \<Rightarrow> int \<Rightarrow> svc \<Rightarrow> svc" where
  "saveState cfg t s =
     (case getCurrent (queue s) of
        None \<Rightarrow> s
      | Some currentItem \<Rightarrow>
          s \<lparr> stateFile := Some
                \<lparr> currentQueueIndex = currentIndex (queue s),
                  ps_queue = items (queue s),
                  lastActive = t,
                  voiceChannelId = videoChannelId cfg,
                  textChannelId = cmdChannelId cfg,
                  ps_isPlaying = playing s,
                  videoSource = str_or (originalInput currentItem) (url currentItem),
                  timestamp = (t - startTime s) div 1000 \<rparr> \<rparr>)"

text \<open>The tick of the ten-second interval of \<open>startStateSaver\<close>.\<close>

definition stateSaver_tick :: "config \<Rightarrow> int \<Rightarrow> svc \<Rightarrow> svc" where
  "stateSaver_tick cfg t s = (if playing s then saveState cfg t s else s)"

text \<open>
  \<open>resumeState(client)\<close> at the time \<open>t\<close>: \<open>username\<close> is the client's user name and
  \<open>channel_ok\<close> says whether the text channel of the snapshot could be fetched.
\<close>

definition resumeState ::
  "queue_ops \<Rightarrow> config \<Rightarrow> play_env \<Rightarrow> string \<Rightarrow> bool \<Rightarrow> int \<Rightarrow> svc \<Rightarrow> svc" where
  "resumeState ops cfg E username channel_ok t s =
     (case stateFile s of
        None \<Rightarrow> s
      | Some state \<Rightarrow>
          (if t - lastActive state > 3600000 then s \<lparr> stateFile := None \<rparr>
           else if \<not> channel_ok then s
           else
             (case (if currentQueueIndex state < 0 then None
                    else nth_opt (ps_queue state) (nat (currentQueueIndex state))) of
                None \<Rightarrow> s
              | Some current \<Rightarrow>
                  let source = str_or (originalInput current) (url current);
                      s1 = snd (addToQueue E username source None s)
                  in playVideo ops cfg E source (Some (title current)) None None None
                       (Some (timestamp state)) s1)))"

text \<open>A service just constructed, with the state file the process finds.\<close>

definition new_service :: "PlaybackState option \<Rightarrow> svc" where
  "new_service file =
     \<lparr> queue = empty_queue, controller = None, playing = False, joined = False,
       joinsucc = False, manualStop = False, channelInfo = ([], [], []),
       voiceConnection = False, failedVideos = {}, isSkipping = False, leaveTimeout = False,
       ytDlpProcess = False, startTime = 0, stateFile = file, activity = StatusIdle,
       sent = [], autoplay = [], started = [], background = [], unlinked = [] \<rparr>"

subsection \<open>Concrete inputs for the streaming service\<close>

definition cfg0 :: config where
  "cfg0 = \<lparr> guildId = ''guild'', videoChannelId = ''voice'', cmdChannelId = ''commands'',
             respect_video_params = False, cfg_width = 1280, cfg_height = 720,
             cfg_fps = JFin 30, bitrateKbps = 2000, maxBitrateKbps = 2500 \<rparr>"

text \<open>
  Three playback environments over the failing resolver backends, in which every
  message is delivered: the pipeline ends with an ffmpeg error; the pipeline
  finishes; the voice channel cannot be joined.
\<close>

definition P_fail :: play_env where
  "P_fail = \<lparr> resolver = env_down, join = JoinConnects,
               downloadToTempFile = (\<lambda>u. Inl (Error ''download failed'')),
               ytdlp_stdout = True,
               stream_end = FfmpegError (Error ''Invalid data found when processing input''),
               now = 5000000,
               ffprobe = (\<lambda>p. Inl (Error ''ffprobe failed'')),
               env_Number = Number0,
               finish_send = None, report_send = None, advance_send = None \<rparr>"

definition P_ok :: play_env where
  "P_ok = P_fail \<lparr> stream_end := Finished \<rparr>"

definition P_nojoin :: play_env where
  "P_nojoin = P_ok \<lparr> join := JoinRejects (Error ''Cannot join the voice channel'') \<rparr>"

text \<open>
  A service with two items enqueued, the first an input no backend resolves, the
  second a direct URL; and a service that plays the only item of its queue.
\<close>

definition s_AB :: svc where
  "s_AB = snd (addToQueue P_ok ''dj'' ''https://example.com/videos/clip.mp4'' None
            (snd (addToQueue P_ok ''dj'' ''not a video'' None (new_service None))))"

definition item_A :: QueueItem where
  "item_A = \<lparr> url = ''not a video'', title = ''not a video'', mtype = Turl, isLive = Some False,
               headers = None, item_id = 1, requestedBy = ''dj'',
               originalInput = Some ''not a video'', downloadPath = None,
               downloadPromise = None \<rparr>"

definition item_B :: QueueItem where
  "item_B = \<lparr> url = ''https://example.com/videos/clip.mp4'', title = ''clip'', mtype = Turl,
               isLive = None, headers = None, item_id = 2, requestedBy = ''dj'',
               originalInput = Some ''https://example.com/videos/clip.mp4'',
               downloadPath = None, downloadPromise = None \<rparr>"

definition s_one :: svc where
  "s_one = (new_service None)
             \<lparr> queue := \<lparr> items = [item_A], currentIndex = 0, isPlaying = True, nextId = 2 \<rparr>,
               controller := Some False, playing := True, joined := True,
               voiceConnection := True \<rparr>"

text \<open>The two-item service at the moment its first item is handed to \<open>playVideo\<close>.\<close>

definition s_pA :: svc where
  "s_pA = s_AB \<lparr> queue := (queue s_AB) \<lparr> currentIndex := 0, isPlaying := True \<rparr> \<rparr>"




subsection \<open>Two interleaved skips\<close>

text \<open>
  Two calls of \<open>skipCurrent\<close>, the second issued while the first waits at its first
  \<open>await\<close>: the first call enters, the second call enters, then the first and the
  second resume.
\<close>

definition double_skip :: "queue_ops \<Rightarrow> config \<Rightarrow> play_env \<Rightarrow> svc \<Rightarrow> svc" where
  "double_skip ops cfg E s =
     (case skip_enter ops s of
        (first, s1) \<Rightarrow>
          (case skip_enter ops s1 of
             (second, s2) \<Rightarrow> skip_resume ops cfg E second (skip_resume ops cfg E first s2)))"

definition empty_notice :: notification where
  "empty_notice = SendInfo ''Queue'' ''No more videos in queue.''"

subsection \<open>Background downloads and item ids\<close>

text \<open>
  No item has two background downloads, and every download belongs to an id that the
  queue has issued already.
\<close>

definition downloads_once :: "svc \<Rightarrow> bool" where
  "downloads_once s =
     (distinct (background s) \<and> list_all (\<lambda>i. i < nextId (queue s)) (background s))"

text \<open>
  A playback environment in which yt-dlp knows the hosted video of the example link
  and downloads it to a temp file that exists.
\<close>

definition env_yt :: resolver_env where
  "env_yt =
     env_down \<lparr> ytdlp_video_info :=
                  (\<lambda>u. Inr \<lparr> vd_id = Some ''abc'', vd_title = Some ''A video'',
                              is_live = Some False, live_status = None \<rparr>),
                fs_existsSync := (\<lambda>p. p = ''/tmp/abc.mp4'') \<rparr>"

definition P_yt :: play_env where
  "P_yt = P_ok \<lparr> resolver := env_yt, downloadToTempFile := (\<lambda>u. Inr (Some ''/tmp/abc.mp4'')) \<rparr>"

definition item_Y :: QueueItem where
  "item_Y = \<lparr> url = ''https://youtu.be/abc'', title = ''A video'', mtype = Tyoutube,
               isLive = Some False, headers = None, item_id = 1, requestedBy = ''dj'',
               originalInput = Some ''https://youtu.be/abc'', downloadPath = None,
               downloadPromise = Some (Inr (Some ''/tmp/abc.mp4'')) \<rparr>"

text \<open>The two-item service while it plays its first item and a skip is in progress.\<close>

definition s_busy :: svc where
  "s_busy = s_pA \<lparr> playing := True, isSkipping := True \<rparr>"

text \<open>The one-item service while a skip is in progress.\<close>

definition s_last :: svc where
  "s_last = s_one \<lparr> isSkipping := True \<rparr>"

text \<open>A new service after the hosted video of the example link was enqueued.\<close>

definition s_Y :: svc where
  "s_Y = snd (addToQueue P_yt ''dj'' ''https://youtu.be/abc'' None (new_service None))"

subsection \<open>Resuming from a snapshot\<close>



definition P_resume :: play_env where
  "P_resume = P_ok \<lparr> now := 5100000 \<rparr>"


subsection \<open>Outcomes of a step\<close>

text \<open>
  A step from \<open>s\<close> to \<open>r\<close> that starts no pipeline and spawns no background download:
  messages are only appended and the failed set only grows.
\<close>

definition quiet :: "svc \<Rightarrow> svc \<Rightarrow> bool" where
  "quiet s r =
     (started r = started s \<and> background r = background s \<and>
      take (length (sent s)) (sent r) = sent s \<and> failedVideos s \<subseteq> failedVideos r)"




text \<open>
  A step from \<open>s\<close> to \<open>r\<close> that spawns no background download and does not lower the
  counter of the item ids.
\<close>

definition spawnless :: "svc \<Rightarrow> svc \<Rightarrow> bool" where
  "spawnless s r = (background r = background s \<and> nextId (queue s) \<le> nextId (queue r))"

subsection \<open>The states of a running service\<close>

text \<open>
  Modelled from the spec: the cursor operations of the absent \<open>QueueService\<close> never
  lower the counter of the item ids (an id is never reused).
\<close>

definition keeps_counter :: "queue_ops \<Rightarrow> bool" where
  "keeps_counter ops =
     (\<forall>q i. nextId q \<le> nextId (snd (getNext ops q)) \<and> nextId q \<le> nextId (snd (skip ops q)) \<and>
            nextId q \<le> nextId (removeFromQueue ops i q))"

text \<open>
  The states a service comes to from its construction: by the public methods
  (\<open>saveState\<close>, \<open>resumeState\<close>, \<open>addToQueue\<close>, \<open>playFromQueue\<close>, \<open>skipCurrent\<close>, also
  entered and resumed apart, \<open>playVideo\<close>, \<open>cleanupStreamStatus\<close>,
  \<open>stopAndClearQueue\<close>), by its timers (the state saver, the play of a next item,
  the leave timer), by the settling of a download, and by a command that works on the
  queue service itself, which \<open>getQueueService\<close> hands out. Every call has the
  arguments and the environment it pleases.
\<close>

inductive reachable :: "queue_ops \<Rightarrow> config \<Rightarrow> svc \<Rightarrow> bool" for ops :: queue_ops and cfg :: config where
  constructed: "reachable ops cfg (new_service sf)"
| saves: "reachable ops cfg s \<Longrightarrow> reachable ops cfg (saveState cfg t s)"
| saver_ticks: "reachable ops cfg s \<Longrightarrow> reachable ops cfg (stateSaver_tick cfg t s)"
| resumes: "reachable ops cfg s \<Longrightarrow> reachable ops cfg (resumeState ops cfg E username channel_ok t s)"
| enqueues: "reachable ops cfg s \<Longrightarrow> reachable ops cfg (snd (addToQueue E username source t s))"
| plays_queue: "reachable ops cfg s \<Longrightarrow> reachable ops cfg (playFromQueue ops cfg E s)"
| skips: "reachable ops cfg s \<Longrightarrow> reachable ops cfg (skipCurrent ops cfg E s)"
| skip_enters: "reachable ops cfg s \<Longrightarrow> reachable ops cfg (snd (skip_enter ops s))"
| skip_resumes: "reachable ops cfg s \<Longrightarrow> reachable ops cfg (skip_resume ops cfg E point s)"
| plays: "reachable ops cfg s \<Longrightarrow>
          reachable ops cfg (playVideo ops cfg E source t vp hs qi seek s)"
| cleans: "reachable ops cfg s \<Longrightarrow> reachable ops cfg (cleanupStreamStatus s)"
| stops: "reachable ops cfg s \<Longrightarrow> reachable ops cfg (stopAndClearQueue s)"
| timer_plays: "reachable ops cfg s \<Longrightarrow> reachable ops cfg (autoplay_fires ops cfg E s)"
| leaves: "reachable ops cfg s \<Longrightarrow> reachable ops cfg (leaveTimeout_fires s)"
| settles: "reachable ops cfg s \<Longrightarrow> reachable ops cfg (download_settles i s)"
| queue_command: "reachable ops cfg s \<Longrightarrow> nextId (queue s) \<le> nextId q \<Longrightarrow>
                  reachable ops cfg (s \<lparr> queue := q \<rparr>)"

text \<open>
  A new service after the hosted video of the example link was enqueued twice and
  the queue was asked to play.
\<close>

definition s_YY :: svc where
  "s_YY = playFromQueue fifo_ops cfg0 P_yt
            (snd (addToQueue P_yt ''dj'' ''https://youtu.be/abc'' None s_Y))"

subsection \<open>Failed attempts at concrete inputs\<close>






section \<open>Properties of utils/ffmpeg.ts\<close>

subsection \<open>getVideoParams\<close>

lemma find_is_video: "find is_video streams = Some st \<Longrightarrow> is_video st \<and> st \<in> set streams"
  by (induction streams) (auto split: if_splits)

lemma fps_of_zero:
  "snd (rate_parts Number r) = None \<or> snd (rate_parts Number r) = Some (JFin 0) \<Longrightarrow>
     fps_of Number r = JFin 0"
  by (auto simp: fps_of_def split: prod.splits)

lemma fps_of_guarded:
  "fps_of Number r = JFin 0 \<or>
     (\<exists>n d. d \<noteq> JFin 0 \<and> d \<noteq> JNaN \<and> snd (rate_parts Number r) = Some d \<and> fps_of Number r = js_div n d)"
proof -
  obtain numerator denominator where rp: "rate_parts Number r = (numerator, denominator)"
    by (cases "rate_parts Number r")
  show ?thesis
  proof (cases "r \<noteq> [] \<and> truthy_num denominator \<and> denominator \<noteq> Some (JFin 0)")
    case True
    then obtain d where d: "denominator = Some d"
      by (cases denominator) auto
    with True have "d \<noteq> JFin 0" "d \<noteq> JNaN" by auto
    moreover from True d rp have "fps_of Number r =
        js_div (case numerator of Some n \<Rightarrow> n | None \<Rightarrow> JNaN) d"
      by (simp add: fps_of_def)
    ultimately show ?thesis using d rp by auto
  next
    case False
    with rp have "fps_of Number r = JFin 0"
      by (auto simp: fps_of_def)
    then show ?thesis by simp
  qed
qed

text \<open>
  Claim C10. \<open>getVideoParams\<close> never divides by zero when it computes the frame rate.
  Whenever the promise resolves, the probe succeeded, its first video stream has a
  width and a height, both present and non-zero, and these are the resolved dimensions:
  every other probe rejects (the result is \<open>Inl\<close>), so the promise never resolves with
  missing dimensions. If the denominator of the frame-rate string is missing (no
  \<open>/\<close>) or converts to zero, the resolved \<open>fps\<close> is \<open>0\<close>; and an \<open>fps\<close> other than \<open>0\<close> is
  always a quotient by a denominator that is neither zero nor \<open>NaN\<close>. This holds for
  every conversion \<open>Number\<close> of strings to numbers.
\<close>

theorem getVideoParams_safe:
  assumes "getVideoParams Number videoPath probe = Inr p"
  shows "\<exists>streams videoStream.
           probe = Inr streams \<and> find is_video streams = Some videoStream \<and>
           width videoStream = Some (vp_width p) \<and> vp_width p \<noteq> 0 \<and>
           height videoStream = Some (vp_height p) \<and> vp_height p \<noteq> 0 \<and>
           (let rFrameRate = str_or (r_frame_rate videoStream) (str_or (avg_frame_rate videoStream) []);
                denominator = snd (rate_parts Number rFrameRate)
            in (denominator = None \<or> denominator = Some (JFin 0) \<longrightarrow> vp_fps p = JFin 0) \<and>
               (vp_fps p = JFin 0 \<or>
                (\<exists>n d. d \<noteq> JFin 0 \<and> d \<noteq> JNaN \<and> denominator = Some d \<and> vp_fps p = js_div n d)))"
proof -
  from assms obtain streams where s: "probe = Inr streams"
    by (cases probe) (auto simp: getVideoParams_def)
  with assms obtain st where st: "find is_video streams = Some st"
    by (cases "find is_video streams") (auto simp: getVideoParams_def)
  from assms s st have dims: "truthy_int (width st)" "truthy_int (height st)"
    by (auto simp: getVideoParams_def split: if_splits)
  let ?r = "str_or (r_frame_rate st) (str_or (avg_frame_rate st) [])"
  from assms s st dims have p: "vp_width p = the (width st)" "vp_height p = the (height st)"
      "vp_fps p = fps_of Number ?r"
    by (auto simp: getVideoParams_def Let_def)
  from dims p have w: "width st = Some (vp_width p)" "vp_width p \<noteq> 0"
      "height st = Some (vp_height p)" "vp_height p \<noteq> 0"
    by (auto simp: truthy_int_def split: option.splits)
  show ?thesis
    using s st w p(3) fps_of_zero [of Number ?r] fps_of_guarded [of Number ?r]
    by (auto simp: Let_def)
qed

lemma probe0_run: "getVideoParams Number0 ''a.mp4'' (Inr probe0) = Inr params0"
  by (simp add: getVideoParams_def probe0_def params0_def is_video_def truthy_int_def
      fps_of_def rate_parts_def js_split_def Number0_def)

theorem getVideoParams_safe_witness:
  "getVideoParams Number0 ''a.mp4'' (Inr probe0) = Inr params0 \<and>
   snd (rate_parts Number0 ''30000/0'') = Some (JFin 0) \<and>
   vp_fps params0 = JFin 0 \<and> vp_width params0 = 1920 \<and> vp_height params0 = 1080"
  using getVideoParams_safe [OF probe0_run]
  by (simp add: probe0_run params0_def rate_parts_def js_split_def Number0_def)

subsection \<open>ffmpegScreenshot\<close>

lemma wait_free_free: "\<not> running L videoPath \<Longrightarrow> wait_free others videoPath fuel k L = Some L"
  by (cases fuel) simp_all

lemma wait_free_Some:
  "wait_free others videoPath fuel k L = Some L1 \<Longrightarrow> \<not> running L1 videoPath"
  by (induction fuel arbitrary: k L) (auto split: if_splits)

lemma ffmpegScreenshot_returns:
  "\<not> running L videoPath \<Longrightarrow>
     \<exists>result. ffmpegScreenshot E others fuel videoPath L = Some (result, L(videoPath \<mapsto> False))"
  by (simp add: ffmpegScreenshot_def wait_free_free Let_def)

lemma ffmpegScreenshot_unlocked:
  "ffmpegScreenshot E others fuel videoPath L = Some (result, L') \<Longrightarrow> L' videoPath = Some False"
  by (auto simp: ffmpegScreenshot_def Let_def split: option.splits)

text \<open>
  Claim C9. Every call of \<open>ffmpegScreenshot\<close> releases the lock of its video path on
  exit. A call that finds the path unlocked settles; and whenever a call settles, with
  the screenshots (\<open>Inr\<close>) or with the ffmpeg error that aborted the run (\<open>Inl\<close>), the
  running flag of the path is \<open>false\<close> in the lock table it leaves. So a failed run
  never leaves the path locked: any later call for the same path, started on that
  table, settles at once (with any fuel, zero polls included) and releases the lock
  again.
\<close>

theorem ffmpegScreenshot_releases_lock:
  "(\<not> running L videoPath \<longrightarrow>
      (\<exists>result L'. ffmpegScreenshot E others fuel videoPath L = Some (result, L'))) \<and>
   (\<forall>result L'. ffmpegScreenshot E others fuel videoPath L = Some (result, L') \<longrightarrow>
      L' videoPath = Some False \<and> \<not> running L' videoPath \<and>
      (\<forall>E2 others2 fuel2. \<exists>result2 L2.
         ffmpegScreenshot E2 others2 fuel2 videoPath L' = Some (result2, L2) \<and>
         L2 videoPath = Some False))"
proof (intro conjI impI allI)
  assume "\<not> running L videoPath"
  then show "\<exists>result L'. ffmpegScreenshot E others fuel videoPath L = Some (result, L')"
    using ffmpegScreenshot_returns [of L videoPath E others fuel] by blast
next
  fix result L'
  assume run: "ffmpegScreenshot E others fuel videoPath L = Some (result, L')"
  then show "L' videoPath = Some False" by (rule ffmpegScreenshot_unlocked)
  then show free: "\<not> running L' videoPath" by (simp add: running_def)
  fix E2 others2 fuel2
  from ffmpegScreenshot_returns [OF free, of E2 others2 fuel2]
  obtain result2 where
    "ffmpegScreenshot E2 others2 fuel2 videoPath L' = Some (result2, L'(videoPath \<mapsto> False))"
    by blast
  then have "ffmpegScreenshot E2 others2 fuel2 videoPath L' = Some (result2, L'(videoPath \<mapsto> False)) \<and>
      (L'(videoPath \<mapsto> False)) videoPath = Some False"
    by simp
  then show "\<exists>result2 L2. ffmpegScreenshot E2 others2 fuel2 videoPath L' = Some (result2, L2) \<and>
      L2 videoPath = Some False"
    by blast
qed

lemma shots_fail_run:
  "ffmpegScreenshot shots_fail (\<lambda>k L. L) 0 ''clip.mp4'' Map.empty =
     Some (Inl (Error ''ffmpeg exited with code 1''), [''clip.mp4'' \<mapsto> False])"
  by (simp add: ffmpegScreenshot_def running_def shots_fail_def timestamps_def enumerate_eq_zip
      show_nat.simps digit_char_def)

lemma shots_ok_run:
  "ffmpegScreenshot shots_ok (\<lambda>k L. L) 0 ''clip.mp4'' [''clip.mp4'' \<mapsto> False] =
     Some (Inr [''cache/clip-1.jpg'', ''cache/clip-2.jpg'', ''cache/clip-3.jpg'',
                ''cache/clip-4.jpg'', ''cache/clip-5.jpg''], [''clip.mp4'' \<mapsto> False])"
  by (simp add: ffmpegScreenshot_def running_def shots_ok_def shots_fail_def timestamps_def
      enumerate_eq_zip show_nat.simps digit_char_def)

theorem ffmpegScreenshot_releases_lock_witness:
  "\<not> running Map.empty ''clip.mp4'' \<and>
   ffmpegScreenshot shots_fail (\<lambda>k L. L) 0 ''clip.mp4'' Map.empty =
     Some (Inl (Error ''ffmpeg exited with code 1''), [''clip.mp4'' \<mapsto> False]) \<and>
   \<not> running [''clip.mp4'' \<mapsto> False] ''clip.mp4'' \<and>
   (\<exists>result2 L2.
      ffmpegScreenshot shots_ok (\<lambda>k L. L) 0 ''clip.mp4'' [''clip.mp4'' \<mapsto> False] = Some (result2, L2) \<and>
      L2 ''clip.mp4'' = Some False)"
  using ffmpegScreenshot_releases_lock [of Map.empty "''clip.mp4''" shots_fail "\<lambda>k L. L" 0]
  by (simp add: shots_fail_run running_def)

section \<open>Properties of the resolver\<close>

lemma resolve_dispatch: "resolveMediaSource E u = run_strategy E (first_match E u) u"
  by (simp add: resolveMediaSource_def first_match_def strategy_table_def)

lemma try_catch_None_total: "\<exists>r. try_catch m (\<lambda>error. Inr None) = Inr r"
  by (cases m) (simp_all add: try_catch_def)

lemma probe_metadata_total: "\<exists>r. probe_metadata E u = Inr r"
  unfolding probe_metadata_def by (rule try_catch_None_total)

lemma probe_metadata_error: "ytdl_metadata E u = Inl e \<Longrightarrow> probe_metadata E u = Inr None"
  by (simp add: probe_metadata_def try_catch_def bindE_def)

lemma probe_metadata_type: "probe_metadata E u = Inr (Some source) \<Longrightarrow> mtype source = Turl"
  by (auto simp: probe_metadata_def try_catch_def bindE_def Let_def
      split: sum.splits option.splits if_splits)

lemma resolveDirectUrlSource_cases:
  "resolveDirectUrlSource E u =
     Inr (case probe_metadata E u of
            Inr (Some source) \<Rightarrow> source
          | _ \<Rightarrow> \<lparr> url = u, title = fallback_title E u, mtype = Turl, isLive = None,
                    headers = None \<rparr>)"
  using probe_metadata_total [of E u]
  by (auto simp: resolveDirectUrlSource_def bindE_def split: option.splits)

lemma resolveDirectUrlSource_type:
  "\<exists>source. resolveDirectUrlSource E u = Inr source \<and> mtype source = Turl"
  using probe_metadata_type [of E u]
  by (auto simp: resolveDirectUrlSource_cases split: sum.splits option.splits)

lemma fallback_title_filename:
  assumes "url_pathname E u = Inr pathname" "last_segment pathname \<noteq> []"
    "str_includes (last_segment pathname) ''.''"
    "decodeURIComponent E (strip_ext (last_segment pathname)) = Inr decoded"
  shows "fallback_title E u = decoded"
  using assms by (simp add: fallback_title_def try_catch_def bindE_def Let_def)

lemma fallback_title_unparsed:
  "url_pathname E u = Inl e \<Longrightarrow> fallback_title E u = ''Direct URL''"
  by (simp add: fallback_title_def try_catch_def bindE_def)

lemma first_match_cases:
  "first_match E u =
     (if str_includes u ''youtube.com/'' \<or> str_includes u ''youtu.be/'' then YouTubeS
      else if str_includes u ''twitch.tv/'' then TwitchS
      else if str_includes u ''vidsrc.cc'' \<or> str_includes u ''vidlink.pro'' then EmbedS
      else if isLocalFile E u then LocalS
      else if isValidUrl u then DirectS
      else SearchS)"
  by (simp add: first_match_def strategy_table_def)

text \<open>
  Claim C8, as amended. For every input the resolver runs exactly the first strategy
  of the table whose test accepts the input, in the fixed order hosted-platform video
  link, live-streaming link, embed-hosting domain, existing local file, direct URL,
  and free-text search when no test accepts; that strategy alone determines the
  result. The fifth test is \<open>isValidUrl\<close> of the source: the input contains one of
  the listed host names or starts with \<open>http://\<close> or \<open>https://\<close>. The direct-URL
  strategy always yields a source of type \<open>url\<close>; when the metadata probe fails (for
  one, when yt-dlp throws) the source is the input itself with the fallback title,
  which is the decoded file name without its extension when the URL's path ends in a
  name with a dot, and \<open>Direct URL\<close> when the URL does not parse.
\<close>

theorem resolveMediaSource_first_match:
  "resolveMediaSource E u = run_strategy E (first_match E u) u \<and>
   (first_match E u = DirectS \<longrightarrow>
      (\<exists>source. resolveMediaSource E u = Inr (Some source) \<and> mtype source = Turl \<and>
         (probe_metadata E u = Inr None \<longrightarrow>
            source = \<lparr> url = u, title = fallback_title E u, mtype = Turl, isLive = None,
                       headers = None \<rparr>))) \<and>
   (\<forall>e. ytdl_metadata E u = Inl e \<longrightarrow> probe_metadata E u = Inr None) \<and>
   (\<forall>pathname decoded.
      url_pathname E u = Inr pathname \<and> last_segment pathname \<noteq> [] \<and>
      str_includes (last_segment pathname) ''.'' \<and>
      decodeURIComponent E (strip_ext (last_segment pathname)) = Inr decoded \<longrightarrow>
      fallback_title E u = decoded) \<and>
   (\<forall>e. url_pathname E u = Inl e \<longrightarrow> fallback_title E u = ''Direct URL'')"
proof (intro conjI)
  show "resolveMediaSource E u = run_strategy E (first_match E u) u"
    by (rule resolve_dispatch)
  show "first_match E u = DirectS \<longrightarrow>
      (\<exists>source. resolveMediaSource E u = Inr (Some source) \<and> mtype source = Turl \<and>
         (probe_metadata E u = Inr None \<longrightarrow>
            source = \<lparr> url = u, title = fallback_title E u, mtype = Turl, isLive = None,
                       headers = None \<rparr>))"
  proof
    assume d: "first_match E u = DirectS"
    obtain source where s: "resolveDirectUrlSource E u = Inr source" "mtype source = Turl"
      using resolveDirectUrlSource_type by blast
    from d s have "resolveMediaSource E u = Inr (Some source)"
      by (simp add: resolve_dispatch bindE_def)
    moreover have "probe_metadata E u = Inr None \<longrightarrow>
        source = \<lparr> url = u, title = fallback_title E u, mtype = Turl, isLive = None, headers = None \<rparr>"
      using s(1) by (auto simp: resolveDirectUrlSource_cases)
    ultimately show "\<exists>source. resolveMediaSource E u = Inr (Some source) \<and> mtype source = Turl \<and>
         (probe_metadata E u = Inr None \<longrightarrow>
            source = \<lparr> url = u, title = fallback_title E u, mtype = Turl, isLive = None,
                       headers = None \<rparr>)"
      using s(2) by blast
  qed
  show "\<forall>e. ytdl_metadata E u = Inl e \<longrightarrow> probe_metadata E u = Inr None"
    by (simp add: probe_metadata_error)
  show "\<forall>pathname decoded.
      url_pathname E u = Inr pathname \<and> last_segment pathname \<noteq> [] \<and>
      str_includes (last_segment pathname) ''.'' \<and>
      decodeURIComponent E (strip_ext (last_segment pathname)) = Inr decoded \<longrightarrow>
      fallback_title E u = decoded"
    using fallback_title_filename by blast
  show "\<forall>e. url_pathname E u = Inl e \<longrightarrow> fallback_title E u = ''Direct URL''"
    using fallback_title_unparsed by blast
qed

lemma clip_first_match: "first_match env_down ''https://example.com/videos/clip.mp4'' = DirectS"
  by (simp add: first_match_cases isValidUrl_def isLocalFile_def try_catch_def env_down_def
      startsWith_def)

lemma clip_probe:
  "ytdl_metadata env_down ''https://example.com/videos/clip.mp4'' = Inl (Error ''yt-dlp failed'')"
  by (simp add: env_down_def)

lemma clip_title: "fallback_title env_down ''https://example.com/videos/clip.mp4'' = ''clip''"
  by (simp add: fallback_title_def try_catch_def bindE_def env_down_def last_segment_def
      js_split_def strip_ext_def startsWith_def)

theorem resolveMediaSource_first_match_witness:
  "first_match env_down ''https://example.com/videos/clip.mp4'' = DirectS \<and>
   ytdl_metadata env_down ''https://example.com/videos/clip.mp4'' = Inl (Error ''yt-dlp failed'') \<and>
   probe_metadata env_down ''https://example.com/videos/clip.mp4'' = Inr None \<and>
   fallback_title env_down ''https://example.com/videos/clip.mp4'' = ''clip'' \<and>
   resolveMediaSource env_down ''https://example.com/videos/clip.mp4'' =
     Inr (Some \<lparr> url = ''https://example.com/videos/clip.mp4'', title = ''clip'', mtype = Turl,
                 isLive = None, headers = None \<rparr>)"
proof -
  note dispatch = resolveMediaSource_first_match [of env_down "''https://example.com/videos/clip.mp4''"]
  from dispatch clip_probe
  have probe: "probe_metadata env_down ''https://example.com/videos/clip.mp4'' = Inr None"
    by blast
  from dispatch clip_first_match probe
  have "resolveMediaSource env_down ''https://example.com/videos/clip.mp4'' =
      Inr (Some \<lparr> url = ''https://example.com/videos/clip.mp4'',
                  title = fallback_title env_down ''https://example.com/videos/clip.mp4'',
                  mtype = Turl, isLive = None, headers = None \<rparr>)"
    by auto
  with clip_first_match clip_probe probe clip_title show ?thesis by simp
qed

text \<open>
  Claim C8, as stated, fails: \<open>rtmp://example.com/live/show\<close> is parseable as an
  absolute URL and no earlier test accepts it, yet the resolver does not take the
  direct-URL strategy; the input goes to the free-text search, whose first result (a
  hosted-platform page) is returned.
\<close>

theorem dispatch_absolute_url_counterexample:
  "spec_parseable_absolute_url ''rtmp://example.com/live/show'' \<and>
   \<not> isValidUrl ''rtmp://example.com/live/show'' \<and>
   first_match env_search ''rtmp://example.com/live/show'' = SearchS \<and>
   resolveMediaSource env_search ''rtmp://example.com/live/show'' =
     Inr (Some \<lparr> url = ''https://www.youtube.com/watch?v=abc'', title = ''A video'',
                 mtype = Tyoutube, isLive = None, headers = None \<rparr>)"
  by (simp add: spec_parseable_absolute_url_def is_alpha_def is_scheme_char_def
      resolveMediaSource_def first_match_cases isValidUrl_def isLocalFile_def try_catch_def
      bindE_def env_search_def env_down_def startsWith_def searchAndPlayYouTube_def
      searchAndGetPageUrl_def)

lemma run_strategy_total: "\<exists>r. run_strategy E st u = Inr r"
proof (cases st)
  case DirectS
  then show ?thesis by (simp add: resolveDirectUrlSource_cases bindE_def)
next
  case SearchS
  then show ?thesis
    using try_catch_None_total by (simp add: searchAndPlayYouTube_def)
qed (simp_all add: try_catch_None_total)

lemma youtube_info_error:
  "ytdlp_video_info E u = Inl e \<Longrightarrow> run_strategy E YouTubeS u = Inr None"
  by (simp add: resolveYouTubeSource_def getVideoInfo_def try_catch_def bindE_def)

lemma youtube_live_error:
  assumes "ytdlp_video_info E u = Inr d" "isValidVideoData d"
    "is_live d = Some True \<or> live_status d = Some ''is_live''" "ytdlp_get_url E u = Inl e"
  shows "run_strategy E YouTubeS u = Inr None"
  using assms
  by (auto simp: resolveYouTubeSource_def getVideoInfo_def getLiveStreamUrl_def try_catch_def
      bindE_def Let_def)

lemma twitch_error: "ytdl_metadata E u = Inl e \<Longrightarrow> run_strategy E TwitchS u = Inr None"
  by (simp add: resolveTwitchSource_def try_catch_def bindE_def)

lemma embed_error:
  "\<forall>streamUrl. extract_embed E u \<noteq> Intercepted streamUrl \<Longrightarrow> run_strategy E EmbedS u = Inr None"
  by (cases "extract_embed E u") (simp_all add: resolveEmbedSource_def try_catch_def)

lemma search_error: "yts_search E u = Inl e \<Longrightarrow> run_strategy E SearchS u = Inr None"
  by (simp add: searchAndPlayYouTube_def searchAndGetPageUrl_def try_catch_def bindE_def)

lemma direct_error:
  "ytdl_metadata E u = Inl e \<Longrightarrow>
     run_strategy E DirectS u =
       Inr (Some \<lparr> url = u, title = fallback_title E u, mtype = Turl, isLive = None,
                   headers = None \<rparr>)"
  by (simp add: resolveDirectUrlSource_cases probe_metadata_error bindE_def)

lemma addToQueue_unresolved:
  assumes "resolveMediaSource (resolver P) u = Inr None"
  shows "fst (addToQueue P username u t s) \<and>
         items (queue (snd (addToQueue P username u t s))) =
           items (queue s) @
           [\<lparr> url = u, title = str_or t u, mtype = Turl, isLive = Some False, headers = None,
              item_id = nextId (queue s), requestedBy = username, originalInput = Some u,
              downloadPath = None, downloadPromise = None \<rparr>] \<and>
         background (snd (addToQueue P username u t s)) = background s"
  using assms by (simp add: addToQueue_def queue_add_def notify_def Let_def)

text \<open>
  Claim C7, as amended. For every input string and every behaviour of the backends,
  resolving a media source never raises to the caller: the result is a value. When
  the backend of the selected strategy fails (yt-dlp for a hosted-platform or a
  live-streaming link, also in the live-stream step; the browser extraction; the
  search) the resolver returns absent. The direct-URL strategy is the exception: when
  its metadata probe fails it returns the direct-URL source, the input itself with
  the fallback title. When the resolver returns absent for an input, \<open>addToQueue\<close>
  enqueues the raw input as a source of type \<open>url\<close> that is not live, with the
  input as its URL and original input, and spawns no background download.
\<close>

theorem resolveMediaSource_fails_soft:
  "(\<exists>r. resolveMediaSource E u = Inr r) \<and>
   (\<forall>e. first_match E u = YouTubeS \<and> ytdlp_video_info E u = Inl e \<longrightarrow>
      resolveMediaSource E u = Inr None) \<and>
   (\<forall>e d. first_match E u = YouTubeS \<and> ytdlp_video_info E u = Inr d \<and> isValidVideoData d \<and>
      (is_live d = Some True \<or> live_status d = Some ''is_live'') \<and> ytdlp_get_url E u = Inl e \<longrightarrow>
      resolveMediaSource E u = Inr None) \<and>
   (\<forall>e. first_match E u = TwitchS \<and> ytdl_metadata E u = Inl e \<longrightarrow>
      resolveMediaSource E u = Inr None) \<and>
   (first_match E u = EmbedS \<and> (\<forall>streamUrl. extract_embed E u \<noteq> Intercepted streamUrl) \<longrightarrow>
      resolveMediaSource E u = Inr None) \<and>
   (\<forall>e. first_match E u = SearchS \<and> yts_search E u = Inl e \<longrightarrow>
      resolveMediaSource E u = Inr None) \<and>
   (\<forall>e. first_match E u = DirectS \<and> ytdl_metadata E u = Inl e \<longrightarrow>
      resolveMediaSource E u =
        Inr (Some \<lparr> url = u, title = fallback_title E u, mtype = Turl, isLive = None,
                    headers = None \<rparr>)) \<and>
   (\<forall>P username t s. resolveMediaSource (resolver P) u = Inr None \<longrightarrow>
      fst (addToQueue P username u t s) \<and>
      items (queue (snd (addToQueue P username u t s))) =
        items (queue s) @
        [\<lparr> url = u, title = str_or t u, mtype = Turl, isLive = Some False, headers = None,
           item_id = nextId (queue s), requestedBy = username, originalInput = Some u,
           downloadPath = None, downloadPromise = None \<rparr>] \<and>
      background (snd (addToQueue P username u t s)) = background s)"
proof (intro conjI allI impI)
  show "\<exists>r. resolveMediaSource E u = Inr r"
    using run_strategy_total by (simp add: resolve_dispatch)
qed (auto simp: resolve_dispatch youtube_info_error youtube_live_error twitch_error embed_error
      search_error direct_error addToQueue_unresolved simp del: run_strategy.simps)

section \<open>Properties of the streaming service\<close>

subsection \<open>Messages\<close>

lemma resolve_total: "\<exists>r. resolveMediaSource E u = Inr r"
  using run_strategy_total by (simp add: resolve_dispatch)

lemma queue_notify [simp]: "queue (notify n s) = queue s"
  and autoplay_notify [simp]: "autoplay (notify n s) = autoplay s"
  and manualStop_notify [simp]: "manualStop (notify n s) = manualStop s"
  and failed_notify [simp]: "failedVideos (notify n s) = failedVideos s"
  and playing_notify [simp]: "playing (notify n s) = playing s"
  and sent_notify [simp]: "sent (notify n s) = sent s @ [n]"
  and started_notify [simp]: "started (notify n s) = started s"
  and background_notify [simp]: "background (notify n s) = background s"
  and controller_notify [simp]: "controller (notify n s) = controller s"
  and activity_notify [simp]: "activity (notify n s) = activity s"
  by (simp_all add: notify_def)

lemma send_delivered [simp]: "send None n s = (Inr (), notify n s)"
  by (simp add: send_def)

lemma send_rejected [simp]: "send (Some e) n s = (Inl e, s)"
  by (simp add: send_def)

lemma send_thrown: "send x n s = (Inl e, s1) \<Longrightarrow> s1 = s"
  by (auto simp: send_def split: option.splits)

lemma send_returned: "send x n s = (Inr u, s1) \<Longrightarrow> s1 = notify n s"
  by (auto simp: send_def split: option.splits)

lemma error_report_SendError: "\<exists>msg. error_report err = SendError msg"
  by (cases err) (simp add: error_report_def)

lemma handleError_delivered [simp]:
  "handleError None err s = (Inr (), notify (error_report err) s)"
  by (simp add: handleError_def)

lemma handleError_rejected [simp]: "handleError (Some e) err s = (Inl e, s)"
  by (simp add: handleError_def)

subsection \<open>Steps that start no pipeline\<close>

lemma take_length_le:
  assumes "take (length a) b = a"
  shows "length a \<le> length b"
proof -
  have "length (take (length a) b) = length a"
    using assms by simp
  then show ?thesis
    by (simp add: min_def split: if_splits)
qed

lemma quiet_refl [simp]: "quiet s s"
  by (simp add: quiet_def)

lemma quiet_trans: "quiet a b \<Longrightarrow> quiet b c \<Longrightarrow> quiet a c"
proof -
  assume ab: "quiet a b" and bc: "quiet b c"
  then have "take (length (sent a)) (sent b) = sent a" "take (length (sent b)) (sent c) = sent b"
    by (simp_all add: quiet_def)
  then have "take (length (sent a)) (take (length (sent b)) (sent c)) = sent a"
    by simp
  moreover have "length (sent a) \<le> length (sent b)"
    using \<open>take (length (sent a)) (sent b) = sent a\<close> by (rule take_length_le)
  ultimately have "take (length (sent a)) (sent c) = sent a"
    by (simp add: min_def)
  with ab bc show ?thesis
    by (auto simp: quiet_def)
qed


lemma quiet_notify [simp]: "quiet s (notify n s)"
  by (simp add: quiet_def)

lemma quiet_send: "quiet s (snd (send x n s))"
  by (simp add: send_def split: option.splits)

lemma quiet_handleError: "quiet s (snd (handleError x err s))"
  by (simp add: handleError_def quiet_send)

lemma quiet_mark [simp]: "quiet s (markVideoAsFailed source s)"
  by (auto simp: quiet_def markVideoAsFailed_def)

lemma quiet_cleanup [simp]: "quiet s (cleanupStreamStatus s)"
  by (simp add: quiet_def cleanupStreamStatus_def)

lemma quiet_fields [simp]:
  "quiet s (s \<lparr> queue := q \<rparr>)" "quiet s (s \<lparr> autoplay := a \<rparr>)"
  "quiet s (s \<lparr> leaveTimeout := l \<rparr>)" "quiet s (s \<lparr> manualStop := m \<rparr>)"
  "quiet s (s \<lparr> isSkipping := k \<rparr>)" "quiet s (s \<lparr> ytDlpProcess := y \<rparr>)"
  "quiet s (s \<lparr> controller := c \<rparr>)" "quiet s (s \<lparr> stateFile := f \<rparr>)"
  "quiet s (s \<lparr> playing := p, startTime := st, activity := ac \<rparr>)"
  by (simp_all add: quiet_def)

lemma quiet_hqa: "quiet s (snd (handleQueueAdvancement ops x s))"
  by (auto simp: handleQueueAdvancement_def send_def quiet_def cleanupStreamStatus_def
      split: option.splits prod.splits)

lemma quiet_finalize: "quiet s (snd (finalizeStream ops x f s))"
proof -
  have "quiet s (cleanupStreamStatus (s \<lparr> queue := resetCurrentIndex (setPlaying False (queue s)) \<rparr>))"
    by (simp add: quiet_def cleanupStreamStatus_def)
  moreover have "quiet a (a \<lparr> unlinked := u \<rparr>)" for a :: svc and u
    by (simp add: quiet_def)
  ultimately show ?thesis
    using quiet_hqa [of s ops x]
    by (cases "handleQueueAdvancement ops x s")
      (auto simp: finalizeStream_def quiet_def split: sum.splits option.splits)
qed

lemma quiet_catch: "quiet s (playVideo_catch ops E err source s)"
proof (cases "handleError (report_send E) err s")
  case (Pair r s1)
  then have a: "quiet s s1"
    using quiet_handleError [of s "report_send E" err] by simp
  have b: "quiet s1 (markVideoAsFailed source s1)" by simp
  have c: "quiet (markVideoAsFailed source s1)
             (snd (handleQueueAdvancement ops (advance_send E) (markVideoAsFailed source s1)))"
    by (rule quiet_hqa)
  show ?thesis
    using Pair a quiet_trans [OF a b] quiet_trans [OF quiet_trans [OF a b] c]
    by (cases r) (simp_all add: playVideo_catch_def Let_def)
qed

lemma quiet_start: "quiet s (playVideo_start t s)"
  by (simp add: playVideo_start_def quiet_def Let_def)

lemma quiet_ensure: "quiet s (snd (ensureVoiceConnection cfg E s))"
  by (simp add: ensureVoiceConnection_def quiet_def Let_def split: join_outcome.splits)

lemma quiet_handleDownload: "quiet s (snd (handleDownload E source t s))"
  by (simp add: handleDownload_def quiet_def Let_def split: sum.splits option.splits)

lemma quiet_settles [simp]: "quiet s (download_settles i s)"
  by (simp add: download_settles_def quiet_def)

lemma quiet_prepare_resolved: "quiet s (snd (prepare_resolved E source t hs s))"
proof -
  obtain r s1 where h: "handleDownload E source t s = (r, s1)"
    by (cases "handleDownload E source t s")
  then have "quiet s s1" using quiet_handleDownload [of s E source t] by simp
  moreover have "quiet s (s \<lparr> ytDlpProcess := True \<rparr>)" by simp
  ultimately show ?thesis using h
    by (cases r) (simp_all add: prepare_resolved_def split: sum.splits option.splits)
qed

lemma quiet_prepare: "quiet s (snd (prepareVideoSource E source t hs qi s))"
proof -
  have "quiet s (snd (prepare_resolved E source t hs (download_settles i s)))" for i
    using quiet_trans [OF quiet_settles quiet_prepare_resolved] .
  then show ?thesis
    by (simp add: prepareVideoSource_def quiet_prepare_resolved split: option.splits sum.splits)
qed

subsection \<open>The advance of the queue\<close>

lemma hqa_rejected: "handleQueueAdvancement ops (Some e) s = (Inl e, s)"
  by (simp add: handleQueueAdvancement_def)

lemma hqa_next:
  "getNext ops (remove_finished ops (queue s)) = (Some nextItem, q2) \<Longrightarrow>
     handleQueueAdvancement ops None s =
       (Inr (), (notify SendFinishMessage s) \<lparr> queue := q2, autoplay := autoplay s @ [nextItem] \<rparr>)"
  by (simp add: handleQueueAdvancement_def)

lemma hqa_none:
  "getNext ops (remove_finished ops (queue s)) = (None, q2) \<Longrightarrow>
     handleQueueAdvancement ops None s =
       (Inr (), cleanupStreamStatus ((notify SendFinishMessage s) \<lparr> queue := setPlaying False q2 \<rparr>))"
  by (simp add: handleQueueAdvancement_def)




subsection \<open>The handler of a failed attempt\<close>

lemma manualStop_mark [simp]: "manualStop (markVideoAsFailed source s) = manualStop s"
  and queue_mark [simp]: "queue (markVideoAsFailed source s) = queue s"
  and autoplay_mark [simp]: "autoplay (markVideoAsFailed source s) = autoplay s"
  and playing_mark [simp]: "playing (markVideoAsFailed source s) = playing s"
  and started_mark [simp]: "started (markVideoAsFailed source s) = started s"
  and sent_mark [simp]: "sent (markVideoAsFailed source s) = sent s"
  and failed_mark [simp]: "failedVideos (markVideoAsFailed source s) = insert source (failedVideos s)"
  by (simp_all add: markVideoAsFailed_def)







subsection \<open>Steps of a playback attempt\<close>

lemma manualStop_ensure: "manualStop (snd (ensureVoiceConnection cfg E s)) = manualStop s"
  by (simp add: ensureVoiceConnection_def Let_def split: join_outcome.splits)

lemma manualStop_handleDownload: "manualStop (snd (handleDownload E source t s)) = manualStop s"
  by (simp add: handleDownload_def Let_def split: sum.splits option.splits)

lemma manualStop_prepare_resolved:
  "manualStop (snd (prepare_resolved E source t hs s)) = manualStop s"
  using manualStop_handleDownload [of E source t s]
  by (auto simp: prepare_resolved_def split: sum.splits option.splits prod.splits)

lemma manualStop_settles [simp]: "manualStop (download_settles i s) = manualStop s"
  by (simp add: download_settles_def)

lemma manualStop_prepare:
  "manualStop (snd (prepareVideoSource E source t hs queueItem s)) = manualStop s"
  by (auto simp: prepareVideoSource_def manualStop_prepare_resolved
      split: option.splits sum.splits)


lemma manualStop_start [simp]: "\<not> manualStop (playVideo_start t s)"
  by (simp add: playVideo_start_def Let_def)



lemma handleDownload_fst: "fst (handleDownload E source t s) = fst (handleDownload E source t s')"
  by (simp add: handleDownload_def Let_def split: sum.splits option.splits)

lemma prepare_resolved_fst:
  "fst (prepare_resolved E source t hs s) = fst (prepare_resolved E source t hs s')"
proof -
  obtain r s1 where h: "handleDownload E source t s = (r, s1)"
    by (cases "handleDownload E source t s")
  obtain r' s1' where h': "handleDownload E source t s' = (r', s1')"
    by (cases "handleDownload E source t s'")
  from h h' have "r = r'"
    using handleDownload_fst [of E source t s s'] by simp
  with h h' show ?thesis
    by (cases r') (simp_all add: prepare_resolved_def split: sum.splits option.splits)
qed

lemma prepare_fst:
  "fst (prepareVideoSource E source t hs qi s) = fst (prepareVideoSource E source t hs qi s')"
proof -
  have "fst (prepare_resolved E source t hs a) = fst (prepare_resolved E source t hs b)" for a b
    by (rule prepare_resolved_fst)
  then show ?thesis
    by (simp add: prepareVideoSource_def split: option.splits sum.splits)
qed

lemma exec_quiet:
  "quiet (s \<lparr> started := started s @
                 [\<lparr> st_input = input, st_source = source, st_title = t,
                    st_opts = opts \<lparr> customHeaders := Some (merged_headers (customHeaders opts) hs) \<rparr>,
                    st_inputOptions = inputOptions (seekTime opts) input \<rparr>] \<rparr>)
     (snd (executeStreamWorkflow E input opts t source hs s))"
  by (simp add: executeStreamWorkflow_def executeStream_def quiet_def Let_def
      split: stream_outcome.splits)

lemma quiet_append:
  "quiet a b \<Longrightarrow> quiet (a \<lparr> started := started a @ [st] \<rparr>) (b \<lparr> started := started b @ [st] \<rparr>)"
  by (simp add: quiet_def)


text \<open>
  What an attempt of \<open>playVideo\<close> comes to: an error before the pipeline starts
  (from the connection or the preparation) is handled in a state that no pipeline was
  started in; otherwise one pipeline is started, on the source of the call and the
  input the preparation gave.
\<close>

lemma playVideo_outcome:
  "(\<exists>e s'. quiet s s' \<and> \<not> manualStop s' \<and>
            playVideo ops cfg E source t vp hs qi seek s = playVideo_catch ops E e source s' \<and>
            (fst (ensureVoiceConnection cfg E ((playVideo_start t s) \<lparr> leaveTimeout := False \<rparr>)) = Inl e \<or>
             fst (prepareVideoSource E source t hs qi s) = Inl e)) \<or>
   (\<exists>st p. quiet (s \<lparr> started := started s @ [st] \<rparr>)
               (playVideo ops cfg E source t vp hs qi seek s) \<and>
            fst (prepareVideoSource E source t hs qi s) = Inr p \<and>
            st_input st = inputForFfmpeg p \<and> st_source st = source \<and>
            st_title st = str_or t ''Video'' \<and>
            seekTime (st_opts st) = (case seek of Some k \<Rightarrow> if k = 0 then None else Some k
                                      | None \<Rightarrow> None) \<and>
            st_inputOptions st = inputOptions (seekTime (st_opts st)) (st_input st))"
proof -
  define s0 where "s0 = (playVideo_start t s) \<lparr> leaveTimeout := False \<rparr>"
  define r where "r = playVideo ops cfg E source t vp hs qi seek s"
  have "quiet s (playVideo_start t s)" by (rule quiet_start)
  moreover have "quiet (playVideo_start t s) s0" by (simp add: s0_def)
  ultimately have q0: "quiet s s0" by (rule quiet_trans)
  have m0: "\<not> manualStop s0" by (simp add: s0_def)
  obtain r2 s2 where e: "ensureVoiceConnection cfg E s0 = (r2, s2)"
    by (cases "ensureVoiceConnection cfg E s0")
  have q2: "quiet s s2"
    using quiet_trans [OF q0 quiet_ensure [of s0 cfg E]] e by simp
  have m2: "\<not> manualStop s2"
    using manualStop_ensure [of cfg E s0] e m0 by simp
  show ?thesis
  proof (cases r2)
    case (Inl err)
    then have "r = playVideo_catch ops E err source s2"
      using e by (simp add: r_def playVideo_def playVideo_try_def s0_def)
    with q2 m2 e Inl show ?thesis unfolding r_def s0_def by auto
  next
    case (Inr u)
    obtain r3 s3 where p: "prepareVideoSource E source t hs qi s2 = (r3, s3)"
      by (cases "prepareVideoSource E source t hs qi s2")
    have q3: "quiet s s3"
      using quiet_trans [OF q2 quiet_prepare [of s2 E source t hs qi]] p by simp
    have m3: "\<not> manualStop s3"
      using manualStop_prepare [of E source t hs qi s2] p m2 by simp
    have f3: "fst (prepareVideoSource E source t hs qi s) = r3"
      using prepare_fst [of E source t hs qi s s2] p by simp
    show ?thesis
    proof (cases r3)
      case (Inl err)
      then have "r = playVideo_catch ops E err source s3"
        using e \<open>r2 = Inr u\<close> p by (simp add: r_def playVideo_def playVideo_try_def s0_def)
      with q3 m3 f3 Inl show ?thesis unfolding r_def s0_def by auto
    next
      case (Inr pr)
      define sk where "sk = (case seek of Some k \<Rightarrow> k \<noteq> 0 | None \<Rightarrow> False)"
      define opts0 where
        "opts0 = (setupStreamConfiguration cfg vp) \<lparr> customHeaders := resolvedHeaders pr \<rparr>"
      define opts where "opts = (if sk then opts0 \<lparr> seekTime := seek \<rparr> else opts0)"
      define s4 where "s4 = s3 \<lparr> playing := True,
                             startTime := (if sk then now E - the seek * 1000 else now E),
                             activity := StatusWatch (str_or t ''Video'') \<rparr>"
      define st where "st = \<lparr> st_input = inputForFfmpeg pr, st_source = source,
          st_title = str_or t ''Video'',
          st_opts = opts \<lparr> customHeaders := Some (merged_headers (customHeaders opts) (resolvedHeaders pr)) \<rparr>,
          st_inputOptions = inputOptions (seekTime opts) (inputForFfmpeg pr) \<rparr>"
      obtain r5 s5 where x: "executeStreamWorkflow E (inputForFfmpeg pr) opts (str_or t ''Video'')
                               source (resolvedHeaders pr) s4 = (r5, s5)"
        by (cases "executeStreamWorkflow E (inputForFfmpeg pr) opts (str_or t ''Video'') source
                               (resolvedHeaders pr) s4")
      have q4: "quiet s s4"
        using quiet_trans [OF q3, of s4] by (simp add: s4_def)
      have q5: "quiet (s \<lparr> started := started s @ [st] \<rparr>) s5"
        using quiet_trans [OF quiet_append [OF q4, of st]]
          exec_quiet [of s4 "inputForFfmpeg pr" source "str_or t ''Video''" opts
                         "resolvedHeaders pr" E] x
        by (simp add: st_def)
      obtain r6 s6 where f: "finalizeStream ops (finish_send E) (tempFilePath pr) s5 = (r6, s6)"
        by (cases "finalizeStream ops (finish_send E) (tempFilePath pr) s5")
      have q6: "quiet s5 s6"
        using quiet_finalize [of s5 ops "finish_send E" "tempFilePath pr"] f by simp
      have t: "playVideo_try ops cfg E source t vp hs qi seek (playVideo_start t s) =
                 (case r5 of Inl err \<Rightarrow> Inl (err, s5)
                           | Inr u \<Rightarrow> (case r6 of Inl err \<Rightarrow> Inl (err, s6) | Inr u \<Rightarrow> Inr s6))"
        using e \<open>r2 = Inr u\<close> p Inr x f
        by (cases seek)
          (auto simp: playVideo_try_def s0_def Let_def opts_def opts0_def s4_def sk_def
             split: sum.splits)
      have "quiet s5 r"
      proof (cases r5)
        case (Inl err)
        with t show ?thesis by (simp add: r_def playVideo_def quiet_catch)
      next
        case r5: (Inr v)
        show ?thesis
        proof (cases r6)
          case (Inl err)
          with t r5 have "r = playVideo_catch ops E err source s6"
            by (simp add: r_def playVideo_def)
          with quiet_trans [OF q6 quiet_catch] show ?thesis by simp
        next
          case (Inr w)
          with t r5 q6 show ?thesis by (simp add: r_def playVideo_def)
        qed
      qed
      with q5 have a: "quiet (s \<lparr> started := started s @ [st] \<rparr>) r"
        by (rule quiet_trans)
      have "seekTime opts = (case seek of Some k \<Rightarrow> if k = 0 then None else Some k | None \<Rightarrow> None)"
        by (simp add: opts_def opts0_def sk_def setupStreamConfiguration_def split: option.splits)
      then have "st_input st = inputForFfmpeg pr \<and> st_source st = source \<and>
            st_title st = str_or t ''Video'' \<and>
            seekTime (st_opts st) = (case seek of Some k \<Rightarrow> if k = 0 then None else Some k
                                      | None \<Rightarrow> None) \<and>
            st_inputOptions st = inputOptions (seekTime (st_opts st)) (st_input st)"
        by (simp add: st_def)
      with a f3 Inr show ?thesis unfolding r_def s0_def by blast
    qed
  qed
qed








lemma joined_start [simp]: "joined (playVideo_start t s) = joined s"
  and voice_start [simp]: "voiceConnection (playVideo_start t s) = voiceConnection s"
  and autoplay_start [simp]: "autoplay (playVideo_start t s) = autoplay s"
  and started_start [simp]: "started (playVideo_start t s) = started s"
  and sent_start [simp]: "sent (playVideo_start t s) = sent s"
  by (simp_all add: playVideo_start_def Let_def)

subsection \<open>Attempts that start the pipeline\<close>






subsection \<open>The first-in first-out queue\<close>









subsection \<open>The two-item scenario\<close>

lemma not_a_video_search: "first_match env_down ''not a video'' = SearchS"
  by (simp add: first_match_cases isValidUrl_def isLocalFile_def try_catch_def env_down_def
      startsWith_def)

lemma not_a_video_backend: "yts_search env_down ''not a video'' = Inl (Error ''search failed'')"
  by (simp add: env_down_def)

lemma not_a_video_unresolved: "resolveMediaSource env_down ''not a video'' = Inr None"
  using search_error [OF not_a_video_backend] by (simp only: resolve_dispatch not_a_video_search)

lemma clip_resolved:
  "resolveMediaSource env_down ''https://example.com/videos/clip.mp4'' =
     Inr (Some \<lparr> url = ''https://example.com/videos/clip.mp4'', title = ''clip'', mtype = Turl,
                 isLive = None, headers = None \<rparr>)"
  using direct_error [OF clip_probe] by (simp only: resolve_dispatch clip_first_match clip_title)

lemma resolver_P [simp]: "resolver P_ok = env_down" "resolver P_fail = env_down"
  "resolver P_nojoin = env_down"
  by (simp_all add: P_ok_def P_fail_def P_nojoin_def)


lemma s_AB_flags:
  "\<not> playing s_AB \<and> \<not> manualStop s_AB \<and> \<not> joined s_AB \<and> controller s_AB = None \<and>
   autoplay s_AB = [] \<and> started s_AB = [] \<and> failedVideos s_AB = {} \<and> \<not> isSkipping s_AB \<and>
   background s_AB = [] \<and> \<not> voiceConnection s_AB"
  by (simp add: s_AB_def addToQueue_def not_a_video_unresolved clip_resolved
      queue_add_def queue_addToQueue_def new_service_def empty_queue_def notify_def
      Let_def)

lemma s_AB_eq:
  "s_AB = (new_service None)
            \<lparr> queue := \<lparr> items = [item_A, item_B], currentIndex = - 1, isPlaying = False, nextId = 3 \<rparr>,
              sent := [SendSuccess ''Added to queue: `not a video`'',
                       SendSuccess ''Added to queue: `clip`''] \<rparr>"
  by (simp add: s_AB_def addToQueue_def not_a_video_unresolved clip_resolved
      queue_add_def queue_addToQueue_def new_service_def empty_queue_def notify_def
      item_A_def item_B_def Let_def)

lemma s_pA_eq:
  "s_pA = (new_service None)
            \<lparr> queue := \<lparr> items = [item_A, item_B], currentIndex = 0, isPlaying = True, nextId = 3 \<rparr>,
              sent := [SendSuccess ''Added to queue: `not a video`'',
                       SendSuccess ''Added to queue: `clip`''] \<rparr>"
  by (simp add: s_pA_def s_AB_eq new_service_def)













subsection \<open>Errors while preparing or streaming\<close>


subsection \<open>The two-item scenario, with a failing pipeline\<close>


subsection \<open>A rejected report and a resumed source\<close>















subsection \<open>Failure of the voice connection\<close>











subsection \<open>The resolver at concrete inputs\<close>

theorem resolveMediaSource_fails_soft_witness:
  "first_match env_down ''not a video'' = SearchS \<and>
   yts_search env_down ''not a video'' = Inl (Error ''search failed'') \<and>
   resolveMediaSource env_down ''not a video'' = Inr None \<and>
   resolveMediaSource (resolver P_ok) ''not a video'' = Inr None \<and>
   fst (addToQueue P_ok ''dj'' ''not a video'' None (new_service None)) \<and>
   items (queue (snd (addToQueue P_ok ''dj'' ''not a video'' None (new_service None)))) = [item_A] \<and>
   first_match env_down ''https://example.com/videos/clip.mp4'' = DirectS \<and>
   ytdl_metadata env_down ''https://example.com/videos/clip.mp4'' = Inl (Error ''yt-dlp failed'') \<and>
   resolveMediaSource env_down ''https://example.com/videos/clip.mp4'' =
     Inr (Some \<lparr> url = ''https://example.com/videos/clip.mp4'',
                 title = fallback_title env_down ''https://example.com/videos/clip.mp4'',
                 mtype = Turl, isLive = None, headers = None \<rparr>)"
proof -
  note S = resolveMediaSource_fails_soft [of env_down "''not a video''"]
  note D = resolveMediaSource_fails_soft [of env_down "''https://example.com/videos/clip.mp4''"]
  from S not_a_video_search not_a_video_backend
  have n: "resolveMediaSource env_down ''not a video'' = Inr None"
    by blast
  then have n': "resolveMediaSource (resolver P_ok) ''not a video'' = Inr None"
    by simp
  with S have "fst (addToQueue P_ok ''dj'' ''not a video'' None (new_service None))"
    and "items (queue (snd (addToQueue P_ok ''dj'' ''not a video'' None (new_service None)))) =
      items (queue (new_service None)) @
      [\<lparr> url = ''not a video'', title = str_or None ''not a video'', mtype = Turl,
         isLive = Some False, headers = None, item_id = nextId (queue (new_service None)),
         requestedBy = ''dj'', originalInput = Some ''not a video'', downloadPath = None,
         downloadPromise = None \<rparr>]"
    by blast+
  then have q: "fst (addToQueue P_ok ''dj'' ''not a video'' None (new_service None))"
    "items (queue (snd (addToQueue P_ok ''dj'' ''not a video'' None (new_service None)))) = [item_A]"
    by (simp_all add: new_service_def empty_queue_def item_A_def)
  from D clip_first_match clip_probe
  have d: "resolveMediaSource env_down ''https://example.com/videos/clip.mp4'' =
     Inr (Some \<lparr> url = ''https://example.com/videos/clip.mp4'',
                 title = fallback_title env_down ''https://example.com/videos/clip.mp4'',
                 mtype = Turl, isLive = None, headers = None \<rparr>)"
    by blast
  from not_a_video_search not_a_video_backend n n' q clip_first_match clip_probe d
  show ?thesis by simp
qed

text \<open>
  Claim C7, as stated, fails in its second half: for a direct URL whose metadata
  probe throws, the resolver does not return absent but the direct-URL source with
  the title taken from the file name.
\<close>

theorem resolver_backend_error_counterexample:
  "first_match env_down ''https://example.com/videos/clip.mp4'' = DirectS \<and>
   ytdl_metadata env_down ''https://example.com/videos/clip.mp4'' = Inl (Error ''yt-dlp failed'') \<and>
   resolveMediaSource env_down ''https://example.com/videos/clip.mp4'' \<noteq> Inr None \<and>
   resolveMediaSource env_down ''https://example.com/videos/clip.mp4'' =
     Inr (Some \<lparr> url = ''https://example.com/videos/clip.mp4'', title = ''clip'', mtype = Turl,
                 isLive = None, headers = None \<rparr>)"
  by (simp add: clip_first_match clip_probe clip_resolved)

subsection \<open>Skipping\<close>

lemma skip_rejected:
  assumes "isSkipping s" "1 < getLength (queue s)"
  shows "fst (skip_enter ops s) = Rejected \<and>
         (\<exists>msg. snd (skip_enter ops s) = notify (SendError msg) s) \<and>
         skipCurrent ops cfg E s = snd (skip_enter ops s)"
  using assms by (auto simp: skip_enter_def skipCurrent_def skip_resume_def Let_def)

lemma skip_idle_rejected:
  assumes "\<not> playing s"
  shows "fst (skip_enter ops s) = Rejected \<and>
         snd (skip_enter ops s) = notify (SendError ''No video is currently playing.'') s"
  using assms by (simp add: skip_enter_def)

lemma skip_admitted:
  assumes "playing s" "\<not> (isSkipping s \<and> 1 < getLength (queue s))"
  shows "fst (skip_enter ops s) \<noteq> Rejected \<and> isSkipping (snd (skip_enter ops s)) \<and>
         manualStop (snd (skip_enter ops s)) \<and>
         queue (snd (skip_enter ops s)) = snd (skip ops (queue s))"
  using assms
  by (auto simp: skip_enter_def Let_def notify_def split: prod.splits option.splits)

lemma skip_enter_empty:
  assumes "playing s" "\<not> (isSkipping s \<and> 1 < getLength (queue s))" "skip ops (queue s) = (None, q1)"
  shows "skip_enter ops s =
           (AtEmptyNotice,
            notify empty_notice
              (s \<lparr> isSkipping := True, manualStop := True, controller := abort (controller s),
                   queue := q1 \<rparr>))"
  using assms by (auto simp: skip_enter_def Let_def empty_notice_def)

lemma double_skip_last:
  assumes "playing s" "getLength (queue s) \<le> 1" "skip ops (queue s) = (None, q1)"
    "getLength q1 \<le> 1" "skip ops q1 = (None, q2)"
  shows "fst (skip_enter ops s) = AtEmptyNotice \<and>
         fst (skip_enter ops (snd (skip_enter ops s))) = AtEmptyNotice \<and>
         sent (double_skip ops cfg E s) = sent s @ [empty_notice, empty_notice] \<and>
         \<not> playing (double_skip ops cfg E s) \<and> \<not> isSkipping (double_skip ops cfg E s) \<and>
         \<not> manualStop (double_skip ops cfg E s) \<and> \<not> isPlaying (queue (double_skip ops cfg E s)) \<and>
         queue (double_skip ops cfg E s) = setPlaying False q2"
proof -
  let ?s1 = "notify empty_notice
              (s \<lparr> isSkipping := True, manualStop := True, controller := abort (controller s),
                   queue := q1 \<rparr>)"
  from assms(1,2,3) have e1: "skip_enter ops s = (AtEmptyNotice, ?s1)"
    by (intro skip_enter_empty) simp_all
  have p1: "playing ?s1" "queue ?s1 = q1"
    using assms(1) by (simp_all add: notify_def)
  let ?s2 = "notify empty_notice
              (?s1 \<lparr> isSkipping := True, manualStop := True, controller := abort (controller ?s1),
                   queue := q2 \<rparr>)"
  have e2: "skip_enter ops ?s1 = (AtEmptyNotice, ?s2)"
    using p1 assms(4,5) by (intro skip_enter_empty) simp_all
  have d: "double_skip ops cfg E s =
      skip_resume ops cfg E AtEmptyNotice (skip_resume ops cfg E AtEmptyNotice ?s2)"
    by (simp add: double_skip_def e1 e2)
  have c1: "fst (skip_enter ops s) = AtEmptyNotice"
    by (simp add: e1)
  have c2: "fst (skip_enter ops (snd (skip_enter ops s))) = AtEmptyNotice"
    by (simp only: e1 e2 fst_conv snd_conv)
  show ?thesis
    unfolding d
    by (simp add: c1 c2 skip_resume_def cleanupStreamStatus_def setPlaying_def notify_def)
qed


text \<open>
  Claim C1, as amended. A skip issued while another skip is in progress, on a queue
  of more than one item, is rejected with a notification and changes nothing else.
  When the queue holds at most one item the second skip is admitted at once: it sets
  the flags and advances the queue like a first skip. So a double skip on a one-item
  queue never blocks: when the second call arrives while the first waits at its
  notice, and the queue has no next item for either, both calls complete and leave the
  service Idle, with \<open>playing\<close>, \<open>isSkipping\<close>, \<open>manualStop\<close> and the queue's playing
  flag cleared. Each admitted call performs the transition to the empty-queue state
  itself: the notice that the queue is empty is sent twice.
\<close>

theorem skip_guard_and_double_skip:
  "(isSkipping s \<and> 1 < getLength (queue s) \<longrightarrow>
      fst (skip_enter ops s) = Rejected \<and>
      (\<exists>msg. snd (skip_enter ops s) = notify (SendError msg) s) \<and>
      skipCurrent ops cfg E s = snd (skip_enter ops s)) \<and>
   (playing s \<and> isSkipping s \<and> getLength (queue s) \<le> 1 \<longrightarrow>
      fst (skip_enter ops s) \<noteq> Rejected \<and> isSkipping (snd (skip_enter ops s)) \<and>
      manualStop (snd (skip_enter ops s)) \<and>
      queue (snd (skip_enter ops s)) = snd (skip ops (queue s))) \<and>
   (\<forall>q1 q2. playing s \<and> getLength (queue s) \<le> 1 \<and> skip ops (queue s) = (None, q1) \<and>
      getLength q1 \<le> 1 \<and> skip ops q1 = (None, q2) \<longrightarrow>
      fst (skip_enter ops s) = AtEmptyNotice \<and>
      fst (skip_enter ops (snd (skip_enter ops s))) = AtEmptyNotice \<and>
      sent (double_skip ops cfg E s) = sent s @ [empty_notice, empty_notice] \<and>
      \<not> playing (double_skip ops cfg E s) \<and> \<not> isSkipping (double_skip ops cfg E s) \<and>
      \<not> manualStop (double_skip ops cfg E s) \<and> \<not> isPlaying (queue (double_skip ops cfg E s)) \<and>
      queue (double_skip ops cfg E s) = setPlaying False q2)"
proof (intro conjI allI impI)
  assume a: "isSkipping s \<and> 1 < getLength (queue s)"
  from a skip_rejected [of s ops cfg E]
  show "fst (skip_enter ops s) = Rejected"
    and "\<exists>msg. snd (skip_enter ops s) = notify (SendError msg) s"
    and "skipCurrent ops cfg E s = snd (skip_enter ops s)"
    by simp_all
next
  assume a: "playing s \<and> isSkipping s \<and> getLength (queue s) \<le> 1"
  then have "playing s" "\<not> (isSkipping s \<and> 1 < getLength (queue s))" by auto
  from skip_admitted [OF this]
  show "fst (skip_enter ops s) \<noteq> Rejected" and "isSkipping (snd (skip_enter ops s))"
    and "manualStop (snd (skip_enter ops s))"
    and "queue (snd (skip_enter ops s)) = snd (skip ops (queue s))"
    by simp_all
next
  fix q1 q2
  assume a: "playing s \<and> getLength (queue s) \<le> 1 \<and> skip ops (queue s) = (None, q1) \<and>
      getLength q1 \<le> 1 \<and> skip ops q1 = (None, q2)"
  then have "playing s" "getLength (queue s) \<le> 1" "skip ops (queue s) = (None, q1)"
    "getLength q1 \<le> 1" "skip ops q1 = (None, q2)"
    by simp_all
  from double_skip_last [OF this, of cfg E]
  show "fst (skip_enter ops s) = AtEmptyNotice"
    and "fst (skip_enter ops (snd (skip_enter ops s))) = AtEmptyNotice"
    and "sent (double_skip ops cfg E s) = sent s @ [empty_notice, empty_notice]"
    and "\<not> playing (double_skip ops cfg E s)" and "\<not> isSkipping (double_skip ops cfg E s)"
    and "\<not> manualStop (double_skip ops cfg E s)"
    and "\<not> isPlaying (queue (double_skip ops cfg E s))"
    and "queue (double_skip ops cfg E s) = setPlaying False q2"
    by (simp_all add: setPlaying_def)
qed

lemma s_one_facts:
  "playing s_one" "\<not> isSkipping s_one" "getLength (queue s_one) = 1" "sent s_one = []"
  by (simp_all add: s_one_def new_service_def getLength_def)

lemma s_one_skip:
  "skip fifo_ops (queue s_one) =
     (None, \<lparr> items = [], currentIndex = - 1, isPlaying = True, nextId = 2 \<rparr>)"
  by (simp add: s_one_def new_service_def fifo_ops_def fifo_skip_def getCurrent_def
      fifo_removeFromQueue_def fifo_getNext_def index_of_def item_A_def Let_def)

lemma empty_skip:
  "skip fifo_ops \<lparr> items = [], currentIndex = - 1, isPlaying = True, nextId = 2 \<rparr> =
     (None, \<lparr> items = [], currentIndex = - 1, isPlaying = True, nextId = 2 \<rparr>)"
  by (simp add: fifo_ops_def fifo_skip_def getCurrent_def fifo_getNext_def)

lemma s_one_double:
  "fst (skip_enter fifo_ops s_one) = AtEmptyNotice \<and>
   fst (skip_enter fifo_ops (snd (skip_enter fifo_ops s_one))) = AtEmptyNotice \<and>
   sent (double_skip fifo_ops cfg0 P_ok s_one) = [empty_notice, empty_notice] \<and>
   \<not> playing (double_skip fifo_ops cfg0 P_ok s_one) \<and>
   \<not> isSkipping (double_skip fifo_ops cfg0 P_ok s_one)"
proof -
  have a: "getLength (queue s_one) \<le> 1"
    by (simp add: s_one_facts)
  have b: "getLength \<lparr> items = [], currentIndex = - 1, isPlaying = True, nextId = 2 \<rparr> \<le> 1"
    by (simp add: getLength_def)
  from double_skip_last [OF s_one_facts(1) a s_one_skip b empty_skip, of cfg0 P_ok]
  show ?thesis by (simp add: s_one_facts)
qed

text \<open>
  Claim C1, as stated, fails in its last part. On the one-item queue both of two
  interleaved skips are admitted and both take the branch of the empty queue: the
  notice of that transition is sent twice, not exactly once.
\<close>

theorem double_skip_counterexample:
  "playing s_one \<and> getLength (queue s_one) = 1 \<and>
   fst (skip_enter fifo_ops s_one) = AtEmptyNotice \<and>
   fst (skip_enter fifo_ops (snd (skip_enter fifo_ops s_one))) = AtEmptyNotice \<and>
   sent (double_skip fifo_ops cfg0 P_ok s_one) = [empty_notice, empty_notice] \<and>
   count_list (sent (double_skip fifo_ops cfg0 P_ok s_one)) empty_notice = 2"
  using s_one_double by (simp add: s_one_facts)

lemma s_busy_facts: "isSkipping s_busy" "playing s_busy" "getLength (queue s_busy) = 2"
  by (simp_all add: s_busy_def s_pA_eq new_service_def getLength_def)

lemma s_last_facts: "isSkipping s_last" "playing s_last" "getLength (queue s_last) = 1"
  by (simp_all add: s_last_def s_one_def new_service_def getLength_def)

theorem skip_guard_and_double_skip_witness:
  "isSkipping s_busy \<and> 1 < getLength (queue s_busy) \<and>
   skipCurrent fifo_ops cfg0 P_ok s_busy = notify (SendError ''Skip already in progress.'') s_busy \<and>
   playing s_last \<and> isSkipping s_last \<and> getLength (queue s_last) \<le> 1 \<and>
   fst (skip_enter fifo_ops s_last) \<noteq> Rejected \<and>
   playing s_one \<and> getLength (queue s_one) \<le> 1 \<and>
   skip fifo_ops (queue s_one) =
     (None, \<lparr> items = [], currentIndex = - 1, isPlaying = True, nextId = 2 \<rparr>) \<and>
   \<not> playing (double_skip fifo_ops cfg0 P_ok s_one) \<and>
   \<not> isSkipping (double_skip fifo_ops cfg0 P_ok s_one) \<and>
   sent (double_skip fifo_ops cfg0 P_ok s_one) = [empty_notice, empty_notice]"
proof -
  let ?q0 = "\<lparr> items = [], currentIndex = - 1, isPlaying = True, nextId = 2 \<rparr>"
  note B = skip_guard_and_double_skip [of s_busy fifo_ops cfg0 P_ok]
  note L = skip_guard_and_double_skip [of s_last fifo_ops cfg0 P_ok]
  note D = skip_guard_and_double_skip [of s_one fifo_ops cfg0 P_ok]
  have bl: "1 < getLength (queue s_busy)"
    by (simp add: s_busy_facts)
  with B s_busy_facts(1)
  have "skipCurrent fifo_ops cfg0 P_ok s_busy = snd (skip_enter fifo_ops s_busy)"
    by blast
  also from s_busy_facts bl
  have "\<dots> = notify (SendError ''Skip already in progress.'') s_busy"
    by (simp add: skip_enter_def)
  finally have b: "skipCurrent fifo_ops cfg0 P_ok s_busy =
      notify (SendError ''Skip already in progress.'') s_busy" .
  have ll: "getLength (queue s_last) \<le> 1"
    by (simp add: s_last_facts)
  with L s_last_facts have l: "fst (skip_enter fifo_ops s_last) \<noteq> Rejected"
    by blast
  have ol: "getLength (queue s_one) \<le> 1"
    by (simp add: s_one_facts)
  have ql: "getLength ?q0 \<le> 1"
    by (simp add: getLength_def)
  from D s_one_facts(1) ol ql s_one_skip empty_skip
  have d: "\<not> playing (double_skip fifo_ops cfg0 P_ok s_one)"
    "\<not> isSkipping (double_skip fifo_ops cfg0 P_ok s_one)"
    "sent (double_skip fifo_ops cfg0 P_ok s_one) = sent s_one @ [empty_notice, empty_notice]"
    by blast+
  from s_busy_facts bl b s_last_facts ll l s_one_facts ol s_one_skip d show ?thesis
    by simp
qed

subsection \<open>The lookup order of prepareVideoSource\<close>

lemma sent_settles [simp]: "sent (download_settles i s) = sent s"
  by (simp add: download_settles_def)

lemma prepare_stored:
  "usable_path E (downloadPath item) \<Longrightarrow>
     prepareVideoSource E source t hs (Some item) s =
       (Inr (from_download (the (downloadPath item))), s)"
  by (simp add: prepareVideoSource_def)

lemma prepare_awaited:
  assumes "\<not> usable_path E (downloadPath item)" "downloadPromise item = Some (Inr (Some path))"
    "usable_path E (Some path)"
  shows "prepareVideoSource E source t hs (Some item) s =
           (Inr (from_download path), download_settles (item_id item) s)"
  using assms by (simp add: prepareVideoSource_def try_catch_def bindE_def)

lemma prepare_absent:
  assumes "\<not> usable_path E (downloadPath item)" "downloadPromise item = None"
  shows "prepareVideoSource E source t hs (Some item) s = prepare_resolved E source t hs s"
  using assms by (simp add: prepareVideoSource_def)

lemma prepare_failed:
  assumes "\<not> usable_path E (downloadPath item)" "downloadPromise item = Some promise"
    "(\<exists>e. promise = Inl e) \<or> (\<exists>path. promise = Inr path \<and> \<not> usable_path E path)"
  shows "prepareVideoSource E source t hs (Some item) s =
           prepare_resolved E source t hs (download_settles (item_id item) s)"
  using assms by (auto simp: prepareVideoSource_def try_catch_def bindE_def)

lemma prepare_no_item:
  "prepareVideoSource E source t hs None s = prepare_resolved E source t hs s"
  by (simp add: prepareVideoSource_def)

lemma resolved_download:
  assumes "resolveMediaSource (resolver E) source = Inr (Some m)" "mtype m = Tyoutube"
    "isLive m \<noteq> Some True"
  shows "prepare_resolved E source t hs s =
           (case handleDownload E source t s of
              (Some path, s1) \<Rightarrow> (Inr (from_download path), s1)
            | (None, s1) \<Rightarrow>
                (Inl (Error ''Failed to prepare video source due to download failure.''), s1))"
  using assms by (simp add: prepare_resolved_def from_download_def split: prod.splits option.splits)

lemma resolved_no_download:
  assumes "resolveMediaSource (resolver E) source = Inr r"
    "\<not> (\<exists>m. r = Some m \<and> mtype m = Tyoutube \<and> isLive m \<noteq> Some True)"
  shows "sent (snd (prepare_resolved E source t hs s)) = sent s \<and>
         (\<forall>p. fst (prepare_resolved E source t hs s) = Inr p \<longrightarrow> tempFilePath p = None)"
  using assms by (cases r) (auto simp: prepare_resolved_def)

lemma handleDownload_path:
  "downloadToTempFile E source = Inr (Some path) \<Longrightarrow> path \<noteq> [] \<Longrightarrow>
     handleDownload E source t s =
       (Some path, notify DeleteReply
          (notify (Reply (''Downloading `'' @ str_or t ''YouTube video'' @ ''`...'')) s))"
  by (simp add: handleDownload_def downloadYouTubeVideo_def try_catch_def bindE_def Let_def)

text \<open>
  Claim C5, as amended. When a queue item is prepared for playback: a background
  download path stored on the item is used directly if the file exists; otherwise a
  background download promise on the item is awaited, with no time limit (the result
  depends on the promise's settlement alone), and the path it resolves with is used
  if the file exists. If the promise is rejected, resolves with no path or with a
  path whose file is missing, or if the item has no promise, the source is prepared
  synchronously, and the background failure leaves no trace: no message is sent for it
  and no error raised. The synchronous preparation resolves the source again; a
  hosted-platform video that is not live is downloaded synchronously, and a failed
  download fails the attempt; any other result of the resolution leads to no download
  (no temp file, no message).
\<close>

theorem prepareVideoSource_lookup_order:
  "(usable_path E (downloadPath item) \<longrightarrow>
      prepareVideoSource E source t hs (Some item) s =
        (Inr (from_download (the (downloadPath item))), s)) \<and>
   (\<forall>path. \<not> usable_path E (downloadPath item) \<and>
      downloadPromise item = Some (Inr (Some path)) \<and> usable_path E (Some path) \<longrightarrow>
      prepareVideoSource E source t hs (Some item) s =
        (Inr (from_download path), download_settles (item_id item) s)) \<and>
   (\<not> usable_path E (downloadPath item) \<and> downloadPromise item = None \<longrightarrow>
      prepareVideoSource E source t hs (Some item) s = prepare_resolved E source t hs s) \<and>
   (\<forall>promise. \<not> usable_path E (downloadPath item) \<and> downloadPromise item = Some promise \<and>
      ((\<exists>e. promise = Inl e) \<or> (\<exists>path. promise = Inr path \<and> \<not> usable_path E path)) \<longrightarrow>
      prepareVideoSource E source t hs (Some item) s =
        prepare_resolved E source t hs (download_settles (item_id item) s) \<and>
      sent (download_settles (item_id item) s) = sent s) \<and>
   (\<forall>m. resolveMediaSource (resolver E) source = Inr (Some m) \<and> mtype m = Tyoutube \<and>
      isLive m \<noteq> Some True \<longrightarrow>
      prepare_resolved E source t hs s =
        (case handleDownload E source t s of
           (Some path, s1) \<Rightarrow> (Inr (from_download path), s1)
         | (None, s1) \<Rightarrow>
             (Inl (Error ''Failed to prepare video source due to download failure.''), s1))) \<and>
   (\<forall>r. resolveMediaSource (resolver E) source = Inr r \<and>
      \<not> (\<exists>m. r = Some m \<and> mtype m = Tyoutube \<and> isLive m \<noteq> Some True) \<longrightarrow>
      sent (snd (prepare_resolved E source t hs s)) = sent s \<and>
      (\<forall>p. fst (prepare_resolved E source t hs s) = Inr p \<longrightarrow> tempFilePath p = None))"
proof (intro conjI allI impI)
  show "usable_path E (downloadPath item) \<Longrightarrow>
      prepareVideoSource E source t hs (Some item) s =
        (Inr (from_download (the (downloadPath item))), s)"
    by (rule prepare_stored)
next
  fix path
  assume "\<not> usable_path E (downloadPath item) \<and>
      downloadPromise item = Some (Inr (Some path)) \<and> usable_path E (Some path)"
  then show "prepareVideoSource E source t hs (Some item) s =
        (Inr (from_download path), download_settles (item_id item) s)"
    using prepare_awaited by blast
next
  assume "\<not> usable_path E (downloadPath item) \<and> downloadPromise item = None"
  then show "prepareVideoSource E source t hs (Some item) s = prepare_resolved E source t hs s"
    using prepare_absent by blast
next
  fix promise
  assume "\<not> usable_path E (downloadPath item) \<and> downloadPromise item = Some promise \<and>
      ((\<exists>e. promise = Inl e) \<or> (\<exists>path. promise = Inr path \<and> \<not> usable_path E path))"
  then show "prepareVideoSource E source t hs (Some item) s =
        prepare_resolved E source t hs (download_settles (item_id item) s)"
    using prepare_failed by blast
  show "sent (download_settles (item_id item) s) = sent s"
    by simp
next
  fix m
  assume "resolveMediaSource (resolver E) source = Inr (Some m) \<and> mtype m = Tyoutube \<and>
      isLive m \<noteq> Some True"
  then show "prepare_resolved E source t hs s =
        (case handleDownload E source t s of
           (Some path, s1) \<Rightarrow> (Inr (from_download path), s1)
         | (None, s1) \<Rightarrow>
             (Inl (Error ''Failed to prepare video source due to download failure.''), s1))"
    using resolved_download by blast
next
  fix r
  assume a: "resolveMediaSource (resolver E) source = Inr r \<and>
      \<not> (\<exists>m. r = Some m \<and> mtype m = Tyoutube \<and> isLive m \<noteq> Some True)"
  from a resolved_no_download [of E source r t hs s]
  show "sent (snd (prepare_resolved E source t hs s)) = sent s" by blast
  fix p
  assume "fst (prepare_resolved E source t hs s) = Inr p"
  with a resolved_no_download [of E source r t hs s] show "tempFilePath p = None" by blast
qed


lemma yt_first_match: "first_match env_yt ''https://youtu.be/abc'' = YouTubeS"
  by (simp add: first_match_cases startsWith_def)

lemma yt_resolved:
  "resolveMediaSource env_yt ''https://youtu.be/abc'' =
     Inr (Some \<lparr> url = ''https://youtu.be/abc'', title = ''A video'', mtype = Tyoutube,
                 isLive = Some False, headers = None \<rparr>)"
  by (simp only: resolve_dispatch yt_first_match)
    (simp add: resolveYouTubeSource_def getVideoInfo_def isValidVideoData_def try_catch_def
      bindE_def env_yt_def env_down_def)

lemma resolver_P_yt [simp]: "resolver P_yt = env_yt"
  by (simp add: P_yt_def)

lemma usable_tmp: "usable_path P_yt (Some ''/tmp/abc.mp4'')" "\<not> usable_path P_yt None"
  by (simp_all add: usable_path_def env_yt_def)

lemma item_Y_fields:
  "downloadPath item_Y = None" "downloadPromise item_Y = Some (Inr (Some ''/tmp/abc.mp4''))"
  "item_id item_Y = 1"
  by (simp_all add: item_Y_def)

lemma item_B_fields: "downloadPath item_B = None" "downloadPromise item_B = None"
  by (simp_all add: item_B_def)

lemma yt_down: "resolveMediaSource env_down ''https://youtu.be/abc'' = Inr None"
proof -
  have "first_match env_down ''https://youtu.be/abc'' = YouTubeS"
    by (simp add: first_match_cases startsWith_def)
  moreover have "ytdlp_video_info env_down ''https://youtu.be/abc'' = Inl (Error ''yt-dlp failed'')"
    by (simp add: env_down_def)
  ultimately show ?thesis
    using youtube_info_error by (simp only: resolve_dispatch)
qed

lemma yt_down_prepared:
  "prepare_resolved P_ok ''https://youtu.be/abc'' (Some ''A video'') None s =
     (Inr \<lparr> inputForFfmpeg = InString ''https://youtu.be/abc'', tempFilePath = None,
            resolvedHeaders = None \<rparr>, s)"
  by (simp add: prepare_resolved_def yt_down)

text \<open>
  Claim C5, as stated, fails in its last step. The background download of a hosted
  video has failed (its promise resolved with no path), and at playback the resolver's
  backend fails as well: the service does not fall back to a synchronous download but
  hands the raw input to the pipeline, with no temp file.
\<close>

theorem lookup_order_counterexample:
  "downloadPath (item_Y \<lparr> downloadPromise := Some (Inr None) \<rparr>) = None \<and>
   downloadPromise (item_Y \<lparr> downloadPromise := Some (Inr None) \<rparr>) = Some (Inr None) \<and>
   resolveMediaSource (resolver P_ok) ''https://youtu.be/abc'' = Inr None \<and>
   prepareVideoSource P_ok ''https://youtu.be/abc'' (Some ''A video'') None
       (Some (item_Y \<lparr> downloadPromise := Some (Inr None) \<rparr>)) s_Y =
     (Inr \<lparr> inputForFfmpeg = InString ''https://youtu.be/abc'', tempFilePath = None,
            resolvedHeaders = None \<rparr>, download_settles 1 s_Y)"
  by (simp add: prepareVideoSource_def usable_path_def item_Y_fields try_catch_def bindE_def
      yt_down yt_down_prepared)

lemma clip_prepared:
  "prepare_resolved P_ok ''https://example.com/videos/clip.mp4'' (Some ''clip'') None s_AB =
     (Inr \<lparr> inputForFfmpeg = InString ''https://example.com/videos/clip.mp4'',
            tempFilePath = None, resolvedHeaders = None \<rparr>, s_AB)"
  by (simp add: prepare_resolved_def clip_resolved)

theorem prepareVideoSource_lookup_order_witness:
  "usable_path P_yt (downloadPath (item_Y \<lparr> downloadPath := Some ''/tmp/abc.mp4'' \<rparr>)) \<and>
   prepareVideoSource P_yt ''https://youtu.be/abc'' (Some ''A video'') None
       (Some (item_Y \<lparr> downloadPath := Some ''/tmp/abc.mp4'' \<rparr>)) s_Y =
     (Inr (from_download ''/tmp/abc.mp4''), s_Y) \<and>
   \<not> usable_path P_yt (downloadPath item_Y) \<and>
   downloadPromise item_Y = Some (Inr (Some ''/tmp/abc.mp4'')) \<and>
   usable_path P_yt (Some ''/tmp/abc.mp4'') \<and>
   prepareVideoSource P_yt ''https://youtu.be/abc'' (Some ''A video'') None (Some item_Y) s_Y =
     (Inr (from_download ''/tmp/abc.mp4''), download_settles 1 s_Y) \<and>
   downloadPromise (item_Y \<lparr> downloadPromise := Some (Inr None) \<rparr>) = Some (Inr None) \<and>
   resolveMediaSource (resolver P_yt) ''https://youtu.be/abc'' =
     Inr (Some \<lparr> url = ''https://youtu.be/abc'', title = ''A video'', mtype = Tyoutube,
                 isLive = Some False, headers = None \<rparr>) \<and>
   prepareVideoSource P_yt ''https://youtu.be/abc'' (Some ''A video'') None
       (Some (item_Y \<lparr> downloadPromise := Some (Inr None) \<rparr>)) s_Y =
     (Inr (from_download ''/tmp/abc.mp4''),
      notify DeleteReply (notify (Reply ''Downloading `A video`...'') (download_settles 1 s_Y))) \<and>
   downloadPromise item_B = None \<and>
   prepareVideoSource P_ok ''https://example.com/videos/clip.mp4'' (Some ''clip'') None
       (Some item_B) s_AB =
     prepare_resolved P_ok ''https://example.com/videos/clip.mp4'' (Some ''clip'') None s_AB"
proof -
  let ?stored = "item_Y \<lparr> downloadPath := Some ''/tmp/abc.mp4'' \<rparr>"
  let ?failed = "item_Y \<lparr> downloadPromise := Some (Inr None) \<rparr>"
  let ?s' = "download_settles 1 s_Y"
  note A = prepareVideoSource_lookup_order
    [of P_yt ?stored "''https://youtu.be/abc''" "Some ''A video''" None s_Y]
  note B = prepareVideoSource_lookup_order
    [of P_yt item_Y "''https://youtu.be/abc''" "Some ''A video''" None s_Y]
  note C = prepareVideoSource_lookup_order
    [of P_yt ?failed "''https://youtu.be/abc''" "Some ''A video''" None s_Y]
  note C' = prepareVideoSource_lookup_order
    [of P_yt ?failed "''https://youtu.be/abc''" "Some ''A video''" None ?s']
  note D = prepareVideoSource_lookup_order
    [of P_ok item_B "''https://example.com/videos/clip.mp4''" "Some ''clip''" None s_AB]
  have ua: "usable_path P_yt (downloadPath ?stored)"
    by (simp add: usable_tmp)
  with A have a: "prepareVideoSource P_yt ''https://youtu.be/abc'' (Some ''A video'') None
      (Some ?stored) s_Y = (Inr (from_download ''/tmp/abc.mp4''), s_Y)"
    by simp
  have ub: "\<not> usable_path P_yt (downloadPath item_Y)"
    by (simp add: item_Y_fields usable_tmp)
  with B item_Y_fields(2) usable_tmp(1)
  have b: "prepareVideoSource P_yt ''https://youtu.be/abc'' (Some ''A video'') None (Some item_Y) s_Y =
      (Inr (from_download ''/tmp/abc.mp4''), download_settles (item_id item_Y) s_Y)"
    by blast
  have fc: "\<not> usable_path P_yt (downloadPath ?failed)" "downloadPromise ?failed = Some (Inr None)"
    "item_id ?failed = 1"
    by (simp_all add: item_Y_fields usable_tmp)
  with C usable_tmp(2)
  have c1: "prepareVideoSource P_yt ''https://youtu.be/abc'' (Some ''A video'') None
      (Some ?failed) s_Y =
      prepare_resolved P_yt ''https://youtu.be/abc'' (Some ''A video'') None ?s'"
    by (metis (no_types, lifting))
  have r: "resolveMediaSource (resolver P_yt) ''https://youtu.be/abc'' =
     Inr (Some \<lparr> url = ''https://youtu.be/abc'', title = ''A video'', mtype = Tyoutube,
                 isLive = Some False, headers = None \<rparr>)"
    by (simp add: yt_resolved)
  with C' have "prepare_resolved P_yt ''https://youtu.be/abc'' (Some ''A video'') None ?s' =
      (case handleDownload P_yt ''https://youtu.be/abc'' (Some ''A video'') ?s' of
         (Some path, s1) \<Rightarrow> (Inr (from_download path), s1)
       | (None, s1) \<Rightarrow>
           (Inl (Error ''Failed to prepare video source due to download failure.''), s1))"
    by simp
  also have "handleDownload P_yt ''https://youtu.be/abc'' (Some ''A video'') ?s' =
      (Some ''/tmp/abc.mp4'',
       notify DeleteReply (notify (Reply ''Downloading `A video`...'') ?s'))"
    by (simp add: handleDownload_path P_yt_def)
  finally have c2: "prepare_resolved P_yt ''https://youtu.be/abc'' (Some ''A video'') None ?s' =
      (Inr (from_download ''/tmp/abc.mp4''),
       notify DeleteReply (notify (Reply ''Downloading `A video`...'') ?s'))"
    by simp
  have "\<not> usable_path P_ok (downloadPath item_B)"
    by (simp add: item_B_fields usable_path_def)
  with D item_B_fields(2)
  have d: "prepareVideoSource P_ok ''https://example.com/videos/clip.mp4'' (Some ''clip'') None
      (Some item_B) s_AB =
      prepare_resolved P_ok ''https://example.com/videos/clip.mp4'' (Some ''clip'') None s_AB"
    by blast
  from ua a ub item_Y_fields usable_tmp b fc c1 c2 r item_B_fields d show ?thesis
    by simp
qed

subsection \<open>Background downloads\<close>

lemma sbd_background:
  "background (startBackgroundDownload E item s) = background s @ [item_id item]"
  by (simp add: startBackgroundDownload_def Let_def)

lemma sbd_queue:
  "queue (startBackgroundDownload E item s) =
     update_item (item_id item)
       (\<lambda>it. it \<lparr> downloadPromise := Some (downloadYouTubeVideo E (url item)) \<rparr>) (queue s)"
  by (simp add: startBackgroundDownload_def Let_def)

lemma addToQueue_background:
  "background (snd (addToQueue E username source t s)) =
     (if (\<exists>m. resolveMediaSource (resolver E) source = Inr (Some m) \<and> mtype m = Tyoutube \<and>
               isLive m \<noteq> Some True)
      then background s @ [nextId (queue s)] else background s)"
proof -
  obtain r where r: "resolveMediaSource (resolver E) source = Inr r"
    using resolve_total by blast
  show ?thesis
  proof (cases r)
    case None
    with r show ?thesis
      by (simp add: addToQueue_def queue_add_def notify_def Let_def)
  next
    case (Some m)
    with r show ?thesis
      by (simp add: addToQueue_def queue_addToQueue_def queue_add_def notify_def sbd_background
          Let_def)
  qed
qed

lemma addToQueue_nextId:
  "nextId (queue s) \<le> nextId (queue (snd (addToQueue E username source t s)))"
  and addToQueue_nextId_eligible:
  "(\<exists>m. resolveMediaSource (resolver E) source = Inr (Some m) \<and> mtype m = Tyoutube \<and>
        isLive m \<noteq> Some True) \<Longrightarrow>
     nextId (queue (snd (addToQueue E username source t s))) = Suc (nextId (queue s))"
proof -
  obtain r where r: "resolveMediaSource (resolver E) source = Inr r"
    using resolve_total by blast
  show "nextId (queue s) \<le> nextId (queue (snd (addToQueue E username source t s)))"
    using r
    by (cases r)
      (simp_all add: addToQueue_def queue_addToQueue_def queue_add_def notify_def
        startBackgroundDownload_def update_item_def Let_def)
  assume "\<exists>m. resolveMediaSource (resolver E) source = Inr (Some m) \<and> mtype m = Tyoutube \<and>
        isLive m \<noteq> Some True"
  then show "nextId (queue (snd (addToQueue E username source t s))) = Suc (nextId (queue s))"
    by (auto simp: addToQueue_def queue_addToQueue_def queue_add_def notify_def
        startBackgroundDownload_def update_item_def Let_def)
qed

lemma addToQueue_once:
  assumes "downloads_once s"
  shows "downloads_once (snd (addToQueue E username source t s))"
proof (cases "\<exists>m. resolveMediaSource (resolver E) source = Inr (Some m) \<and> mtype m = Tyoutube \<and>
               isLive m \<noteq> Some True")
  case True
  then have b: "background (snd (addToQueue E username source t s)) = background s @ [nextId (queue s)]"
    by (simp add: addToQueue_background)
  from True have n: "nextId (queue (snd (addToQueue E username source t s))) = Suc (nextId (queue s))"
    by (rule addToQueue_nextId_eligible)
  from assms have "distinct (background s)" "\<forall>i\<in>set (background s). i < nextId (queue s)"
    by (simp_all add: downloads_once_def list_all_iff)
  then show ?thesis
    by (auto simp: downloads_once_def list_all_iff b n)
next
  case False
  then have b: "background (snd (addToQueue E username source t s)) = background s"
    by (simp add: addToQueue_background)
  from assms addToQueue_nextId [of s E username source t] show ?thesis
    by (auto simp: downloads_once_def list_all_iff b)
qed

lemma addToQueue_attaches:
  assumes "resolveMediaSource (resolver E) source = Inr (Some m)" "mtype m = Tyoutube"
    "isLive m \<noteq> Some True" "list_all (\<lambda>it. item_id it < nextId (queue s)) (items (queue s))"
  shows "items (queue (snd (addToQueue E username source t s))) =
           items (queue s) @
           [\<lparr> url = url m, title = title m, mtype = Tyoutube, isLive = isLive m,
              headers = headers m, item_id = nextId (queue s), requestedBy = username,
              originalInput = Some source, downloadPath = None,
              downloadPromise = Some (downloadYouTubeVideo E (url m)) \<rparr>]"
proof -
  from assms(4) have "map (\<lambda>it. if item_id it = nextId (queue s) then f it else it) (items (queue s)) =
      items (queue s)" for f
    by (induction "items (queue s)") (auto simp: list_all_iff intro!: map_idI)
  with assms(1,2,3) show ?thesis
    by (simp add: addToQueue_def queue_addToQueue_def queue_add_def notify_def
        startBackgroundDownload_def update_item_def Let_def)
qed

subsection \<open>Steps that spawn no download\<close>

lemma spawnless_refl [simp]: "spawnless s s"
  by (simp add: spawnless_def)

lemma spawnless_trans: "spawnless a b \<Longrightarrow> spawnless b c \<Longrightarrow> spawnless a c"
  by (simp add: spawnless_def)

lemma spawnless_queue: "nextId (queue s) \<le> nextId q \<Longrightarrow> spawnless s (s \<lparr> queue := q \<rparr>)"
  by (simp add: spawnless_def)

lemma spawnless_fields [simp]:
  "spawnless s (s \<lparr> autoplay := a \<rparr>)" "spawnless s (s \<lparr> leaveTimeout := l \<rparr>)"
  "spawnless s (s \<lparr> manualStop := m \<rparr>)" "spawnless s (s \<lparr> isSkipping := k \<rparr>)"
  "spawnless s (s \<lparr> stateFile := f \<rparr>)"
  "spawnless s (s \<lparr> playing := p, startTime := st, activity := ac \<rparr>)"
  "spawnless s (s \<lparr> queue := setPlaying b (queue s) \<rparr>)"
  "spawnless s (s \<lparr> autoplay := a, queue := setPlaying b (queue s) \<rparr>)"
  "spawnless s (s \<lparr> isSkipping := k, manualStop := m, controller := c \<rparr>)"
  by (simp_all add: spawnless_def setPlaying_def)

lemma spawnless_notify [simp]: "spawnless s (notify n s)"
  by (simp add: spawnless_def)

lemma spawnless_send: "spawnless s (snd (send x n s))"
  by (simp add: send_def split: option.splits)

lemma spawnless_handleError: "spawnless s (snd (handleError x err s))"
  by (simp add: handleError_def spawnless_send)

lemma spawnless_mark [simp]: "spawnless s (markVideoAsFailed source s)"
  by (simp add: spawnless_def markVideoAsFailed_def)

lemma spawnless_cleanup [simp]: "spawnless s (cleanupStreamStatus s)"
  by (simp add: spawnless_def cleanupStreamStatus_def)

lemma spawnless_stop: "spawnless s (stopAndClearQueue s)"
  by (simp add: spawnless_def stopAndClearQueue_def cleanupStreamStatus_def clearQueue_def)

lemma spawnless_leave: "spawnless s (leaveTimeout_fires s)"
  by (simp add: spawnless_def leaveTimeout_fires_def)

lemma spawnless_settles [simp]: "spawnless s (download_settles i s)"
  by (simp add: spawnless_def download_settles_def update_item_def)

lemma spawnless_save: "spawnless s (saveState cfg t s)" "spawnless s (stateSaver_tick cfg t s)"
  by (simp_all add: spawnless_def saveState_def stateSaver_tick_def split: option.splits)

lemma spawnless_start: "spawnless s (playVideo_start t s)"
  by (simp add: playVideo_start_def spawnless_def setPlaying_def Let_def)

lemma spawnless_ensure: "spawnless s (snd (ensureVoiceConnection cfg E s))"
  by (simp add: ensureVoiceConnection_def spawnless_def Let_def split: join_outcome.splits)

lemma spawnless_handleDownload: "spawnless s (snd (handleDownload E source t s))"
  by (simp add: handleDownload_def spawnless_def Let_def split: sum.splits option.splits)

lemma spawnless_prepare_resolved: "spawnless s (snd (prepare_resolved E source t hs s))"
proof -
  obtain r s1 where h: "handleDownload E source t s = (r, s1)"
    by (cases "handleDownload E source t s")
  then have "spawnless s s1" using spawnless_handleDownload [of s E source t] by simp
  moreover have "spawnless s (s \<lparr> ytDlpProcess := True \<rparr>)" by (simp add: spawnless_def)
  ultimately show ?thesis using h
    by (cases r) (simp_all add: prepare_resolved_def split: sum.splits option.splits)
qed

lemma spawnless_prepare: "spawnless s (snd (prepareVideoSource E source t hs qi s))"
proof -
  have "spawnless s (snd (prepare_resolved E source t hs (download_settles i s)))" for i
    using spawnless_trans [OF spawnless_settles spawnless_prepare_resolved] .
  then show ?thesis
    by (simp add: prepareVideoSource_def spawnless_prepare_resolved split: option.splits sum.splits)
qed

lemma spawnless_exec: "spawnless s (snd (executeStreamWorkflow E input opts t source hs s))"
  by (simp add: executeStreamWorkflow_def executeStream_def spawnless_def Let_def
      split: stream_outcome.splits)

lemma counter_next:
  assumes "keeps_counter ops"
  shows "nextId q \<le> nextId (snd (getNext ops (remove_finished ops q)))"
proof -
  have "nextId q \<le> nextId (remove_finished ops q)"
    using assms by (simp add: remove_finished_def keeps_counter_def split: option.splits)
  also have "\<dots> \<le> nextId (snd (getNext ops (remove_finished ops q)))"
    using assms by (simp add: keeps_counter_def)
  finally show ?thesis .
qed

lemma spawnless_hqa:
  assumes "keeps_counter ops"
  shows "spawnless s (snd (handleQueueAdvancement ops x s))"
proof -
  obtain n q2 where g: "getNext ops (remove_finished ops (queue s)) = (n, q2)"
    by (cases "getNext ops (remove_finished ops (queue s))")
  then have "nextId (queue s) \<le> nextId q2"
    using counter_next [OF assms, of "queue s"] by simp
  with g show ?thesis
    by (cases n)
      (auto simp: handleQueueAdvancement_def send_def spawnless_def cleanupStreamStatus_def
         setPlaying_def split: option.splits)
qed

lemma spawnless_finalize:
  assumes "keeps_counter ops"
  shows "spawnless s (snd (finalizeStream ops x f s))"
proof -
  have "spawnless s (cleanupStreamStatus (s \<lparr> queue := resetCurrentIndex (setPlaying False (queue s)) \<rparr>))"
    by (simp add: spawnless_def cleanupStreamStatus_def resetCurrentIndex_def setPlaying_def)
  moreover have "spawnless a (a \<lparr> unlinked := u \<rparr>)" for a :: svc and u
    by (simp add: spawnless_def)
  ultimately show ?thesis
    using spawnless_hqa [OF assms, of s x]
    by (cases "handleQueueAdvancement ops x s")
      (auto simp: finalizeStream_def spawnless_def split: sum.splits option.splits)
qed

lemma spawnless_catch:
  assumes "keeps_counter ops"
  shows "spawnless s (playVideo_catch ops E err source s)"
proof (cases "handleError (report_send E) err s")
  case (Pair r s1)
  then have a: "spawnless s s1"
    using spawnless_handleError [of s "report_send E" err] by simp
  have b: "spawnless s1 (markVideoAsFailed source s1)" by simp
  have c: "spawnless (markVideoAsFailed source s1)
             (snd (handleQueueAdvancement ops (advance_send E) (markVideoAsFailed source s1)))"
    using assms by (rule spawnless_hqa)
  show ?thesis
    using Pair a spawnless_trans [OF a b] spawnless_trans [OF spawnless_trans [OF a b] c]
    by (cases r) (simp_all add: playVideo_catch_def Let_def)
qed

lemma spawnless_playVideo:
  assumes "keeps_counter ops"
  shows "spawnless s (playVideo ops cfg E source t vp hs qi seek s)"
proof -
  define s0 where "s0 = (playVideo_start t s) \<lparr> leaveTimeout := False \<rparr>"
  define r where "r = playVideo ops cfg E source t vp hs qi seek s"
  have "spawnless s (playVideo_start t s)" by (rule spawnless_start)
  moreover have "spawnless (playVideo_start t s) s0" by (simp add: s0_def)
  ultimately have q0: "spawnless s s0" by (rule spawnless_trans)
  obtain r2 s2 where e: "ensureVoiceConnection cfg E s0 = (r2, s2)"
    by (cases "ensureVoiceConnection cfg E s0")
  have q2: "spawnless s s2"
    using spawnless_trans [OF q0 spawnless_ensure [of s0 cfg E]] e by simp
  show ?thesis
  proof (cases r2)
    case (Inl err)
    then have "r = playVideo_catch ops E err source s2"
      using e by (simp add: r_def playVideo_def playVideo_try_def s0_def)
    with spawnless_trans [OF q2 spawnless_catch [OF assms]] show ?thesis
      by (simp add: r_def)
  next
    case (Inr u)
    obtain r3 s3 where p: "prepareVideoSource E source t hs qi s2 = (r3, s3)"
      by (cases "prepareVideoSource E source t hs qi s2")
    have q3: "spawnless s s3"
      using spawnless_trans [OF q2 spawnless_prepare [of s2 E source t hs qi]] p by simp
    show ?thesis
    proof (cases r3)
      case (Inl err)
      then have "r = playVideo_catch ops E err source s3"
        using e \<open>r2 = Inr u\<close> p by (simp add: r_def playVideo_def playVideo_try_def s0_def)
      with spawnless_trans [OF q3 spawnless_catch [OF assms]] show ?thesis
        by (simp add: r_def)
    next
      case (Inr pr)
      define sk where "sk = (case seek of Some k \<Rightarrow> k \<noteq> 0 | None \<Rightarrow> False)"
      define opts0 where
        "opts0 = (setupStreamConfiguration cfg vp) \<lparr> customHeaders := resolvedHeaders pr \<rparr>"
      define opts where "opts = (if sk then opts0 \<lparr> seekTime := seek \<rparr> else opts0)"
      define s4 where "s4 = s3 \<lparr> playing := True,
                             startTime := (if sk then now E - the seek * 1000 else now E),
                             activity := StatusWatch (str_or t ''Video'') \<rparr>"
      obtain r5 s5 where x: "executeStreamWorkflow E (inputForFfmpeg pr) opts (str_or t ''Video'')
                               source (resolvedHeaders pr) s4 = (r5, s5)"
        by (cases "executeStreamWorkflow E (inputForFfmpeg pr) opts (str_or t ''Video'') source
                               (resolvedHeaders pr) s4")
      have q4: "spawnless s s4"
        using spawnless_trans [OF q3, of s4] by (simp add: s4_def)
      have q5: "spawnless s s5"
        using spawnless_trans [OF q4 spawnless_exec [of s4 E "inputForFfmpeg pr" opts
              "str_or t ''Video''" source "resolvedHeaders pr"]] x
        by simp
      obtain r6 s6 where f: "finalizeStream ops (finish_send E) (tempFilePath pr) s5 = (r6, s6)"
        by (cases "finalizeStream ops (finish_send E) (tempFilePath pr) s5")
      have q6: "spawnless s s6"
        using spawnless_trans [OF q5 spawnless_finalize [OF assms, of s5 "finish_send E" "tempFilePath pr"]] f
        by simp
      have t: "playVideo_try ops cfg E source t vp hs qi seek (playVideo_start t s) =
                 (case r5 of Inl err \<Rightarrow> Inl (err, s5)
                           | Inr u \<Rightarrow> (case r6 of Inl err \<Rightarrow> Inl (err, s6) | Inr u \<Rightarrow> Inr s6))"
        using e \<open>r2 = Inr u\<close> p Inr x f
        by (cases seek)
          (auto simp: playVideo_try_def s0_def Let_def opts_def opts0_def s4_def sk_def
             split: sum.splits)
      show ?thesis
      proof (cases r5)
        case (Inl err)
        with t have "r = playVideo_catch ops E err source s5"
          by (simp add: r_def playVideo_def)
        with spawnless_trans [OF q5 spawnless_catch [OF assms]] show ?thesis
          by (simp add: r_def)
      next
        case r5: (Inr v)
        show ?thesis
        proof (cases r6)
          case (Inl err)
          with t r5 have "r = playVideo_catch ops E err source s6"
            by (simp add: r_def playVideo_def)
          with spawnless_trans [OF q6 spawnless_catch [OF assms]] show ?thesis
            by (simp add: r_def)
        next
          case (Inr w)
          with t r5 q6 show ?thesis by (simp add: r_def playVideo_def)
        qed
      qed
    qed
  qed
qed

lemma spawnless_item:
  assumes "keeps_counter ops"
  shows "spawnless s (playVideoFromQueueItem ops cfg E item s)"
proof -
  have "spawnless s (s \<lparr> queue := setPlaying True (queue s) \<rparr>)" by simp
  from spawnless_trans [OF this spawnless_playVideo [OF assms]]
  show ?thesis by (simp add: playVideoFromQueueItem_def Let_def)
qed

lemma spawnless_timer:
  assumes "keeps_counter ops"
  shows "spawnless s (autoplay_fires ops cfg E s)"
proof (cases "autoplay s")
  case Nil
  then show ?thesis by (simp add: autoplay_fires_def)
next
  case (Cons n rest)
  have "spawnless s (s \<lparr> autoplay := rest \<rparr>)" by simp
  from spawnless_trans [OF this spawnless_item [OF assms]]
  show ?thesis using Cons by (simp add: autoplay_fires_def)
qed

lemma spawnless_playFromQueue:
  assumes "keeps_counter ops"
  shows "spawnless s (playFromQueue ops cfg E s)"
proof (cases "playing s")
  case True
  then show ?thesis by (simp add: playFromQueue_def)
next
  case False
  obtain n q where g: "getNext ops (queue s) = (n, q)"
    by (cases "getNext ops (queue s)")
  then have le: "nextId (queue s) \<le> nextId q"
    using assms by (auto simp: keeps_counter_def dest: spec [of _ "queue s"])
  show ?thesis
  proof (cases n)
    case None
    with False g le show ?thesis
      by (simp add: playFromQueue_def spawnless_def)
  next
    case (Some item)
    have "spawnless s (s \<lparr> queue := setPlaying True q \<rparr>)"
      using le by (simp add: spawnless_def setPlaying_def)
    from spawnless_trans [OF this spawnless_item [OF assms]]
    show ?thesis using False g Some by (simp add: playFromQueue_def)
  qed
qed

lemma spawnless_skip_enter:
  assumes "keeps_counter ops"
  shows "spawnless s (snd (skip_enter ops s))"
proof -
  obtain n q where g: "skip ops (queue s) = (n, q)"
    by (cases "skip ops (queue s)")
  then have "nextId (queue s) \<le> nextId q"
    using assms by (auto simp: keeps_counter_def dest: spec [of _ "queue s"])
  with g show ?thesis
    by (cases n) (simp_all add: skip_enter_def spawnless_def Let_def)
qed

lemma spawnless_skip_resume:
  assumes "keeps_counter ops"
  shows "spawnless s (skip_resume ops cfg E point s)"
proof (cases point)
  case Rejected
  then show ?thesis by (simp add: skip_resume_def)
next
  case AtEmptyNotice
  then show ?thesis
    by (simp add: skip_resume_def spawnless_def cleanupStreamStatus_def setPlaying_def)
next
  case (AtSkipNotice item)
  have "spawnless s (s \<lparr> manualStop := False \<rparr>)" by simp
  from spawnless_trans [OF this spawnless_item [OF assms]]
  have "spawnless s (playVideoFromQueueItem ops cfg E item (s \<lparr> manualStop := False \<rparr>))" .
  then show ?thesis
    using AtSkipNotice by (simp add: skip_resume_def spawnless_def)
qed

lemma spawnless_skipCurrent:
  assumes "keeps_counter ops"
  shows "spawnless s (skipCurrent ops cfg E s)"
proof -
  obtain point s1 where e: "skip_enter ops s = (point, s1)"
    by (cases "skip_enter ops s")
  then have "spawnless s s1"
    using spawnless_skip_enter [OF assms, of s] by simp
  from spawnless_trans [OF this spawnless_skip_resume [OF assms]]
  show ?thesis using e by (simp add: skipCurrent_def)
qed

text \<open>\<open>resumeState\<close> spawns what its one call of \<open>addToQueue\<close> spawns.\<close>

lemma resumeState_once:
  assumes "keeps_counter ops" "downloads_once s"
  shows "downloads_once (resumeState ops cfg E username channel_ok t s)"
proof -
  have step: "downloads_once b" if "downloads_once a" "spawnless a b" for a b
    using that by (auto simp: downloads_once_def spawnless_def list_all_iff)
  have a: "downloads_once (s \<lparr> stateFile := None \<rparr>)"
    using assms(2) by (simp add: downloads_once_def)
  have b: "downloads_once (playVideo ops cfg E source tt None None None seek
             (snd (addToQueue E username source None s)))" for source tt seek
    using step [OF addToQueue_once [OF assms(2)] spawnless_playVideo [OF assms(1)]] .
  show ?thesis
    using assms(2) a b
    by (simp add: resumeState_def Let_def split: option.splits)
qed

lemma keeps_counter_fifo: "keeps_counter fifo_ops"
proof -
  have r: "nextId q \<le> nextId (fifo_removeFromQueue i q)" for i q
    by (simp add: fifo_removeFromQueue_def Let_def split: option.splits)
  have n: "nextId q \<le> nextId (snd (fifo_getNext q))" for q
    by (simp add: fifo_getNext_def Let_def)
  have "nextId q \<le> nextId (snd (fifo_skip q))" for q
  proof (cases "getCurrent q")
    case None
    then show ?thesis using n [of q] by (simp add: fifo_skip_def)
  next
    case (Some c)
    have "nextId q \<le> nextId (fifo_removeFromQueue (item_id c) q)" by (rule r)
    also have "\<dots> \<le> nextId (snd (fifo_getNext (fifo_removeFromQueue (item_id c) q)))" by (rule n)
    finally show ?thesis using Some by (simp add: fifo_skip_def)
  qed
  with r n show ?thesis
    by (simp add: keeps_counter_def fifo_ops_def)
qed

lemma once_step: "downloads_once a \<Longrightarrow> spawnless a b \<Longrightarrow> downloads_once b"
  by (auto simp: downloads_once_def spawnless_def list_all_iff)

lemma reachable_once:
  assumes "keeps_counter ops" "reachable ops cfg s"
  shows "downloads_once s"
  using assms(2)
proof (induction rule: reachable.induct)
  case (constructed sf)
  show ?case by (simp add: downloads_once_def new_service_def)
next
  case (saves s t)
  then show ?case using once_step spawnless_save(1) by blast
next
  case (saver_ticks s t)
  then show ?case using once_step spawnless_save(2) by blast
next
  case (resumes s E username channel_ok t)
  then show ?case using resumeState_once [OF assms(1)] by simp
next
  case (enqueues s E username source t)
  then show ?case by (simp add: addToQueue_once)
next
  case (plays_queue s E)
  then show ?case using once_step spawnless_playFromQueue [OF assms(1)] by blast
next
  case (skips s E)
  then show ?case using once_step spawnless_skipCurrent [OF assms(1)] by blast
next
  case (skip_enters s)
  then show ?case using once_step spawnless_skip_enter [OF assms(1)] by blast
next
  case (skip_resumes s E point)
  then show ?case using once_step spawnless_skip_resume [OF assms(1)] by blast
next
  case (plays s E source t vp hs qi seek)
  then show ?case using once_step spawnless_playVideo [OF assms(1)] by blast
next
  case (cleans s)
  then show ?case using once_step spawnless_cleanup by blast
next
  case (stops s)
  then show ?case using once_step spawnless_stop by blast
next
  case (timer_plays s E)
  then show ?case using once_step spawnless_timer [OF assms(1)] by blast
next
  case (leaves s)
  then show ?case using once_step spawnless_leave by blast
next
  case (settles s i)
  then show ?case using once_step spawnless_settles by blast
next
  case (queue_command s q)
  then show ?case using once_step spawnless_queue by blast
qed

subsection \<open>The operations other than enqueueing\<close>

lemma background_playVideo:
  "background (playVideo ops cfg E source t vp hs qi seek s) = background s"
  using playVideo_outcome [of s ops cfg E source t vp hs qi seek] quiet_catch
  by (auto simp: quiet_def)

lemma background_item: "background (playVideoFromQueueItem ops cfg E item s) = background s"
  by (simp add: playVideoFromQueueItem_def background_playVideo Let_def)

lemma background_timer: "background (autoplay_fires ops cfg E s) = background s"
  by (cases "autoplay s") (simp_all add: autoplay_fires_def background_item)

lemma background_playFromQueue: "background (playFromQueue ops cfg E s) = background s"
  by (cases "getNext ops (queue s)"; cases "fst (getNext ops (queue s))")
    (simp_all add: playFromQueue_def background_item)

lemma background_skip_enter: "background (snd (skip_enter ops s)) = background s"
  by (cases "skip ops (queue s)"; cases "fst (skip ops (queue s))")
    (simp_all add: skip_enter_def Let_def)

lemma background_skip_resume: "background (skip_resume ops cfg E point s) = background s"
  by (cases point) (simp_all add: skip_resume_def background_item cleanupStreamStatus_def)

lemma background_skipCurrent: "background (skipCurrent ops cfg E s) = background s"
  using background_skip_enter [of ops s]
  by (cases "skip_enter ops s") (simp add: skipCurrent_def background_skip_resume)

lemma background_resume:
  "background (resumeState ops cfg E username channel_ok t s) = background s \<or>
   (\<exists>source. background (resumeState ops cfg E username channel_ok t s) =
              background (snd (addToQueue E username source None s)))"
  by (auto simp: resumeState_def background_playVideo Let_def split: option.splits)

lemma background_others:
  "background (stopAndClearQueue s) = background s"
  "background (cleanupStreamStatus s) = background s"
  "background (download_settles i s) = background s"
  "background (saveState cfg t s) = background s"
  "background (leaveTimeout_fires s) = background s"
  by (simp_all add: stopAndClearQueue_def cleanupStreamStatus_def download_settles_def
      saveState_def leaveTimeout_fires_def split: option.splits)

text \<open>
  Claim C6, as amended. The attach operation \<open>startBackgroundDownload\<close> has no guard:
  on every item, with or without a download, it spawns a download and stores its
  promise over the one the item had. It has one call, in \<open>addToQueue\<close>, on the item
  just created there, when the resolved source is a hosted-platform video that is not
  live; the new item carries the promise of its download. No other operation of the
  service spawns a background download: not \<open>playVideo\<close>, \<open>playFromQueue\<close>,
  \<open>skipCurrent\<close>, the timer that plays a next item, \<open>stopAndClearQueue\<close>,
  \<open>cleanupStreamStatus\<close>, \<open>saveState\<close>, the settling of a download or the leave
  timer, and \<open>resumeState\<close> only through its one call of \<open>addToQueue\<close>. So, the
  counter of the ids never being lowered, in every state a service comes to no item has
  two background downloads: for every item at most one is ever spawned.
\<close>

theorem background_download_once_per_enqueue:
  "(\<forall>item. background (startBackgroundDownload E item s) = background s @ [item_id item] \<and>
      queue (startBackgroundDownload E item s) =
        update_item (item_id item)
          (\<lambda>it. it \<lparr> downloadPromise := Some (downloadYouTubeVideo E (url item)) \<rparr>) (queue s)) \<and>
   background (snd (addToQueue E username source t s)) =
     (if (\<exists>m. resolveMediaSource (resolver E) source = Inr (Some m) \<and> mtype m = Tyoutube \<and>
               isLive m \<noteq> Some True)
      then background s @ [nextId (queue s)] else background s) \<and>
   (\<forall>m. resolveMediaSource (resolver E) source = Inr (Some m) \<and> mtype m = Tyoutube \<and>
      isLive m \<noteq> Some True \<and>
      list_all (\<lambda>it. item_id it < nextId (queue s)) (items (queue s)) \<longrightarrow>
      items (queue (snd (addToQueue E username source t s))) =
        items (queue s) @
        [\<lparr> url = url m, title = title m, mtype = Tyoutube, isLive = isLive m,
           headers = headers m, item_id = nextId (queue s), requestedBy = username,
           originalInput = Some source, downloadPath = None,
           downloadPromise = Some (downloadYouTubeVideo E (url m)) \<rparr>]) \<and>
   background (playVideo ops cfg E source t vp hs qi seek s) = background s \<and>
   background (playFromQueue ops cfg E s) = background s \<and>
   background (skipCurrent ops cfg E s) = background s \<and>
   background (autoplay_fires ops cfg E s) = background s \<and>
   background (stopAndClearQueue s) = background s \<and>
   background (cleanupStreamStatus s) = background s \<and>
   background (download_settles i s) = background s \<and>
   background (saveState cfg now_ms s) = background s \<and>
   background (leaveTimeout_fires s) = background s \<and>
   (background (resumeState ops cfg E username channel_ok now_ms s) = background s \<or>
    (\<exists>input. background (resumeState ops cfg E username channel_ok now_ms s) =
              background (snd (addToQueue E username input None s)))) \<and>
   (keeps_counter ops \<and> reachable ops cfg r \<longrightarrow> downloads_once r)"
proof (intro conjI allI impI)
  fix item
  show "background (startBackgroundDownload E item s) = background s @ [item_id item]"
    by (rule sbd_background)
  show "queue (startBackgroundDownload E item s) =
        update_item (item_id item)
          (\<lambda>it. it \<lparr> downloadPromise := Some (downloadYouTubeVideo E (url item)) \<rparr>) (queue s)"
    by (rule sbd_queue)
next
  show "background (snd (addToQueue E username source t s)) =
     (if (\<exists>m. resolveMediaSource (resolver E) source = Inr (Some m) \<and> mtype m = Tyoutube \<and>
               isLive m \<noteq> Some True)
      then background s @ [nextId (queue s)] else background s)"
    by (rule addToQueue_background)
next
  fix m
  assume "resolveMediaSource (resolver E) source = Inr (Some m) \<and> mtype m = Tyoutube \<and>
      isLive m \<noteq> Some True \<and>
      list_all (\<lambda>it. item_id it < nextId (queue s)) (items (queue s))"
  then show "items (queue (snd (addToQueue E username source t s))) =
        items (queue s) @
        [\<lparr> url = url m, title = title m, mtype = Tyoutube, isLive = isLive m,
           headers = headers m, item_id = nextId (queue s), requestedBy = username,
           originalInput = Some source, downloadPath = None,
           downloadPromise = Some (downloadYouTubeVideo E (url m)) \<rparr>]"
    using addToQueue_attaches [of E source m s username t] by simp
next
  show "background (playVideo ops cfg E source t vp hs qi seek s) = background s"
    by (rule background_playVideo)
  show "background (playFromQueue ops cfg E s) = background s"
    by (rule background_playFromQueue)
  show "background (skipCurrent ops cfg E s) = background s"
    by (rule background_skipCurrent)
  show "background (autoplay_fires ops cfg E s) = background s"
    by (rule background_timer)
  show "background (stopAndClearQueue s) = background s"
    and "background (cleanupStreamStatus s) = background s"
    and "background (download_settles i s) = background s"
    and "background (saveState cfg now_ms s) = background s"
    and "background (leaveTimeout_fires s) = background s"
    by (rule background_others)+
  show "background (resumeState ops cfg E username channel_ok now_ms s) = background s \<or>
    (\<exists>input. background (resumeState ops cfg E username channel_ok now_ms s) =
              background (snd (addToQueue E username input None s)))"
    by (rule background_resume)
next
  assume "keeps_counter ops \<and> reachable ops cfg r"
  then show "downloads_once r"
    using reachable_once by blast
qed

lemma download_P_yt: "downloadYouTubeVideo P_yt u = Inr (Some ''/tmp/abc.mp4'')"
  by (simp add: downloadYouTubeVideo_def try_catch_def P_yt_def)

lemma s_Y_eq:
  "s_Y = (new_service None)
           \<lparr> queue := \<lparr> items = [item_Y], currentIndex = - 1, isPlaying = False, nextId = 2 \<rparr>,
             sent := [SendSuccess ''Added to queue: `A video`''],
             background := [1] \<rparr>"
  by (simp add: s_Y_def addToQueue_def yt_resolved queue_addToQueue_def queue_add_def
      notify_def startBackgroundDownload_def update_item_def download_P_yt new_service_def
      empty_queue_def item_Y_def Let_def)

text \<open>
  Claim C6, as stated, fails in its first part: attaching to an item that already
  has a download is not a no-op. A second download is spawned for the same item and
  the state changes.
\<close>

theorem reattach_counterexample:
  "items (queue s_Y) = [item_Y] \<and>
   downloadPromise item_Y = Some (Inr (Some ''/tmp/abc.mp4'')) \<and>
   background s_Y = [1] \<and>
   background (startBackgroundDownload P_yt item_Y s_Y) = [1, 1] \<and>
   startBackgroundDownload P_yt item_Y s_Y \<noteq> s_Y"
proof -
  have b: "background (startBackgroundDownload P_yt item_Y s_Y) = [1, 1]"
    by (simp add: sbd_background s_Y_eq item_Y_def)
  have "background s_Y = [1]"
    by (simp add: s_Y_eq)
  with b have "startBackgroundDownload P_yt item_Y s_Y \<noteq> s_Y"
    by auto
  with b show ?thesis
    by (simp add: s_Y_eq item_Y_def)
qed

lemma s_YY_reachable: "reachable fifo_ops cfg0 s_YY"
  unfolding s_YY_def s_Y_def
  by (intro reachable.plays_queue reachable.enqueues reachable.constructed)

theorem background_download_once_per_enqueue_witness:
  "resolveMediaSource (resolver P_yt) ''https://youtu.be/abc'' =
     Inr (Some \<lparr> url = ''https://youtu.be/abc'', title = ''A video'', mtype = Tyoutube,
                 isLive = Some False, headers = None \<rparr>) \<and>
   list_all (\<lambda>it. item_id it < nextId (queue (new_service None))) (items (queue (new_service None))) \<and>
   background s_Y = [1] \<and>
   items (queue s_Y) = [item_Y] \<and>
   background (snd (addToQueue P_ok ''dj'' ''not a video'' None s_Y)) = [1] \<and>
   keeps_counter fifo_ops \<and>
   reachable fifo_ops cfg0 s_YY \<and>
   downloads_once s_YY \<and>
   background s_YY = [1, 2]"
proof -
  note T = background_download_once_per_enqueue
    [where E = P_yt and s = "new_service None" and username = "''dj''"
       and source = "''https://youtu.be/abc''" and t = None and ops = fifo_ops and cfg = cfg0
       and r = s_YY]
  note U = background_download_once_per_enqueue
    [where E = P_yt and s = "snd (addToQueue P_yt ''dj'' ''https://youtu.be/abc'' None s_Y)"
       and ops = fifo_ops and cfg = cfg0]
  note V = background_download_once_per_enqueue
    [where E = P_yt and s = s_Y and username = "''dj''"
       and source = "''https://youtu.be/abc''" and t = None]
  have r: "resolveMediaSource (resolver P_yt) ''https://youtu.be/abc'' =
     Inr (Some \<lparr> url = ''https://youtu.be/abc'', title = ''A video'', mtype = Tyoutube,
                 isLive = Some False, headers = None \<rparr>)"
    by (simp add: yt_resolved)
  have l: "list_all (\<lambda>it. item_id it < nextId (queue (new_service None)))
              (items (queue (new_service None)))"
    by (simp add: new_service_def empty_queue_def)
  from T r l have "items (queue s_Y) =
      items (queue (new_service None)) @
      [\<lparr> url = ''https://youtu.be/abc'', title = ''A video'', mtype = Tyoutube,
         isLive = Some False, headers = None, item_id = nextId (queue (new_service None)),
         requestedBy = ''dj'', originalInput = Some ''https://youtu.be/abc'',
         downloadPath = None,
         downloadPromise = Some (downloadYouTubeVideo P_yt ''https://youtu.be/abc'') \<rparr>]"
    unfolding s_Y_def by fastforce
  then have i: "items (queue s_Y) = [item_Y]"
    by (simp add: new_service_def empty_queue_def item_Y_def download_P_yt)
  have n: "background (snd (addToQueue P_ok ''dj'' ''not a video'' None s_Y)) = [1]"
    using background_download_once_per_enqueue [of P_ok s_Y "''dj''" "''not a video''" None]
    by (simp add: not_a_video_unresolved s_Y_eq)
  from T keeps_counter_fifo s_YY_reachable have o: "downloads_once s_YY"
    by blast
  from U have "background s_YY =
      background (snd (addToQueue P_yt ''dj'' ''https://youtu.be/abc'' None s_Y))"
    unfolding s_YY_def by blast
  also from V r have "\<dots> = background s_Y @ [nextId (queue s_Y)]"
    by auto
  finally have b: "background s_YY = [1, 2]"
    by (simp add: s_Y_eq)
  from r l i n o b keeps_counter_fifo s_YY_reachable show ?thesis
    by (simp add: s_Y_eq)
qed
subsection \<open>The playback snapshot\<close>







lemma resolver_P_resume [simp]: "resolver P_resume = env_down"
  by (simp add: P_resume_def)










end
